theory Spec2Isabelle
  imports Complex_Main "HOL-Library.Log_Nat"
begin

section \<open>Strings\<close>

text \<open>
  A JavaScript string is a sequence of UTF-16 code units, and \<open>length\<close>, the regular
  expressions and the template literals of the sources all work on code units. A string
  is therefore a list of code units (natural numbers below 65536); \<open>js\<close> embeds an
  ASCII literal.
\<close>

type_synonym jsstring = "nat list"

definition js :: "string \<Rightarrow> jsstring" where
  "js s = map of_char s"

text \<open>
  \<open>String.prototype.toLowerCase\<close>. The ASCII letters are mapped exactly, together with
  the two code units outside ASCII whose lower-case form contains an ASCII letter
  (KELVIN SIGN and LATIN CAPITAL LETTER I WITH DOT ABOVE). Every other code unit is
  left as it is, which is exact for caseless scripts such as Japanese and never changes
  whether the result equals or contains an ASCII pattern.
\<close>

definition lowerUnit :: "nat \<Rightarrow> jsstring" where
  "lowerUnit c =
     (if 65 \<le> c \<and> c \<le> 90 then [c + 32]
      else if c = 0x212A then [107]
      else if c = 0x0130 then [105, 0x0307]
      else [c])"

definition toLowerCase :: "jsstring \<Rightarrow> jsstring" where
  "toLowerCase s = concat (map lowerUnit s)"

text \<open>\<open>String.prototype.trim\<close>: white space and line terminators of ECMAScript.\<close>

definition isWhiteSpace :: "nat \<Rightarrow> bool" where
  "isWhiteSpace c =
     (c = 9 \<or> c = 10 \<or> c = 11 \<or> c = 12 \<or> c = 13 \<or> c = 32 \<or> c = 0xA0 \<or> c = 0x1680
      \<or> (0x2000 \<le> c \<and> c \<le> 0x200A) \<or> c = 0x2028 \<or> c = 0x2029 \<or> c = 0x202F
      \<or> c = 0x205F \<or> c = 0x3000 \<or> c = 0xFEFF)"

definition trim :: "jsstring \<Rightarrow> jsstring" where
  "trim s = rev (dropWhile isWhiteSpace (rev (dropWhile isWhiteSpace s)))"

text \<open>
  The regular expressions of the sources are alternatives of literal strings, tested
  unanchored: \<open>/a|b|c/.test(s)\<close> holds when \<open>s\<close> contains one of the literals.
\<close>

fun startsWith :: "jsstring \<Rightarrow> jsstring \<Rightarrow> bool" where
  "startsWith s [] = True"
| "startsWith [] (p # ps) = False"
| "startsWith (c # cs) (p # ps) = (c = p \<and> startsWith cs ps)"

fun containsStr :: "jsstring \<Rightarrow> jsstring \<Rightarrow> bool" where
  "containsStr [] pat = (pat = [])"
| "containsStr (c # cs) pat = (startsWith (c # cs) pat \<or> containsStr cs pat)"

definition testAny :: "jsstring list \<Rightarrow> jsstring \<Rightarrow> bool" where
  "testAny pats s = list_ex (containsStr s) pats"

section \<open>Time values and the calendar\<close>

text \<open>
  A \<open>Date\<close> is its time value: milliseconds since 1970-01-01T00:00:00Z, an integer
  (within the range of \<open>Date\<close>, so that TimeClip changes nothing). The functions below
  are those of the ECMAScript specification (Day, TimeWithinDay, DayFromYear, MakeDay,
  DateFromTime, LocalTime, UTC). The civil date of a day number is computed by the usual
  closed form on 400-year eras.
\<close>

definition msPerDay :: int where
  "msPerDay = 86400000"

definition Day :: "int \<Rightarrow> int" where
  "Day t = t div msPerDay"

definition TimeWithinDay :: "int \<Rightarrow> int" where
  "TimeWithinDay t = t mod msPerDay"

definition DayFromYear :: "int \<Rightarrow> int" where
  "DayFromYear y =
     365 * (y - 1970) + (y - 1969) div 4 - (y - 1901) div 100 + (y - 1601) div 400"

definition InLeapYear :: "int \<Rightarrow> bool" where
  "InLeapYear y = (y mod 4 = 0 \<and> (y mod 100 \<noteq> 0 \<or> y mod 400 = 0))"

text \<open>Days of the year before month \<open>mn\<close> (0 = January).\<close>

definition daysBeforeMonth :: "int \<Rightarrow> int \<Rightarrow> int" where
  "daysBeforeMonth y mn =
     [0, 31, 59, 90, 120, 151, 181, 212, 243, 273, 304, 334] ! nat (mn mod 12)
     + (if InLeapYear y \<and> 2 \<le> mn mod 12 then 1 else 0)"

text \<open>
  MakeDay(year, month, date): the day number of the first day of the month, plus
  \<open>date - 1\<close>; a date past the end of the month runs on into the next one.
\<close>

definition MakeDay :: "int \<Rightarrow> int \<Rightarrow> int \<Rightarrow> int" where
  "MakeDay year month date =
     (let ym = year + month div 12
      in DayFromYear ym + daysBeforeMonth ym month + date - 1)"

definition MakeDate :: "int \<Rightarrow> int \<Rightarrow> int" where
  "MakeDate day time = day * msPerDay + time"

text \<open>The civil date (year, month 1..12, day 1..31) of a day number.\<close>

definition civilFromDays :: "int \<Rightarrow> int \<times> int \<times> int" where
  "civilFromDays z =
     (let z' = z + 719468;
          era = z' div 146097;
          doe = z' - era * 146097;
          yoe = (doe - doe div 1460 + doe div 36524 - doe div 146096) div 365;
          doy = doe - (365 * yoe + yoe div 4 - yoe div 100);
          mp = (5 * doy + 2) div 153;
          d = doy - (153 * mp + 2) div 5 + 1;
          m = (if mp < 10 then mp + 3 else mp - 9);
          y = yoe + era * 400 + (if m \<le> 2 then 1 else 0)
      in (y, m, d))"

definition YearFromTime :: "int \<Rightarrow> int" where
  "YearFromTime t = fst (civilFromDays (Day t))"

definition MonthFromTime :: "int \<Rightarrow> int" where
  "MonthFromTime t = fst (snd (civilFromDays (Day t))) - 1"

definition DateFromTime :: "int \<Rightarrow> int" where
  "DateFromTime t = Day t - MakeDay (YearFromTime t) (MonthFromTime t) 1 + 1"

text \<open>
  The local time zone of the process, given by the two offsets of the ECMAScript
  specification, in milliseconds: LocalTZA(t, true), the offset of local time from UTC
  at the instant \<open>t\<close>, and LocalTZA(t, false), the offset by which the local time value
  \<open>t\<close> is read (for a local time that a transition skips or repeats, the offset before
  the transition).
\<close>

record TimeZone =
  offsetAtUTC :: "int \<Rightarrow> int"
  offsetAtLocal :: "int \<Rightarrow> int"

definition LocalTime :: "TimeZone \<Rightarrow> int \<Rightarrow> int" where
  "LocalTime tz t = t + offsetAtUTC tz t"

definition UTC :: "TimeZone \<Rightarrow> int \<Rightarrow> int" where
  "UTC tz t = t - offsetAtLocal tz t"

text \<open>
  \<open>Date.prototype.getDate\<close>, \<open>setDate\<close> and \<open>getFullYear\<close>, which work in local time;
  \<open>setDate\<close> returns the new time value.
\<close>

definition getDate :: "TimeZone \<Rightarrow> int \<Rightarrow> int" where
  "getDate tz t = DateFromTime (LocalTime tz t)"

definition setDate :: "TimeZone \<Rightarrow> int \<Rightarrow> int \<Rightarrow> int" where
  "setDate tz t dt =
     (let lt = LocalTime tz t
      in UTC tz (MakeDate (MakeDay (YearFromTime lt) (MonthFromTime lt) dt) (TimeWithinDay lt)))"

definition getFullYear :: "TimeZone \<Rightarrow> int \<Rightarrow> int" where
  "getFullYear tz t = YearFromTime (LocalTime tz t)"

text \<open>Decimal digits, zero-padded to a fixed width; \<open>digit\<close> is the code unit of a digit.\<close>

definition digit :: "nat \<Rightarrow> nat" where
  "digit v = 48 + v mod 10"

definition pad2 :: "nat \<Rightarrow> jsstring" where
  "pad2 v = [digit (v div 10), digit v]"

definition pad3 :: "nat \<Rightarrow> jsstring" where
  "pad3 v = [digit (v div 100), digit (v div 10), digit v]"

definition pad4 :: "nat \<Rightarrow> jsstring" where
  "pad4 v = [digit (v div 1000), digit (v div 100), digit (v div 10), digit v]"

definition pad6 :: "nat \<Rightarrow> jsstring" where
  "pad6 v = [digit (v div 100000), digit (v div 10000), digit (v div 1000), digit (v div 100),
             digit (v div 10), digit v]"

text \<open>
  \<open>toISOString\<close> works in UTC. Its year: four digits for the years 0 to 9999, a sign
  and six digits otherwise.
\<close>

definition isoYear :: "int \<Rightarrow> jsstring" where
  "isoYear y =
     (if 0 \<le> y \<and> y \<le> 9999 then pad4 (nat y)
      else (if y < 0 then js ''-'' else js ''+'') @ pad6 (nat \<bar>y\<bar>))"

definition toISOString :: "int \<Rightarrow> jsstring" where
  "toISOString t =
     (let w = TimeWithinDay t
      in isoYear (YearFromTime t) @ js ''-'' @ pad2 (nat (MonthFromTime t + 1)) @ js ''-''
         @ pad2 (nat (DateFromTime t)) @ js ''T''
         @ pad2 (nat (w div 3600000)) @ js '':''
         @ pad2 (nat (w div 60000 mod 60)) @ js '':''
         @ pad2 (nat (w div 1000 mod 60)) @ js ''.''
         @ pad3 (nat (w mod 1000)) @ js ''Z'')"

text \<open>\<open>s.split('T')[0]\<close>: the part of \<open>s\<close> before its first \<open>T\<close>.\<close>

definition beforeT :: "jsstring \<Rightarrow> jsstring" where
  "beforeT s = takeWhile (\<lambda>c. c \<noteq> 84) s"

definition isDigit :: "nat \<Rightarrow> bool" where
  "isDigit c = (48 \<le> c \<and> c \<le> 57)"

definition digitVal :: "nat \<Rightarrow> int" where
  "digitVal c = int c - 48"

text \<open>The test \<open>/^\d{4}-\d{2}-\d{2}$/\<close>.\<close>

fun isDateLiteral :: "jsstring \<Rightarrow> bool" where
  "isDateLiteral [y1, y2, y3, y4, h1, m1, m2, h2, d1, d2] =
     (isDigit y1 \<and> isDigit y2 \<and> isDigit y3 \<and> isDigit y4 \<and> h1 = 45
      \<and> isDigit m1 \<and> isDigit m2 \<and> h2 = 45 \<and> isDigit d1 \<and> isDigit d2)"
| "isDateLiteral s = False"

text \<open>
  \<open>new Date(s)\<close> for a string of that form: the time value of midnight UTC, or
  \<open>None\<close> for an invalid date (NaN). As in V8, the month must be 01..12 and the day
  01..31, and a day past the end of its month runs on into the next month.
\<close>

fun dateOfLiteral :: "jsstring \<Rightarrow> int option" where
  "dateOfLiteral [y1, y2, y3, y4, h1, m1, m2, h2, d1, d2] =
     (let y = 1000 * digitVal y1 + 100 * digitVal y2 + 10 * digitVal y3 + digitVal y4;
          m = 10 * digitVal m1 + digitVal m2;
          d = 10 * digitVal d1 + digitVal d2
      in if 1 \<le> m \<and> m \<le> 12 \<and> 1 \<le> d \<and> d \<le> 31
         then Some (MakeDate (MakeDay y (m - 1) d) 0) else None)"
| "dateOfLiteral s = None"

text \<open>\<open>a < b\<close> on dates: false when \<open>a\<close> is an invalid date.\<close>

definition dateBefore :: "int option \<Rightarrow> int \<Rightarrow> bool" where
  "dateBefore a b = (case a of None \<Rightarrow> False | Some t \<Rightarrow> t < b)"

section \<open>The weather tool (src/lib/weatherTools.ts)\<close>

datatype DateType = Current | Historical | Forecast

text \<open>
  \<open>parseDate\<close>; \<open>tz\<close> is the local time zone, \<open>today\<close> is the reading of the clock
  (\<open>new Date()\<close>), \<open>dateStr\<close> is \<open>None\<close> when the argument is absent (the default
  \<open>"today"\<close> applies). The result is the object \<open>{ targetDate, dateType }\<close> as a pair.
\<close>

definition parseDate ::
  "TimeZone \<Rightarrow> int \<Rightarrow> jsstring option \<Rightarrow> jsstring option \<times> DateType" where
  "parseDate tz today dateStrOpt =
     (let dateStr = (case dateStrOpt of None \<Rightarrow> js ''today'' | Some s \<Rightarrow> s);
          l = toLowerCase dateStr
      in if l = js ''today'' \<or> l = js ''now'' then (None, Current)
         else if l = js ''tomorrow'' then
           (let tomorrow = setDate tz today (getDate tz today + 1)
            in (Some (beforeT (toISOString tomorrow)), Forecast))
         else if l = js ''yesterday'' then
           (let yesterday = setDate tz today (getDate tz today - 1)
            in (Some (beforeT (toISOString yesterday)), Historical))
         else if isDateLiteral dateStr then
           (let targetDate = dateOfLiteral dateStr;
                isHistorical = dateBefore targetDate today
            in (Some dateStr, if isHistorical then Historical else Forecast))
         else (None, Current))"

text \<open>
  Errors thrown by the sources and by the runtime, as values. A function that can throw
  returns \<open>error + 'a\<close>, with \<open>Inl\<close> the error.
\<close>

datatype error =
    TypeError
  | SyntaxError
  | ReferenceError jsstring
  | CouldNotFindCoordinates jsstring
  | WeatherApiError nat
  | NoWeatherData
  | FetchFailed
  | OpenAIApiError nat
  | OpenAIFinalResponseError nat

text \<open>
  Numbers. A number of the source is a finite IEEE double and is given here as the real
  number it denotes; a decimal stands for the double nearest to it. \<open>toDouble\<close> is that
  double: the nearest one, a tie going to the even significand (magnitudes are taken to
  stay below the largest double). It leaves a double as it is, and it is applied where
  the sources compute with a number: to the operands and to the sum of an addition, the
  only arithmetic of the sources that rounds. \<open>exponentOf x\<close> is the exponent of the
  binade of a positive \<open>x\<close>, the integer \<open>e\<close> with \<open>2^e \<le> x < 2^(e+1)\<close>, and \<open>ulp e\<close>
  is the distance between neighbouring doubles of that binade, \<open>2^(e-52)\<close>; the binades
  below that of the smallest normal double, \<open>2^(-1022)\<close>, share its distance.
\<close>

definition exponentOf :: "real \<Rightarrow> int" where
  "exponentOf x = (if 1 \<le> x then bitlen \<lfloor>x\<rfloor> - 1 else - bitlen (\<lceil>1 / x\<rceil> - 1))"

definition roundTiesToEven :: "real \<Rightarrow> int" where
  "roundTiesToEven q =
     (let f = \<lfloor>q\<rfloor>; d = q - of_int f
      in if d < 1 / 2 then f else if 1 / 2 < d then f + 1 else if even f then f else f + 1)"

definition ulp :: "int \<Rightarrow> real" where
  "ulp e = (if 52 \<le> e then 2 ^ nat (e - 52) else 1 / 2 ^ nat (52 - e))"

definition toDouble :: "real \<Rightarrow> real" where
  "toDouble x =
     (if x = 0 then 0
      else
        (let u = ulp (max (exponentOf \<bar>x\<bar>) (- 1022))
         in of_int (roundTiesToEven (x / u)) * u))"

text \<open>
  \<open>CITY_COORDINATES\<close>. The table is an object literal, so a property read also finds
  what every object inherits: of the lower-case strings, \<open>constructor\<close> and
  \<open>__proto__\<close> give a truthy value that has no \<open>lat\<close>, \<open>lng\<close> or \<open>country\<close>.
\<close>

record CityEntry =
  lat :: real
  lng :: real
  entry_country :: jsstring

definition CITY_COORDINATES :: "(jsstring \<times> CityEntry) list" where
  "CITY_COORDINATES =
    [(js ''mumbai'', \<lparr>lat = 19.0760, lng = 72.8777, entry_country = js ''India''\<rparr>),
     (js ''delhi'', \<lparr>lat = 28.7041, lng = 77.1025, entry_country = js ''India''\<rparr>),
     (js ''bangalore'', \<lparr>lat = 12.9716, lng = 77.5946, entry_country = js ''India''\<rparr>),
     (js ''varanasi'', \<lparr>lat = 25.3176, lng = 82.9739, entry_country = js ''India''\<rparr>),
     (js ''kolkata'', \<lparr>lat = 22.5726, lng = 88.3639, entry_country = js ''India''\<rparr>),
     (js ''chennai'', \<lparr>lat = 13.0827, lng = 80.2707, entry_country = js ''India''\<rparr>),
     (js ''hyderabad'', \<lparr>lat = 17.3850, lng = 78.4867, entry_country = js ''India''\<rparr>),
     (js ''pune'', \<lparr>lat = 18.5204, lng = 73.8567, entry_country = js ''India''\<rparr>),
     (js ''tokyo'', \<lparr>lat = 35.6762, lng = 139.6503, entry_country = js ''Japan''\<rparr>),
     (js ''london'', \<lparr>lat = 51.5074, lng = - 0.1278, entry_country = js ''UK''\<rparr>),
     (js ''paris'', \<lparr>lat = 48.8566, lng = 2.3522, entry_country = js ''France''\<rparr>),
     (js ''new york'', \<lparr>lat = 40.7128, lng = - 74.0060, entry_country = js ''USA''\<rparr>),
     (js ''sydney'', \<lparr>lat = - 33.8688, lng = 151.2093, entry_country = js ''Australia''\<rparr>),
     (js ''berlin'', \<lparr>lat = 52.5200, lng = 13.4050, entry_country = js ''Germany''\<rparr>),
     (js ''rome'', \<lparr>lat = 41.9028, lng = 12.4964, entry_country = js ''Italy''\<rparr>),
     (js ''madrid'', \<lparr>lat = 40.4168, lng = - 3.7038, entry_country = js ''Spain''\<rparr>)]"

datatype TableRead = OwnEntry CityEntry | Inherited | Absent

definition readCityCoordinates :: "jsstring \<Rightarrow> TableRead" where
  "readCityCoordinates key =
     (case map_of CITY_COORDINATES key of
        Some e \<Rightarrow> OwnEntry e
      | None \<Rightarrow>
          if key = js ''constructor'' \<or> key = js ''__proto__'' then Inherited else Absent)"

text \<open>
  The object \<open>getCoordinates\<close> returns; a field is \<open>None\<close> where the source leaves it
  \<open>undefined\<close>.
\<close>

record Coordinates =
  coords_lat :: "real option"
  coords_lng :: "real option"
  coords_city :: jsstring
  coords_country :: "jsstring option"

text \<open>
  The geocoding provider, an external service: for a name, either the fetch or the
  decoding of its body fails, or the body holds a (possibly empty or missing) list of
  results.
\<close>

record GeocodingResult =
  geo_latitude :: real
  geo_longitude :: real
  geo_name :: jsstring
  geo_country :: "jsstring option"

datatype GeocodingOutcome = GeocodingFailed | GeocodingResults "GeocodingResult list"

text \<open>
  The weather provider. A request is one of the three URLs the tool builds; the outcome
  is a failed fetch, a status that is not ok, or the decoded body. The parallel arrays
  of the \<open>daily\<close> block are a list of rows, one per day.
\<close>

datatype WeatherRequest =
    ArchiveDaily real real jsstring
  | ForecastDaily real real jsstring
  | ForecastCurrent real real

record CurrentBlock =
  temperature_2m :: real
  weather_code :: nat
  relative_humidity_2m :: real
  wind_speed_10m :: real
  current_precipitation :: real
  uv_index :: real
  current_time :: jsstring

record DailyRow =
  daily_time :: jsstring
  temperature_2m_max :: real
  temperature_2m_min :: real
  daily_weather_code :: nat
  relative_humidity_2m_max :: real
  wind_speed_10m_max :: real
  precipitation_sum :: real
  uv_index_max :: real

record WeatherBody =
  body_current :: "CurrentBlock option"
  body_daily :: "DailyRow list option"

datatype WeatherOutcome = WeatherFetchFailed | WeatherStatus nat | WeatherOk WeatherBody

text \<open>The requests a lookup sends, in the order it sends them.\<close>

datatype IoEvent = GeocodingRequest jsstring | WeatherRequestSent WeatherRequest

record WeatherToolResponse =
  w_city :: jsstring
  w_country :: "jsstring option"
  temperature :: int
  description :: jsstring
  humidity :: real
  windSpeed :: real
  precipitation :: real
  uvIndex :: real
  timestamp :: jsstring
  dateType :: DateType
  w_targetDate :: "jsstring option"

text \<open>
  \<open>encodeURIComponent\<close> throws a \<open>URIError\<close> on a string that holds a surrogate code
  unit outside a pair; \<open>isWellFormed\<close> says that there is none.
\<close>

fun isWellFormed :: "jsstring \<Rightarrow> bool" where
  "isWellFormed [] = True"
| "isWellFormed [c] = (\<not> (0xD800 \<le> c \<and> c \<le> 0xDFFF))"
| "isWellFormed (c # d # ds) =
     (if 0xD800 \<le> c \<and> c \<le> 0xDBFF then 0xDC00 \<le> d \<and> d \<le> 0xDFFF \<and> isWellFormed ds
      else \<not> (0xDC00 \<le> c \<and> c \<le> 0xDFFF) \<and> isWellFormed (d # ds))"

text \<open>
  \<open>getCoordinates\<close>: the requests sent and the result. Every failure of the geocoding
  branch is caught and thrown again as one error that names the location; building the
  URL is part of that branch, so a name that cannot be encoded fails with no request.
\<close>

definition getCoordinates ::
  "(jsstring \<Rightarrow> GeocodingOutcome) \<Rightarrow> jsstring \<Rightarrow> IoEvent list \<times> (error + Coordinates)" where
  "getCoordinates geocoding loc =
     (let normalizedLocation = trim (toLowerCase loc)
      in case readCityCoordinates normalizedLocation of
           OwnEntry coords \<Rightarrow>
             ([], Inr \<lparr>coords_lat = Some (lat coords), coords_lng = Some (lng coords),
                       coords_city = loc, coords_country = Some (entry_country coords)\<rparr>)
         | Inherited \<Rightarrow>
             ([], Inr \<lparr>coords_lat = None, coords_lng = None,
                       coords_city = loc, coords_country = None\<rparr>)
         | Absent \<Rightarrow>
             if \<not> isWellFormed loc then ([], Inl (CouldNotFindCoordinates loc))
             else
               ([GeocodingRequest loc],
                case geocoding loc of
                  GeocodingFailed \<Rightarrow> Inl (CouldNotFindCoordinates loc)
                | GeocodingResults [] \<Rightarrow> Inl (CouldNotFindCoordinates loc)
                | GeocodingResults (result # rest) \<Rightarrow>
                    Inr \<lparr>coords_lat = Some (geo_latitude result),
                         coords_lng = Some (geo_longitude result),
                         coords_city = geo_name result, coords_country = geo_country result\<rparr>))"

definition weatherDescriptions :: "(nat \<times> jsstring) list" where
  "weatherDescriptions =
    [(0, js ''Clear sky''), (1, js ''Mainly clear''), (2, js ''Partly cloudy''),
     (3, js ''Overcast''), (45, js ''Fog''), (48, js ''Depositing rime fog''),
     (51, js ''Light drizzle''), (53, js ''Moderate drizzle''), (55, js ''Dense drizzle''),
     (61, js ''Slight rain''), (63, js ''Moderate rain''), (65, js ''Heavy rain''),
     (71, js ''Slight snow fall''), (73, js ''Moderate snow fall''), (75, js ''Heavy snow fall''),
     (80, js ''Slight rain showers''), (81, js ''Moderate rain showers''),
     (82, js ''Violent rain showers''), (95, js ''Thunderstorm'')]"

definition describe :: "nat \<Rightarrow> jsstring" where
  "describe code = (case map_of weatherDescriptions code of Some d \<Rightarrow> d | None \<Rightarrow> js ''Unknown'')"

text \<open>
  \<open>Math.round\<close> of a double: to the nearest integer, a half towards plus infinity. It is
  exact on the double it is given.
\<close>

definition Math_round :: "real \<Rightarrow> int" where
  "Math_round x = \<lfloor>x + 1 / 2\<rfloor>"

text \<open>Step 3 of \<open>executeWeatherTool\<close>: the URL for a date classification.\<close>

definition weatherRequest :: "real \<Rightarrow> real \<Rightarrow> jsstring option \<times> DateType \<Rightarrow> WeatherRequest" where
  "weatherRequest la lo parsed =
     (case parsed of
        (Some targetDate, Historical) \<Rightarrow> ArchiveDaily la lo targetDate
      | (Some targetDate, Forecast) \<Rightarrow> ForecastDaily la lo targetDate
      | _ \<Rightarrow> ForecastCurrent la lo)"

text \<open>
  Step 5: the observation built from the decoded body. The sum of the two temperatures
  is rounded to a double; halving it is exact.
\<close>

definition processWeather ::
  "Coordinates \<Rightarrow> jsstring option \<times> DateType \<Rightarrow> WeatherBody \<Rightarrow> error + WeatherToolResponse" where
  "processWeather coords parsed data =
     (if snd parsed = Current then
        (case body_current data of
           None \<Rightarrow> Inl TypeError
         | Some cur \<Rightarrow>
             Inr \<lparr>w_city = coords_city coords, w_country = coords_country coords,
                  temperature = Math_round (toDouble (temperature_2m cur)),
                  description = describe (weather_code cur),
                  humidity = relative_humidity_2m cur, windSpeed = wind_speed_10m cur,
                  precipitation = current_precipitation cur, uvIndex = uv_index cur,
                  timestamp = current_time cur, dateType = Current, w_targetDate = None\<rparr>)
      else
        (case body_daily data of
           None \<Rightarrow> Inl NoWeatherData
         | Some [] \<Rightarrow> Inl NoWeatherData
         | Some (row # rows) \<Rightarrow>
             Inr \<lparr>w_city = coords_city coords, w_country = coords_country coords,
                  temperature =
                    Math_round (toDouble (toDouble (temperature_2m_max row)
                                          + toDouble (temperature_2m_min row)) / 2),
                  description = describe (daily_weather_code row),
                  humidity = relative_humidity_2m_max row, windSpeed = wind_speed_10m_max row,
                  precipitation = precipitation_sum row, uvIndex = uv_index_max row,
                  timestamp = daily_time row, dateType = snd parsed,
                  w_targetDate = fst parsed\<rparr>))"

section \<open>The completion provider\<close>

text \<open>
  A tool invocation the provider requests (\<open>id\<close>, \<open>function.name\<close>,
  \<open>function.arguments\<close>), the assistant message that carries such requests, and the
  messages of a completion request. The two instruction preambles are long constant
  texts; a preamble is represented by what the source splices into it.
\<close>

record ToolCall =
  call_id :: jsstring
  function_name :: jsstring
  function_arguments :: jsstring

record AssistantMessage =
  message_content :: "jsstring option"
  tool_calls :: "ToolCall list option"

record ChatMessage =
  role :: jsstring
  content :: jsstring

datatype Preamble =
    AssistantPreamble bool
  | DatedAssistantPreamble bool jsstring int
  | FormattingPreamble bool
  | ComparisonFormattingPreamble bool

datatype RequestMessage =
    SystemMessage Preamble
  | HistoryMessage ChatMessage
  | AssistantToolCalls AssistantMessage
  | ToolResultMessage jsstring jsstring

record CompletionRequest =
  request_messages :: "RequestMessage list"
  declares_weatherTool :: bool

text \<open>
  The outcome of a completion call: the fetch or the decoding of the body fails, the
  status is not ok, or \<open>choices[0].message\<close> is read.
\<close>

datatype CompletionOutcome =
    CompletionFailed
  | CompletionStatus nat
  | CompletionOk AssistantMessage

text \<open>
  The arguments of a tool call are a JSON text, and what \<open>JSON.parse\<close> makes of it is
  any JSON value: the type \<open>WeatherToolParams\<close> of the sources is not checked when the
  program runs. An object is the list of its own properties, each key once. A number is
  a finite double, or an infinity, which is what a numeral beyond the largest double
  parses to (\<open>JInfinity True\<close> is the positive one).
\<close>

datatype JSON =
    JNull
  | JBool bool
  | JNumber real
  | JInfinity bool
  | JString jsstring
  | JArray "JSON list"
  | JObject "(jsstring \<times> JSON) list"

text \<open>
  Reading the property \<open>location\<close> or \<open>date\<close> of a parsed value (no prototype has a
  property of these names): it throws on \<open>null\<close>, finds an own property of an object,
  and is \<open>undefined\<close> (\<open>None\<close>) everywhere else.
\<close>

definition readProperty :: "jsstring \<Rightarrow> JSON \<Rightarrow> error + JSON option" where
  "readProperty name v =
     (case v of
        JNull \<Rightarrow> Inl TypeError
      | JObject props \<Rightarrow> Inr (map_of props name)
      | _ \<Rightarrow> Inr None)"

text \<open>
  The conversion to a string that a template literal applies to a parsed value; \<open>num\<close>
  is the engine's conversion of a finite number. An array is the join of its elements with
  commas, a \<open>null\<close> element giving the empty string. An object is
  \<open>[object Object]\<close>, unless it has an own property \<open>toString\<close>: that property is not a
  function, \<open>valueOf\<close> returns no primitive, and the conversion throws.
\<close>

fun ToString :: "(real \<Rightarrow> jsstring) \<Rightarrow> JSON \<Rightarrow> error + jsstring"
and joinElements :: "(real \<Rightarrow> jsstring) \<Rightarrow> JSON list \<Rightarrow> error + jsstring" where
  "ToString num JNull = Inr (js ''null'')"
| "ToString num (JBool b) = Inr (if b then js ''true'' else js ''false'')"
| "ToString num (JNumber x) = Inr (num x)"
| "ToString num (JInfinity positive) =
     Inr (if positive then js ''Infinity'' else js ''-Infinity'')"
| "ToString num (JString s) = Inr s"
| "ToString num (JArray xs) = joinElements num xs"
| "ToString num (JObject props) =
     (if map_of props (js ''toString'') = None then Inr (js ''[object Object]'')
      else Inl TypeError)"
| "joinElements num [] = Inr []"
| "joinElements num (x # xs) =
     (case (if x = JNull then Inr [] else ToString num x) of
        Inl e \<Rightarrow> Inl e
      | Inr s \<Rightarrow>
          if xs = [] then Inr s
          else (case joinElements num xs of Inl e \<Rightarrow> Inl e | Inr r \<Rightarrow> Inr (s @ js '','' @ r)))"

definition templateString :: "(real \<Rightarrow> jsstring) \<Rightarrow> JSON option \<Rightarrow> error + jsstring" where
  "templateString num v = (case v of None \<Rightarrow> Inr (js ''undefined'') | Some x \<Rightarrow> ToString num x)"

text \<open>
  Everything outside the sources: the three providers, the clock (one reading for one
  request) and the local time zone of the process, the engine's \<open>JSON.parse\<close> of a tool
  call's arguments (\<open>None\<close> when it throws a \<open>SyntaxError\<close>), its \<open>JSON.stringify\<close> of an
  observation and its conversion of a number to a string, and the configured credential.
\<close>

record Providers =
  geocoding :: "jsstring \<Rightarrow> GeocodingOutcome"
  weatherApi :: "WeatherRequest \<Rightarrow> WeatherOutcome"
  openai :: "CompletionRequest \<Rightarrow> CompletionOutcome"
  clock :: int
  zone :: TimeZone
  JSON_parse :: "jsstring \<Rightarrow> JSON option"
  JSON_stringify :: "WeatherToolResponse \<Rightarrow> jsstring"
  Number_toString :: "real \<Rightarrow> jsstring"
  OPENAI_API_KEY :: "jsstring option"

text \<open>
  \<open>getCoordinates\<close> and \<open>parseDate\<close> as they behave on what the program hands them. The
  first statement of \<open>getCoordinates\<close> calls \<open>toLowerCase\<close> on its argument, which throws
  a \<open>TypeError\<close> unless the argument is a string. The default \<open>"today"\<close> of \<open>parseDate\<close>
  applies to \<open>undefined\<close> only, and its \<open>switch\<close> calls \<open>toLowerCase\<close> in the same way.
\<close>

definition getCoordinatesOf ::
  "(jsstring \<Rightarrow> GeocodingOutcome) \<Rightarrow> JSON option \<Rightarrow> IoEvent list \<times> (error + Coordinates)" where
  "getCoordinatesOf geocode v =
     (case v of
        Some (JString loc) \<Rightarrow> getCoordinates geocode loc
      | _ \<Rightarrow> ([], Inl TypeError))"

definition parseDateOf ::
  "TimeZone \<Rightarrow> int \<Rightarrow> JSON option \<Rightarrow> error + jsstring option \<times> DateType" where
  "parseDateOf tz today v =
     (case v of
        None \<Rightarrow> Inr (parseDate tz today None)
      | Some (JString dateStr) \<Rightarrow> Inr (parseDate tz today (Some dateStr))
      | _ \<Rightarrow> Inl TypeError)"

text \<open>
  \<open>executeWeatherTool\<close>: the requests sent and either the error thrown (the \<open>catch\<close>
  block throws again what it caught) or the observation. Reading \<open>params.location\<close>
  throws when \<open>params\<close> is \<open>null\<close>, and reading \<open>coords.lat.toString()\<close> throws when the
  coordinates are undefined.
\<close>

definition executeWeatherTool ::
  "Providers \<Rightarrow> JSON \<Rightarrow> IoEvent list \<times> (error + WeatherToolResponse)" where
  "executeWeatherTool env params =
     (case readProperty (js ''location'') params of
        Inl e \<Rightarrow> ([], Inl e)
      | Inr location \<Rightarrow>
          (case getCoordinatesOf (geocoding env) location of
             (sent, Inl e) \<Rightarrow> (sent, Inl e)
           | (sent, Inr coords) \<Rightarrow>
               (case readProperty (js ''date'') params of
                  Inl e \<Rightarrow> (sent, Inl e)
                | Inr date \<Rightarrow>
                    (case parseDateOf (zone env) (clock env) date of
                       Inl e \<Rightarrow> (sent, Inl e)
                     | Inr parsed \<Rightarrow>
                         (case (coords_lat coords, coords_lng coords) of
                            (Some la, Some lo) \<Rightarrow>
                              (let url = weatherRequest la lo parsed
                               in (sent @ [WeatherRequestSent url],
                                   case weatherApi env url of
                                     WeatherFetchFailed \<Rightarrow> Inl FetchFailed
                                   | WeatherStatus st \<Rightarrow> Inl (WeatherApiError st)
                                   | WeatherOk data \<Rightarrow> processWeather coords parsed data))
                          | _ \<Rightarrow> (sent, Inl TypeError))))))"

section \<open>The context store (src/lib/contextManager.ts)\<close>

record LocationData =
  city :: jsstring
  country :: jsstring
  latitude :: real
  longitude :: real
  timezone :: "jsstring option"
  confidence :: "real option"
  lastUsed :: "jsstring option"

record RecentDate =
  recent_date :: jsstring
  recent_type :: DateType
  recent_lastUsed :: jsstring

record TemporalContext =
  currentTimeframe :: DateType
  targetDate :: "jsstring option"
  recentDates :: "RecentDate list"
  relativeDateContext :: "jsstring option"

datatype QueryIntent = Weather | Clothing | Travel | Comparison | General

datatype FlowType = LocationFlow | DateFlow | IntentFlow

record FlowItem =
  flow_type :: FlowType
  flow_value :: jsstring
  flow_timestamp :: jsstring

record ConversationContext =
  lastWeatherQuery :: jsstring
  queryIntent :: QueryIntent
  followUpContext :: "jsstring option"
  conversationFlow :: "FlowItem list"
  lastResponse :: "jsstring option"

datatype Units = Metric | Imperial

datatype DetailLevel = Basic | Detailed

record UserPreferences =
  language :: jsstring
  units :: Units
  detailLevel :: DetailLevel
  favoriteLocations :: "LocationData list"
  defaultLocation :: "LocationData option"

record LocationContext =
  current :: "LocationData option"
  recent :: "LocationData list"
  location_preferences :: "jsstring list"

record SessionInfo =
  startTime :: jsstring
  info_lastActivity :: jsstring
  messageCount :: nat

record WeatherContext =
  ctx_location :: LocationContext
  temporal :: TemporalContext
  conversation :: ConversationContext
  preferences :: UserPreferences
  ctx_session :: SessionInfo

definition MAX_RECENT_LOCATIONS :: nat where
  "MAX_RECENT_LOCATIONS = 5"

definition MAX_RECENT_DATES :: nat where
  "MAX_RECENT_DATES = 10"

text \<open>
  The state of a \<open>ContextManager\<close>: the context it owns and the snapshot in the
  browser's storage. \<open>onClient\<close> says whether \<open>window\<close> is defined; \<open>now\<close> is the
  reading of the clock during the call. A write to the storage succeeds.
\<close>

record ManagerState =
  mgr_context :: WeatherContext
  persisted :: "WeatherContext option"

definition initializeContext :: "int \<Rightarrow> WeatherContext" where
  "initializeContext now =
     \<lparr>ctx_location = \<lparr>current = None, recent = [], location_preferences = []\<rparr>,
      temporal = \<lparr>currentTimeframe = Current, targetDate = None, recentDates = [],
                  relativeDateContext = None\<rparr>,
      conversation = \<lparr>lastWeatherQuery = [], queryIntent = General, followUpContext = None,
                      conversationFlow = [], lastResponse = None\<rparr>,
      preferences = \<lparr>language = js ''ja'', units = Metric, detailLevel = Detailed,
                     favoriteLocations = [], defaultLocation = None\<rparr>,
      ctx_session = \<lparr>startTime = toISOString now, info_lastActivity = toISOString now,
                     messageCount = 0\<rparr>\<rparr>"

definition persistContext :: "bool \<Rightarrow> int \<Rightarrow> ManagerState \<Rightarrow> ManagerState" where
  "persistContext onClient now st =
     (if \<not> onClient then st
      else
        (let c = (mgr_context st)\<lparr>ctx_session :=
                   (ctx_session (mgr_context st))\<lparr>info_lastActivity := toISOString now\<rparr>\<rparr>
         in \<lparr>mgr_context = c, persisted = Some c\<rparr>))"

text \<open>\<open>xs.slice(-20)\<close>: the last 20 elements.\<close>

definition lastN :: "nat \<Rightarrow> 'a list \<Rightarrow> 'a list" where
  "lastN n xs = drop (length xs - n) xs"

definition addToConversationFlow ::
  "int \<Rightarrow> FlowType \<Rightarrow> jsstring \<Rightarrow> WeatherContext \<Rightarrow> WeatherContext" where
  "addToConversationFlow now ty v c =
     (let pushed = conversationFlow (conversation c)
                     @ [\<lparr>flow_type = ty, flow_value = v, flow_timestamp = toISOString now\<rparr>];
          kept = (if length pushed > 20 then lastN 20 pushed else pushed)
      in c\<lparr>conversation := (conversation c)\<lparr>conversationFlow := kept\<rparr>\<rparr>)"

text \<open>\<open>x || d\<close> on an optional number and on an optional string.\<close>

definition orNumber :: "real option \<Rightarrow> real \<Rightarrow> real" where
  "orNumber x d = (case x of None \<Rightarrow> d | Some v \<Rightarrow> if v = 0 then d else v)"

definition truthy :: "jsstring option \<Rightarrow> bool" where
  "truthy x = (case x of None \<Rightarrow> False | Some s \<Rightarrow> s \<noteq> [])"

definition orNull :: "jsstring option \<Rightarrow> jsstring option" where
  "orNull x = (if truthy x then x else None)"

definition sameLocation :: "LocationData \<Rightarrow> LocationData \<Rightarrow> bool" where
  "sameLocation loc l = (city loc = city l \<and> country loc = country l)"

text \<open>\<open>ContextManager.updateLocation\<close>.\<close>

definition ContextManager_updateLocation ::
  "bool \<Rightarrow> int \<Rightarrow> LocationData \<Rightarrow> ManagerState \<Rightarrow> ManagerState" where
  "ContextManager_updateLocation onClient now l st =
     (let c = mgr_context st;
          cur = l\<lparr>lastUsed := Some (toISOString now),
                  confidence := Some (orNumber (confidence l) 1)\<rparr>;
          filtered = filter (\<lambda>loc. \<not> sameLocation loc l) (recent (ctx_location c));
          unshifted = cur # filtered;
          capped = (if length unshifted > MAX_RECENT_LOCATIONS
                    then take MAX_RECENT_LOCATIONS unshifted else unshifted);
          c1 = c\<lparr>ctx_location := (ctx_location c)\<lparr>current := Some cur, recent := capped\<rparr>\<rparr>;
          c2 = addToConversationFlow now LocationFlow (city l @ js '', '' @ country l) c1
      in persistContext onClient now (st\<lparr>mgr_context := c2\<rparr>))"

text \<open>
  \<open>ContextManager.updateTemporalContext\<close>; \<open>tgt\<close> and \<open>rel\<close> are \<open>None\<close> when the
  optional arguments are absent.
\<close>

definition updateTemporalContext ::
  "bool \<Rightarrow> int \<Rightarrow> DateType \<Rightarrow> jsstring option \<Rightarrow> jsstring option \<Rightarrow> ManagerState \<Rightarrow> ManagerState" where
  "updateTemporalContext onClient now timeframe tgt rel st =
     (let c = mgr_context st;
          t1 = (temporal c)\<lparr>currentTimeframe := timeframe, targetDate := orNull tgt,
                            relativeDateContext := rel\<rparr>;
          c1 = c\<lparr>temporal := t1\<rparr>;
          c2 = (case orNull tgt of
                  None \<Rightarrow> c1
                | Some d \<Rightarrow>
                    if timeframe = Current then c1
                    else
                      (let filtered = filter (\<lambda>r. recent_date r \<noteq> d) (recentDates t1);
                           unshifted = \<lparr>recent_date = d, recent_type = timeframe,
                                        recent_lastUsed = toISOString now\<rparr> # filtered;
                           capped = (if length unshifted > MAX_RECENT_DATES
                                     then take MAX_RECENT_DATES unshifted else unshifted)
                       in addToConversationFlow now DateFlow
                            (case orNull rel of Some r \<Rightarrow> r | None \<Rightarrow> d)
                            (c1\<lparr>temporal := t1\<lparr>recentDates := capped\<rparr>\<rparr>)))
      in persistContext onClient now (st\<lparr>mgr_context := c2\<rparr>))"

text \<open>
  The marker test of \<open>resolveImplicitContext\<close> (its local constant
  \<open>hasExplicitLocation\<close>). The Japanese patterns are the code units of the three
  alternatives NO-TEN-KI, DE and NI.
\<close>

definition japaneseMarkers :: "jsstring list" where
  "japaneseMarkers = [[0x306E, 0x5929, 0x6C17], [0x3067], [0x306B]]"

definition hasExplicitLocation :: "jsstring \<Rightarrow> jsstring \<Rightarrow> bool" where
  "hasExplicitLocation lang query =
     (if lang = js ''ja'' then testAny japaneseMarkers query
      else testAny [js ''in '', js ''at '', js ''for ''] (toLowerCase query))"

text \<open>The two templates that splice the stored city into the query.\<close>

definition withCity :: "jsstring \<Rightarrow> jsstring \<Rightarrow> jsstring \<Rightarrow> jsstring" where
  "withCity lang cityName query =
     (if lang = js ''ja'' then cityName @ [0x306E] @ query
      else query @ js '' in '' @ cityName)"

record Resolution =
  needsLocationInput :: bool
  needsTimeInput :: bool
  contextualQuery :: jsstring

record ImplicitContext = Resolution +
  resolved_location :: "LocationData option"
  resolved_temporal :: TemporalContext

text \<open>\<open>ContextManager.resolveImplicitContext\<close>; it reads the state and changes nothing.\<close>

definition resolveImplicitContext :: "ManagerState \<Rightarrow> jsstring \<Rightarrow> jsstring \<Rightarrow> ImplicitContext" where
  "resolveImplicitContext st query lang =
     (let cur = current (ctx_location (mgr_context st));
          explicit = hasExplicitLocation lang query
      in \<lparr>needsLocationInput = (\<not> explicit \<and> cur = None),
          needsTimeInput = False,
          contextualQuery =
            (case cur of
               Some l \<Rightarrow> if \<not> explicit then withCity lang (city l) query else query
             | None \<Rightarrow> query),
          resolved_location = cur,
          resolved_temporal = temporal (mgr_context st)\<rparr>)"

section \<open>The session registry (second module of src/lib/contextManager.ts)\<close>

text \<open>
  A \<open>Date\<close> field is its time value. The store is the \<open>Map\<close> from session identifiers
  to sessions; a method that mutates a session in place returns the store with the new
  session under the same key. Every method reads the clock; \<open>now\<close> is that reading,
  one per call of a public method.
\<close>

record WeatherSession =
  sessionId :: jsstring
  session_context :: WeatherContext
  lastActivity :: int
  expiresAt :: int

type_synonym SessionStore = "jsstring \<rightharpoonup> WeatherSession"

definition SESSION_TIMEOUT :: int where
  "SESSION_TIMEOUT = 24 * 60 * 60 * 1000"

text \<open>\<open>Partial<WeatherContext>\<close>: a field is \<open>None\<close> when the key is absent.\<close>

record ContextUpdates =
  upd_location :: "LocationContext option"
  upd_temporal :: "TemporalContext option"
  upd_conversation :: "ConversationContext option"
  upd_preferences :: "UserPreferences option"
  upd_session :: "SessionInfo option"

definition noUpdates :: ContextUpdates where
  "noUpdates = \<lparr>upd_location = None, upd_temporal = None, upd_conversation = None,
                upd_preferences = None, upd_session = None\<rparr>"

text \<open>The spread \<open>{ ...c, ...updates }\<close>.\<close>

definition spread :: "WeatherContext \<Rightarrow> ContextUpdates \<Rightarrow> WeatherContext" where
  "spread c u =
     \<lparr>ctx_location = (case upd_location u of Some x \<Rightarrow> x | None \<Rightarrow> ctx_location c),
      temporal = (case upd_temporal u of Some x \<Rightarrow> x | None \<Rightarrow> temporal c),
      conversation = (case upd_conversation u of Some x \<Rightarrow> x | None \<Rightarrow> conversation c),
      preferences = (case upd_preferences u of Some x \<Rightarrow> x | None \<Rightarrow> preferences c),
      ctx_session = (case upd_session u of Some x \<Rightarrow> x | None \<Rightarrow> ctx_session c)\<rparr>"

text \<open>
  \<open>createSession\<close>. The identifier \<open>generateSessionId\<close> draws from the clock and
  \<open>Math.random\<close> is the parameter \<open>sid\<close>.
\<close>

definition createSession ::
  "int \<Rightarrow> jsstring \<Rightarrow> ContextUpdates \<Rightarrow> SessionStore \<Rightarrow> SessionStore \<times> WeatherSession" where
  "createSession now sid initialContext sessions =
     (let defaults =
            \<lparr>ctx_location = \<lparr>current = None, recent = [], location_preferences = []\<rparr>,
             temporal = \<lparr>currentTimeframe = Current, targetDate = None, recentDates = [],
                         relativeDateContext = None\<rparr>,
             conversation = \<lparr>lastWeatherQuery = [], queryIntent = General,
                             followUpContext = None, conversationFlow = [],
                             lastResponse = None\<rparr>,
             preferences = \<lparr>language = js ''en'', units = Metric, detailLevel = Detailed,
                            favoriteLocations = [], defaultLocation = None\<rparr>,
             ctx_session = \<lparr>startTime = toISOString now, info_lastActivity = toISOString now,
                            messageCount = 0\<rparr>\<rparr>;
          session = \<lparr>sessionId = sid, session_context = spread defaults initialContext,
                     lastActivity = now, expiresAt = now + SESSION_TIMEOUT\<rparr>
      in (sessions(sid \<mapsto> session), session))"

text \<open>\<open>getSession\<close>: the store after the call and the session, \<open>None\<close> for \<open>null\<close>.\<close>

definition getSession ::
  "int \<Rightarrow> SessionStore \<Rightarrow> jsstring \<Rightarrow> SessionStore \<times> WeatherSession option" where
  "getSession now sessions sid =
     (case sessions sid of
        None \<Rightarrow> (sessions, None)
      | Some session \<Rightarrow>
          if now > expiresAt session then (sessions(sid := None), None)
          else (sessions, Some session))"

definition updateSession ::
  "int \<Rightarrow> SessionStore \<Rightarrow> jsstring \<Rightarrow> ContextUpdates \<Rightarrow> SessionStore \<times> WeatherSession option" where
  "updateSession now sessions sid updates =
     (case getSession now sessions sid of
        (sessions', None) \<Rightarrow> (sessions', None)
      | (sessions', Some session) \<Rightarrow>
          (let old = session_context session;
               c = (spread old updates)\<lparr>ctx_session :=
                     (ctx_session old)\<lparr>info_lastActivity := toISOString now,
                                        messageCount := messageCount (ctx_session old) + 1\<rparr>\<rparr>;
               session' = session\<lparr>session_context := c, lastActivity := now,
                                  expiresAt := now + SESSION_TIMEOUT\<rparr>
           in (sessions'(sid \<mapsto> session'), Some session')))"

text \<open>\<open>SessionStore.updateLocation\<close>.\<close>

definition SessionStore_updateLocation ::
  "int \<Rightarrow> SessionStore \<Rightarrow> jsstring \<Rightarrow> LocationData \<Rightarrow> SessionStore \<times> WeatherSession option" where
  "SessionStore_updateLocation now sessions sid l =
     (case getSession now sessions sid of
        (sessions', None) \<Rightarrow> (sessions', None)
      | (sessions', Some session) \<Rightarrow>
          (let old = ctx_location (session_context session);
               updatedContext = noUpdates\<lparr>upd_location := Some
                 \<lparr>current = Some l,
                  recent = take 5 (l # filter (\<lambda>loc. \<not> sameLocation loc l) (recent old)),
                  location_preferences = location_preferences old\<rparr>\<rparr>
           in updateSession now sessions' sid updatedContext))"

text \<open>\<open>SessionStore.updateTemporal\<close>; the new temporal record has no \<open>relativeDateContext\<close>.\<close>

definition updateTemporal ::
  "int \<Rightarrow> SessionStore \<Rightarrow> jsstring \<Rightarrow> DateType \<Rightarrow> jsstring option \<Rightarrow> SessionStore \<times> WeatherSession option" where
  "updateTemporal now sessions sid timeframe tgt =
     (case getSession now sessions sid of
        (sessions', None) \<Rightarrow> (sessions', None)
      | (sessions', Some session) \<Rightarrow>
          (let old = recentDates (temporal (session_context session));
               updatedContext = noUpdates\<lparr>upd_temporal := Some
                 \<lparr>currentTimeframe = timeframe,
                  targetDate = orNull tgt,
                  recentDates =
                    (case orNull tgt of
                       Some d \<Rightarrow>
                         take 10 (\<lparr>recent_date = d, recent_type = timeframe,
                                    recent_lastUsed = toISOString now\<rparr>
                                  # filter (\<lambda>r. recent_date r \<noteq> d) old)
                     | None \<Rightarrow> old),
                  relativeDateContext = None\<rparr>\<rparr>
           in updateSession now sessions' sid updatedContext))"

text \<open>\<open>SessionStore.updateConversation\<close>.\<close>

definition intentName :: "QueryIntent \<Rightarrow> jsstring" where
  "intentName i =
     (case i of Weather \<Rightarrow> js ''weather'' | Clothing \<Rightarrow> js ''clothing'' | Travel \<Rightarrow> js ''travel''
      | Comparison \<Rightarrow> js ''comparison'' | General \<Rightarrow> js ''general'')"

definition updateConversation ::
  "int \<Rightarrow> SessionStore \<Rightarrow> jsstring \<Rightarrow> jsstring \<Rightarrow> QueryIntent \<Rightarrow> SessionStore \<times> WeatherSession option" where
  "updateConversation now sessions sid query intent =
     (case getSession now sessions sid of
        (sessions', None) \<Rightarrow> (sessions', None)
      | (sessions', Some session) \<Rightarrow>
          (let old = conversationFlow (conversation (session_context session));
               updatedContext = noUpdates\<lparr>upd_conversation := Some
                 \<lparr>lastWeatherQuery = query, queryIntent = intent, followUpContext = None,
                  conversationFlow =
                    lastN 20 (old @ [\<lparr>flow_type = IntentFlow, flow_value = intentName intent,
                                       flow_timestamp = toISOString now\<rparr>]),
                  lastResponse = None\<rparr>\<rparr>
           in updateSession now sessions' sid updatedContext))"

text \<open>\<open>cleanup\<close>: every session whose \<open>expiresAt\<close> has passed is deleted.\<close>

definition cleanup :: "int \<Rightarrow> SessionStore \<Rightarrow> SessionStore" where
  "cleanup now sessions =
     (\<lambda>sid. case sessions sid of
               None \<Rightarrow> None
             | Some session \<Rightarrow> if now > expiresAt session then None else Some session)"

text \<open>
  \<open>resolveContextWithSession\<close>. Its marker test is the constant \<open>hasLocationIndicators\<close>.
  Where the session exists, the condition of the \<open>if\<close> that would rewrite the query
  reads the identifier \<open>hasExplicitLocation\<close>, which this module does not declare: that
  read throws a \<open>ReferenceError\<close>, after \<open>getSession\<close> has had its effect on the store.
\<close>

definition hasLocationIndicators :: "jsstring \<Rightarrow> jsstring \<Rightarrow> bool" where
  "hasLocationIndicators lang query =
     (if lang = js ''ja'' then testAny japaneseMarkers query \<or> length query > 10
      else testAny [js ''in '', js ''at '', js ''for '', js ''weather''] (toLowerCase query)
           \<or> length query > 10)"

record SessionResolution = Resolution +
  resolved_session :: "WeatherSession option"

definition resolveContextWithSession ::
  "int \<Rightarrow> SessionStore \<Rightarrow> jsstring \<Rightarrow> jsstring \<Rightarrow> jsstring
     \<Rightarrow> SessionStore \<times> (error + SessionResolution)" where
  "resolveContextWithSession now sessions sid query lang =
     (case getSession now sessions sid of
        (sessions', None) \<Rightarrow>
          (sessions',
           Inr \<lparr>needsLocationInput =
                  (\<not> hasLocationIndicators lang query \<and> length (trim query) < 8),
                needsTimeInput = False,
                contextualQuery = query,
                resolved_session = None\<rparr>)
      | (sessions', Some session) \<Rightarrow>
          (sessions', Inl (ReferenceError (js ''hasExplicitLocation''))))"

section \<open>The route handlers\<close>

text \<open>
  The body of an inbound request, and the response: the \<open>status\<close> and the JSON body,
  a field of which is \<open>None\<close> when the handler does not set the key. \<open>weatherData\<close> is
  one observation object or an array of observations; \<open>error\<close> is \<open>true\<close> or a text.
\<close>

record ChatRequest =
  req_messages :: "ChatMessage list"
  req_language :: "jsstring option"

datatype WeatherData = Single WeatherToolResponse | Array "WeatherToolResponse list"

datatype ErrorField = ErrorTrue | ErrorText jsstring

record ResponseBody =
  response :: "jsstring option"
  weatherData :: "WeatherData option"
  toolsUsed :: "nat option"
  multiCity :: "bool option"
  toolUsed :: "bool option"
  error :: "ErrorField option"

record HttpResponse =
  status :: nat
  body :: ResponseBody

definition emptyBody :: ResponseBody where
  "emptyBody = \<lparr>response = None, weatherData = None, toolsUsed = None, multiCity = None,
                toolUsed = None, error = None\<rparr>"

text \<open>
  What a handler does besides answering, in order: a completion request, and a call of
  \<open>executeWeatherTool\<close> with its argument and the requests the call sent.
\<close>

datatype Event =
    CompletionRequested CompletionRequest
  | ToolExecuted JSON "IoEvent list"

text \<open>
  \<open>Promise.all\<close> over settled promises: all the values, in the order of the promises,
  or a rejection when one of them rejected. The handlers read nothing of the rejection.
\<close>

fun Promise_all :: "(error + 'a) list \<Rightarrow> error + 'a list" where
  "Promise_all [] = Inr []"
| "Promise_all (Inl e # ps) = Inl e"
| "Promise_all (Inr v # ps) = (case Promise_all ps of Inl e \<Rightarrow> Inl e | Inr vs \<Rightarrow> Inr (v # vs))"

text \<open>The localized messages.\<close>

definition fallbackMessage :: "bool \<Rightarrow> jsstring" where
  "fallbackMessage ja =
     (if ja then
     [0x3059, 0x307F, 0x307E, 0x305B, 0x3093, 0x3001, 0x30A8, 0x30E9, 0x30FC, 0x304C,
      0x767A, 0x751F, 0x3057, 0x307E, 0x3057, 0x305F, 0x3002, 0x3082, 0x3046, 0x4E00,
      0x5EA6, 0x304A, 0x8A66, 0x3057, 0x304F, 0x3060, 0x3055, 0x3044, 0x3002]
      else js ''Sorry, an error occurred. Please try again.'')"

definition defaultMessage :: "bool \<Rightarrow> jsstring" where
  "defaultMessage ja =
     (if ja then
     [0x3053, 0x3093, 0x306B, 0x3061, 0x306F, 0xFF01, 0x5929, 0x6C17, 0x3084, 0x65C5,
      0x884C, 0x3001, 0x30D5, 0x30A1, 0x30C3, 0x30B7, 0x30E7, 0x30F3, 0x306B, 0x3064,
      0x3044, 0x3066, 0x4F55, 0x3067, 0x3082, 0x304A, 0x805E, 0x304D, 0x304F, 0x3060,
      0x3055, 0x3044, 0x3002]
      else js ''Hello! Ask me anything about weather, travel, or fashion recommendations.'')"

definition weatherErrorMessage :: "bool \<Rightarrow> jsstring" where
  "weatherErrorMessage ja =
     (if ja then
     [0x7533, 0x3057, 0x8A33, 0x3054, 0x3056, 0x3044, 0x307E, 0x305B, 0x3093, 0x304C,
      0x3001, 0x5929, 0x6C17, 0x60C5, 0x5831, 0x3092, 0x53D6, 0x5F97, 0x3067, 0x304D,
      0x307E, 0x305B, 0x3093, 0x3067, 0x3057, 0x305F, 0x3002, 0x5225, 0x306E, 0x90FD,
      0x5E02, 0x540D, 0x3092, 0x304A, 0x8A66, 0x3057, 0x304F, 0x3060, 0x3055, 0x3044,
      0x3002]
      else js ''Sorry, I couldn'' @ [39]
           @ js ''t get weather information. Please try different city names.'')"

definition weatherErrorMessageFor :: "bool \<Rightarrow> jsstring \<Rightarrow> jsstring" where
  "weatherErrorMessageFor ja loc =
     (if ja then
     [0x7533, 0x3057, 0x8A33, 0x3054, 0x3056, 0x3044, 0x307E, 0x305B, 0x3093, 0x304C,
      0x3001] @ loc @
     [0x306E, 0x5929, 0x6C17, 0x60C5, 0x5831, 0x3092, 0x53D6, 0x5F97, 0x3067, 0x304D,
      0x307E, 0x305B, 0x3093, 0x3067, 0x3057, 0x305F, 0x3002, 0x5225, 0x306E, 0x90FD,
      0x5E02, 0x540D, 0x3092, 0x304A, 0x8A66, 0x3057, 0x304F, 0x3060, 0x3055, 0x3044,
      0x3002]
      else js ''Sorry, I couldn'' @ [39] @ js ''t get weather information for '' @ loc
           @ js ''. Please try a different city name.'')"

definition missingKeyResponse :: HttpResponse where
  "missingKeyResponse =
     \<lparr>status = 500, body = emptyBody\<lparr>error := Some (ErrorText (js ''OpenAI API key not found''))\<rparr>\<rparr>"

definition fallbackResponse :: "bool \<Rightarrow> HttpResponse" where
  "fallbackResponse ja =
     \<lparr>status = 500,
      body = emptyBody\<lparr>response := Some (fallbackMessage ja), error := Some ErrorTrue\<rparr>\<rparr>"

definition directResponse :: "jsstring option \<Rightarrow> HttpResponse" where
  "directResponse text =
     \<lparr>status = 200, body = emptyBody\<lparr>response := text, toolUsed := Some False\<rparr>\<rparr>"

definition toolErrorResponse :: "jsstring \<Rightarrow> HttpResponse" where
  "toolErrorResponse errorMessage =
     \<lparr>status = 200, body = emptyBody\<lparr>response := Some errorMessage, error := Some ErrorTrue\<rparr>\<rparr>"

definition languageIsJa :: "ChatRequest \<Rightarrow> bool" where
  "languageIsJa req = ((case req_language req of None \<Rightarrow> js ''en'' | Some l \<Rightarrow> l) = js ''ja'')"

subsection \<open>The handler of src/app/api/chat-optimized/route.ts\<close>

text \<open>The two completion requests of the handler.\<close>

definition optimizedFirstRequest :: "ChatRequest \<Rightarrow> CompletionRequest" where
  "optimizedFirstRequest req =
     \<lparr>request_messages =
        SystemMessage (AssistantPreamble (languageIsJa req))
        # map HistoryMessage (req_messages req),
      declares_weatherTool = True\<rparr>"

definition optimizedFinalRequest ::
  "Providers \<Rightarrow> ChatRequest \<Rightarrow> AssistantMessage \<Rightarrow> ToolCall \<Rightarrow> WeatherToolResponse
     \<Rightarrow> CompletionRequest" where
  "optimizedFinalRequest env req message toolCall weatherResult =
     \<lparr>request_messages =
        SystemMessage (FormattingPreamble (languageIsJa req))
        # map HistoryMessage (req_messages req)
        @ [AssistantToolCalls message,
           ToolResultMessage (call_id toolCall) (JSON_stringify env weatherResult)],
      declares_weatherTool = False\<rparr>"

text \<open>
  The inner \<open>catch\<close> of the handler: it splices \<open>toolArgs.location\<close> into the message.
  Reading the property throws when the parsed arguments are \<open>null\<close>, and the conversion
  to a string can throw; either error leaves the inner \<open>catch\<close> for the outer one.
\<close>

definition toolErrorResponseFor :: "Providers \<Rightarrow> bool \<Rightarrow> JSON \<Rightarrow> HttpResponse" where
  "toolErrorResponseFor env ja toolArgs =
     (case readProperty (js ''location'') toolArgs of
        Inl e \<Rightarrow> fallbackResponse ja
      | Inr location \<Rightarrow>
          (case templateString (Number_toString env) location of
             Inl e \<Rightarrow> fallbackResponse ja
           | Inr text \<Rightarrow> toolErrorResponse (weatherErrorMessageFor ja text)))"

text \<open>
  \<open>POST\<close>. \<open>JSON.parse\<close> of the first call's arguments stands outside the inner
  \<open>try\<close>, so its failure ends in the outer \<open>catch\<close>; a failure of the lookup or of the
  second completion ends in the inner one.
\<close>

definition POST_chat_optimized :: "Providers \<Rightarrow> ChatRequest \<Rightarrow> Event list \<times> HttpResponse" where
  "POST_chat_optimized env req =
     (let ja = languageIsJa req
      in if \<not> truthy (OPENAI_API_KEY env) then ([], missingKeyResponse)
         else
           (let first = optimizedFirstRequest req
            in case openai env first of
                 CompletionOk message \<Rightarrow>
                   (case tool_calls message of
                      Some (toolCall # others) \<Rightarrow>
                        (case JSON_parse env (function_arguments toolCall) of
                           None \<Rightarrow> ([CompletionRequested first], fallbackResponse ja)
                         | Some toolArgs \<Rightarrow>
                             (case executeWeatherTool env toolArgs of
                                (sent, Inl toolError) \<Rightarrow>
                                  ([CompletionRequested first, ToolExecuted toolArgs sent],
                                   toolErrorResponseFor env ja toolArgs)
                              | (sent, Inr weatherResult) \<Rightarrow>
                                  (let final = optimizedFinalRequest env req message toolCall
                                                 weatherResult;
                                       events = [CompletionRequested first,
                                                 ToolExecuted toolArgs sent,
                                                 CompletionRequested final]
                                   in case openai env final of
                                        CompletionOk finalMessage \<Rightarrow>
                                          (events,
                                           \<lparr>status = 200,
                                            body = emptyBody
                                              \<lparr>response := message_content finalMessage,
                                               weatherData := Some (Single weatherResult),
                                               toolUsed := Some True\<rparr>\<rparr>)
                                      | _ \<Rightarrow> (events, toolErrorResponseFor env ja toolArgs))))
                    | _ \<Rightarrow> ([CompletionRequested first], directResponse (message_content message)))
               | _ \<Rightarrow> ([CompletionRequested first], fallbackResponse ja)))"

subsection \<open>The handler with parallel tool calls (second module of src/app/compare/page.tsx)\<close>

record ToolResult =
  tool_call_id :: jsstring
  result :: WeatherToolResponse

text \<open>
  The function mapped over \<open>message.tool_calls\<close>: what one invocation does and the
  promise it settles to.
\<close>

definition runToolCall :: "Providers \<Rightarrow> ToolCall \<Rightarrow> Event list \<times> (error + ToolResult)" where
  "runToolCall env toolCall =
     (case JSON_parse env (function_arguments toolCall) of
        None \<Rightarrow> ([], Inl SyntaxError)
      | Some toolArgs \<Rightarrow>
          (case executeWeatherTool env toolArgs of
             (sent, Inl e) \<Rightarrow> ([ToolExecuted toolArgs sent], Inl e)
           | (sent, Inr r) \<Rightarrow>
               ([ToolExecuted toolArgs sent],
                Inr \<lparr>tool_call_id = call_id toolCall, result = r\<rparr>)))"

definition toolMessages :: "Providers \<Rightarrow> ToolResult list \<Rightarrow> RequestMessage list" where
  "toolMessages env toolResults =
     map (\<lambda>r. ToolResultMessage (tool_call_id r) (JSON_stringify env (result r))) toolResults"

definition lastMessageIsUser :: "ChatMessage list \<Rightarrow> bool" where
  "lastMessageIsUser messages = (messages \<noteq> [] \<and> role (last messages) = js ''user'')"

definition chatFirstRequest :: "Providers \<Rightarrow> ChatRequest \<Rightarrow> CompletionRequest" where
  "chatFirstRequest env req =
     \<lparr>request_messages =
        SystemMessage (DatedAssistantPreamble (languageIsJa req)
          (beforeT (toISOString (clock env))) (getFullYear (zone env) (clock env)))
        # map HistoryMessage (req_messages req),
      declares_weatherTool = True\<rparr>"

definition chatFinalRequest ::
  "Providers \<Rightarrow> ChatRequest \<Rightarrow> AssistantMessage \<Rightarrow> ToolResult list \<Rightarrow> CompletionRequest" where
  "chatFinalRequest env req message toolResults =
     \<lparr>request_messages =
        SystemMessage (ComparisonFormattingPreamble (languageIsJa req))
        # map HistoryMessage (req_messages req)
        @ [AssistantToolCalls message]
        @ toolMessages env toolResults,
      declares_weatherTool = False\<rparr>"

text \<open>
  \<open>POST\<close>. Every invocation of the mapped function is started before the join, so the
  requests of every lookup are sent whether or not another lookup fails; they are
  listed in the order of the tool calls. The second completion is called inside the
  same \<open>try\<close> as the lookups.
\<close>

definition POST_chat :: "Providers \<Rightarrow> ChatRequest \<Rightarrow> Event list \<times> HttpResponse" where
  "POST_chat env req =
     (let ja = languageIsJa req
      in if \<not> truthy (OPENAI_API_KEY env) then ([], missingKeyResponse)
         else if \<not> lastMessageIsUser (req_messages req) then
           ([], \<lparr>status = 200,
                 body = emptyBody\<lparr>response := Some (defaultMessage ja), toolUsed := Some False\<rparr>\<rparr>)
         else
           (let first = chatFirstRequest env req
            in case openai env first of
                 CompletionOk message \<Rightarrow>
                   (case tool_calls message of
                      Some (toolCall # others) \<Rightarrow>
                        (let runs = map (runToolCall env) (toolCall # others);
                             executed = concat (map fst runs)
                         in case Promise_all (map snd runs) of
                              Inl toolError \<Rightarrow>
                                (CompletionRequested first # executed,
                                 toolErrorResponse (weatherErrorMessage ja))
                            | Inr toolResults \<Rightarrow>
                                (let final = chatFinalRequest env req message toolResults;
                                     events = CompletionRequested first # executed
                                              @ [CompletionRequested final]
                                 in case openai env final of
                                      CompletionOk finalMessage \<Rightarrow>
                                        (events,
                                         \<lparr>status = 200,
                                          body = emptyBody
                                            \<lparr>response := message_content finalMessage,
                                             weatherData := Some (Array (map result toolResults)),
                                             toolsUsed := Some (length toolResults),
                                             multiCity := Some (length toolResults > 1)\<rparr>\<rparr>)
                                    | _ \<Rightarrow> (events, toolErrorResponse (weatherErrorMessage ja))))
                    | _ \<Rightarrow> ([CompletionRequested first], directResponse (message_content message)))
               | _ \<Rightarrow> ([CompletionRequested first], fallbackResponse ja)))"

section \<open>Notions used to state the properties\<close>

text \<open>The identity of a location: its (city, country) pair.\<close>

definition locationKey :: "LocationData \<Rightarrow> jsstring \<times> jsstring" where
  "locationKey l = (city l, country l)"

text \<open>
  The keys of a sequence of uses, most recent first when the sequence is given latest
  first: the first key, then the remaining keys without it, in the same way.
\<close>

fun mostRecentFirst :: "'a list \<Rightarrow> 'a list" where
  "mostRecentFirst [] = []"
| "mostRecentFirst (x # xs) = x # filter (\<lambda>y. y \<noteq> x) (mostRecentFirst xs)"

text \<open>
  A sequence of \<open>updateLocation\<close> calls, each with the reading of the clock at the call:
  on a context manager, and on the session \<open>sid\<close> of a store.
\<close>

definition ContextManager_updateLocations ::
  "bool \<Rightarrow> (int \<times> LocationData) list \<Rightarrow> ManagerState \<Rightarrow> ManagerState" where
  "ContextManager_updateLocations onClient calls st =
     foldl (\<lambda>s (now, l). ContextManager_updateLocation onClient now l s) st calls"

definition SessionStore_updateLocations ::
  "jsstring \<Rightarrow> (int \<times> LocationData) list \<Rightarrow> SessionStore \<Rightarrow> SessionStore" where
  "SessionStore_updateLocations sid calls sessions =
     foldl (\<lambda>s (now, l). fst (SessionStore_updateLocation now s sid l)) sessions calls"

text \<open>The invariant of the temporal context that the specification states.\<close>

definition temporalInvariant :: "TemporalContext \<Rightarrow> bool" where
  "temporalInvariant t = (currentTimeframe t = Current \<longrightarrow> targetDate t = None)"

text \<open>A time zone whose offset from UTC never changes; \<open>fixedZone 0\<close> is UTC.\<close>

definition fixedZone :: "int \<Rightarrow> TimeZone" where
  "fixedZone c = \<lparr>offsetAtUTC = (\<lambda>t. c), offsetAtLocal = (\<lambda>t. c)\<rparr>"


text \<open>The lookups a handler executed, read off its events.\<close>

fun executedLookups :: "Event list \<Rightarrow> JSON list" where
  "executedLookups [] = []"
| "executedLookups (ToolExecuted params sent # es) = params # executedLookups es"
| "executedLookups (CompletionRequested r # es) = executedLookups es"

section \<open>Concrete data for the examples\<close>

text \<open>A store that holds one session, created at time 1000 with no seed.\<close>

definition exampleSession :: WeatherSession where
  "exampleSession = snd (createSession 1000 (js ''session_1000_abc'') noUpdates Map.empty)"

definition exampleStore :: SessionStore where
  "exampleStore = fst (createSession 1000 (js ''session_1000_abc'') noUpdates Map.empty)"

definition freshManager :: ManagerState where
  "freshManager = \<lparr>mgr_context = initializeContext 1000, persisted = None\<rparr>"

definition place :: "string \<Rightarrow> string \<Rightarrow> LocationData" where
  "place c k = \<lparr>city = js c, country = js k, latitude = 0, longitude = 0, timezone = None,
               confidence = None, lastUsed = None\<rparr>"

definition varanasi :: LocationData where
  "varanasi = \<lparr>city = js ''Varanasi'', country = js ''India'', latitude = 25.3176,
               longitude = 82.9739, timezone = None, confidence = None, lastUsed = None\<rparr>"

text \<open>The store after the example session has resolved Varanasi at time 2000.\<close>

definition varanasiStore :: SessionStore where
  "varanasiStore =
     fst (SessionStore_updateLocation 2000 exampleStore (js ''session_1000_abc'') varanasi)"

text \<open>
  Noon of 2025-06-01 and midnight of 2023-01-01 (UTC), as time values.
\<close>

definition noon_2025_06_01 :: int where
  "noon_2025_06_01 = 1748779200000"

definition midnight_2023_01_01 :: int where
  "midnight_2023_01_01 = 1672531200000"

text \<open>
  The zone America/New_York around its transition of 2025-03-09: five hours behind UTC
  until 07:00 UTC of that day (02:00 local time), four hours behind from then on. The
  instant 2025-03-09T00:30Z is 19:30 of 8 March there.
\<close>

definition newYork :: TimeZone where
  "newYork =
     \<lparr>offsetAtUTC = (\<lambda>t. if t < 1741503600000 then - 18000000 else - 14400000),
      offsetAtLocal = (\<lambda>t. if t < 1741489200000 then - 18000000 else - 14400000)\<rparr>"

definition evening_2025_03_08_newYork :: int where
  "evening_2025_03_08_newYork = 1741480200000"

text \<open>
  Providers for the examples. A tool call asks for one city, its arguments being the
  JSON text \<open>{"location":"<city>"}\<close>; \<open>exampleParse\<close> reads such a text for three
  cities, reads the texts \<open>null\<close> and \<open>"Tokyo"\<close>, and rejects every other string, as
  \<open>JSON.parse\<close> rejects \<open>{\<close>. The geocoding provider finds nothing, the weather provider
  answers every request with the same current block, and the completion provider
  answers a request that declares the tool with the given tool calls and any other
  request with the given outcome. The process runs in UTC; no example converts a number
  to a string.
\<close>

definition argumentsFor :: "jsstring \<Rightarrow> jsstring" where
  "argumentsFor c = [123, 34] @ js ''location'' @ [34, 58, 34] @ c @ [34, 125]"

definition toolCallFor :: "string \<Rightarrow> string \<Rightarrow> ToolCall" where
  "toolCallFor i c =
     \<lparr>call_id = js i, function_name = js ''get_weather'',
      function_arguments = argumentsFor (js c)\<rparr>"

definition locationOnly :: "string \<Rightarrow> JSON" where
  "locationOnly c = JObject [(js ''location'', JString (js c))]"

definition exampleParse :: "jsstring \<Rightarrow> JSON option" where
  "exampleParse s =
     (if s = argumentsFor (js ''Tokyo'') then Some (locationOnly ''Tokyo'')
      else if s = argumentsFor (js ''London'') then Some (locationOnly ''London'')
      else if s = argumentsFor (js ''Atlantis'') then Some (locationOnly ''Atlantis'')
      else if s = js ''null'' then Some JNull
      else if s = [34] @ js ''Tokyo'' @ [34] then Some (JString (js ''Tokyo''))
      else None)"

definition exampleCurrent :: CurrentBlock where
  "exampleCurrent =
     \<lparr>temperature_2m = 21.4, weather_code = 2, relative_humidity_2m = 60,
      wind_speed_10m = 12, current_precipitation = 0, uv_index = 5,
      current_time = js ''2025-06-01T12:00''\<rparr>"

definition exampleProviders :: "ToolCall list \<Rightarrow> CompletionOutcome \<Rightarrow> Providers" where
  "exampleProviders calls final =
     \<lparr>geocoding = (\<lambda>n. GeocodingResults []),
      weatherApi = (\<lambda>r. WeatherOk \<lparr>body_current = Some exampleCurrent, body_daily = None\<rparr>),
      openai = (\<lambda>r. if declares_weatherTool r
                      then CompletionOk \<lparr>message_content = None, tool_calls = Some calls\<rparr>
                      else final),
      clock = noon_2025_06_01,
      zone = fixedZone 0,
      JSON_parse = exampleParse,
      JSON_stringify = (\<lambda>r. [123, 34] @ js ''city'' @ [34, 58, 34] @ w_city r @ [34, 125]),
      Number_toString = (\<lambda>x. []),
      OPENAI_API_KEY = Some (js ''sk-test'')\<rparr>"

definition exampleRequest :: ChatRequest where
  "exampleRequest =
     \<lparr>req_messages = [\<lparr>role = js ''user'', content = js ''Tokyo and London weather''\<rparr>],
      req_language = Some (js ''en'')\<rparr>"

definition observationFor :: "string \<Rightarrow> string \<Rightarrow> WeatherToolResponse" where
  "observationFor c k =
     \<lparr>w_city = js c, w_country = Some (js k), temperature = 21,
      description = js ''Partly cloudy'', humidity = 60, windSpeed = 12, precipitation = 0,
      uvIndex = 5, timestamp = js ''2025-06-01T12:00'', dateType = Current,
      w_targetDate = None\<rparr>"

text \<open>
  The same request in Japanese (its text asks for the weather of Tokyo and London).
\<close>

definition japaneseRequest :: ChatRequest where
  "japaneseRequest =
     \<lparr>req_messages =
        [\<lparr>role = js ''user'',
          content = [0x6771, 0x4EAC, 0x3068, 0x30ED, 0x30F3, 0x30C9, 0x30F3, 0x306E, 0x5929,
                     0x6C17]\<rparr>],
      req_language = Some (js ''ja'')\<rparr>"

text \<open>Providers whose weather service answers 503 for the coordinates of London.\<close>

definition londonUnavailable :: "Providers \<Rightarrow> Providers" where
  "londonUnavailable env =
     env\<lparr>weatherApi :=
           (\<lambda>r. if r = ForecastCurrent 51.5074 (- 0.1278) then WeatherStatus 503
                else weatherApi env r)\<rparr>"

text \<open>
  Tool calls and a second completion for the examples: two cities of the table, a city
  of the table and one that no provider knows, calls whose arguments are the texts
  \<open>{\<close>, \<open>null\<close> and \<open>"Tokyo"\<close>, and the text of a successful formatting completion.
\<close>

definition twoCities :: "ToolCall list" where
  "twoCities = [toolCallFor ''call_1'' ''Tokyo'', toolCallFor ''call_2'' ''London'']"

definition oneUnknownCity :: "ToolCall list" where
  "oneUnknownCity = [toolCallFor ''call_1'' ''Tokyo'', toolCallFor ''call_2'' ''Atlantis'']"

definition unparsableCall :: ToolCall where
  "unparsableCall =
     \<lparr>call_id = js ''call_1'', function_name = js ''get_weather'',
      function_arguments = js ''{''\<rparr>"

definition nullCall :: ToolCall where
  "nullCall =
     \<lparr>call_id = js ''call_1'', function_name = js ''get_weather'',
      function_arguments = js ''null''\<rparr>"

definition stringCall :: ToolCall where
  "stringCall =
     \<lparr>call_id = js ''call_1'', function_name = js ''get_weather'',
      function_arguments = [34] @ js ''Tokyo'' @ [34]\<rparr>"

definition formatted :: CompletionOutcome where
  "formatted =
     CompletionOk \<lparr>message_content = Some (js ''Tokyo and London are both mild.''),
                   tool_calls = None\<rparr>"

section \<open>Coordinate resolution\<close>

text \<open>
  Claim C10. For every location string whose lower-cased, trimmed form is a key of the
  hardcoded table, \<open>getCoordinates\<close> sends no request (whatever the geocoding provider
  would answer) and returns the caller's string unchanged as the city, with the
  coordinates and the country of the table entry.
\<close>

theorem C10_table_hit_skips_geocoding:
  assumes "map_of CITY_COORDINATES (trim (toLowerCase loc)) = Some e"
  shows "getCoordinates geo loc =
     ([], Inr \<lparr>coords_lat = Some (lat e), coords_lng = Some (lng e), coords_city = loc,
               coords_country = Some (entry_country e)\<rparr>)"
  using assms by (simp add: getCoordinates_def readCityCoordinates_def)

lemma tokyo_is_a_key:
  "map_of CITY_COORDINATES (trim (toLowerCase (js ''  ToKyO ''))) =
     Some \<lparr>lat = 35.6762, lng = 139.6503, entry_country = js ''Japan''\<rparr>"
  by (simp add: CITY_COORDINATES_def trim_def toLowerCase_def lowerUnit_def js_def
      isWhiteSpace_def)

theorem C10_witness:
  "map_of CITY_COORDINATES (trim (toLowerCase (js ''  ToKyO ''))) =
     Some \<lparr>lat = 35.6762, lng = 139.6503, entry_country = js ''Japan''\<rparr>
   \<and> getCoordinates (\<lambda>n. GeocodingFailed) (js ''  ToKyO '') =
     ([], Inr \<lparr>coords_lat = Some 35.6762, coords_lng = Some 139.6503,
               coords_city = js ''  ToKyO '', coords_country = Some (js ''Japan'')\<rparr>)"
  using C10_table_hit_skips_geocoding [OF tokyo_is_a_key, of "\<lambda>n. GeocodingFailed"]
    tokyo_is_a_key
  by simp

section \<open>Session expiry\<close>

lemma getSession_Some:
  "getSession now sessions sid = (sessions', Some s) \<Longrightarrow>
     sessions' = sessions \<and> sessions sid = Some s \<and> now \<le> expiresAt s"
  by (auto simp: getSession_def split: option.splits if_splits)

lemma getSession_None:
  "getSession now sessions sid = (sessions', None) \<Longrightarrow> sessions' = sessions(sid := None)"
  by (auto simp: getSession_def split: option.splits if_splits)

lemma updateSession_slides:
  "updateSession now sessions sid u = (sessions', Some s') \<Longrightarrow>
     expiresAt s' = now + SESSION_TIMEOUT \<and> lastActivity s' = now \<and> sessions' sid = Some s'"
  by (auto simp: updateSession_def getSession_def Let_def split: option.splits if_splits)

lemma SessionStore_updateLocation_slides:
  "SessionStore_updateLocation now sessions sid l = (sessions', Some s') \<Longrightarrow>
     expiresAt s' = now + SESSION_TIMEOUT \<and> lastActivity s' = now \<and> sessions' sid = Some s'"
  unfolding SessionStore_updateLocation_def
  by (auto simp: Let_def split: prod.splits option.splits dest: updateSession_slides)

lemma updateTemporal_slides:
  "updateTemporal now sessions sid tf tgt = (sessions', Some s') \<Longrightarrow>
     expiresAt s' = now + SESSION_TIMEOUT \<and> lastActivity s' = now \<and> sessions' sid = Some s'"
  unfolding updateTemporal_def
  by (auto simp: Let_def split: prod.splits option.splits dest: updateSession_slides)

lemma updateConversation_slides:
  "updateConversation now sessions sid q i = (sessions', Some s') \<Longrightarrow>
     expiresAt s' = now + SESSION_TIMEOUT \<and> lastActivity s' = now \<and> sessions' sid = Some s'"
  unfolding updateConversation_def
  by (auto simp: Let_def split: prod.splits option.splits dest: updateSession_slides)

text \<open>
  Claim C3. For a session held under \<open>sid\<close>, \<open>getSession\<close> returns \<open>null\<close> exactly when
  the clock has passed the session's \<open>expiresAt\<close>; in that case the session is deleted
  from the store, and up to and including that instant the session is returned and the
  store is unchanged. Every successful update (\<open>updateSession\<close> and the three mutators
  built on it), made at time \<open>t0\<close>, leaves \<open>expiresAt\<close> at \<open>t0\<close> plus 24 hours in the
  stored session, so that a later \<open>getSession\<close> returns \<open>null\<close> exactly when the clock
  has passed \<open>t0\<close> plus 24 hours.
\<close>

theorem C3_session_expiry:
  "(sessions sid = Some s \<longrightarrow>
       (snd (getSession now sessions sid) = None \<longleftrightarrow> expiresAt s < now)
     \<and> (expiresAt s < now \<longrightarrow> fst (getSession now sessions sid) sid = None)
     \<and> (now \<le> expiresAt s \<longrightarrow> getSession now sessions sid = (sessions, Some s)))
   \<and> (updateSession t0 sessions sid u = (sessions', Some s')
        \<or> SessionStore_updateLocation t0 sessions sid l = (sessions', Some s')
        \<or> updateTemporal t0 sessions sid tf tgt = (sessions', Some s')
        \<or> updateConversation t0 sessions sid q i = (sessions', Some s')
      \<longrightarrow> expiresAt s' = t0 + 24 * 60 * 60 * 1000 \<and> sessions' sid = Some s'
          \<and> (snd (getSession now sessions' sid) = None \<longleftrightarrow> t0 + 24 * 60 * 60 * 1000 < now))"
proof -
  have get: "sessions sid = Some s \<longrightarrow>
       (snd (getSession now sessions sid) = None \<longleftrightarrow> expiresAt s < now)
     \<and> (expiresAt s < now \<longrightarrow> fst (getSession now sessions sid) sid = None)
     \<and> (now \<le> expiresAt s \<longrightarrow> getSession now sessions sid = (sessions, Some s))"
    by (auto simp: getSession_def)
  have slide: "expiresAt s' = t0 + 24 * 60 * 60 * 1000 \<and> sessions' sid = Some s'
          \<and> (snd (getSession now sessions' sid) = None \<longleftrightarrow> t0 + 24 * 60 * 60 * 1000 < now)"
    if "expiresAt s' = t0 + SESSION_TIMEOUT \<and> lastActivity s' = t0 \<and> sessions' sid = Some s'"
    using that by (auto simp: getSession_def SESSION_TIMEOUT_def)
  have upd: "updateSession t0 sessions sid u = (sessions', Some s')
        \<or> SessionStore_updateLocation t0 sessions sid l = (sessions', Some s')
        \<or> updateTemporal t0 sessions sid tf tgt = (sessions', Some s')
        \<or> updateConversation t0 sessions sid q i = (sessions', Some s')
      \<longrightarrow> expiresAt s' = t0 + SESSION_TIMEOUT \<and> lastActivity s' = t0 \<and> sessions' sid = Some s'"
    using updateSession_slides SessionStore_updateLocation_slides
      updateTemporal_slides updateConversation_slides
    by meson
  show ?thesis
    using get slide upd by presburger
qed

lemma exampleStore_sid:
  "exampleStore (js ''session_1000_abc'') =
     Some (snd (createSession 1000 (js ''session_1000_abc'') noUpdates Map.empty))"
  by (simp add: exampleStore_def createSession_def Let_def)

lemma example_expiresAt:
  "expiresAt (snd (createSession 1000 (js ''session_1000_abc'') noUpdates Map.empty)) = 86401000"
  by (simp add: createSession_def SESSION_TIMEOUT_def Let_def)

theorem C3_witness:
  "exampleStore (js ''session_1000_abc'') \<noteq> None
   \<and> getSession 86401000 exampleStore (js ''session_1000_abc'')
       = (exampleStore, exampleStore (js ''session_1000_abc''))
   \<and> snd (getSession 86401001 exampleStore (js ''session_1000_abc'')) = None
   \<and> fst (getSession 86401001 exampleStore (js ''session_1000_abc'')) (js ''session_1000_abc'')
       = None
   \<and> (\<exists>sessions' s'.
        updateSession 5000 exampleStore (js ''session_1000_abc'') noUpdates = (sessions', Some s')
        \<and> expiresAt s' = 86405000 \<and> sessions' (js ''session_1000_abc'') = Some s'
        \<and> snd (getSession 86405000 sessions' (js ''session_1000_abc'')) \<noteq> None
        \<and> snd (getSession 86405001 sessions' (js ''session_1000_abc'')) = None)"
proof -
  let ?sid = "js ''session_1000_abc''"
  let ?s = "snd (createSession 1000 ?sid noUpdates Map.empty)"
  obtain sessions' s' where
    u: "updateSession 5000 exampleStore ?sid noUpdates = (sessions', Some s')"
    by (simp add: updateSession_def getSession_def exampleStore_sid example_expiresAt Let_def)
  show ?thesis
    using C3_session_expiry [of exampleStore ?sid ?s 86401000 5000 noUpdates sessions' s']
      C3_session_expiry [of exampleStore ?sid ?s 86401001 5000 noUpdates sessions' s']
      C3_session_expiry [of exampleStore ?sid ?s 86405000 5000 noUpdates sessions' s']
      C3_session_expiry [of exampleStore ?sid ?s 86405001 5000 noUpdates sessions' s']
      u exampleStore_sid example_expiresAt
    by simp
qed

section \<open>Resolution without a live session\<close>

text \<open>
  Claim C9. For every query and language, when the session identifier is unknown or
  its session has expired, \<open>resolveContextWithSession\<close> returns \<open>session = null\<close> and the
  query unchanged as \<open>contextualQuery\<close>; \<open>needsLocationInput\<close> is true exactly when the
  query has no location indicator and its trimmed length is below 8; \<open>needsTimeInput\<close>
  is false. Nothing is thrown, and an expired session is deleted from the store.
\<close>

theorem C9_stateless_fallback:
  assumes "sessions sid = None \<or> (\<exists>s. sessions sid = Some s \<and> expiresAt s < now)"
  shows "resolveContextWithSession now sessions sid query lang =
    (sessions(sid := None),
     Inr \<lparr>needsLocationInput = (\<not> hasLocationIndicators lang query \<and> length (trim query) < 8),
          needsTimeInput = False, contextualQuery = query, resolved_session = None\<rparr>)"
  using assms
  by (auto simp: resolveContextWithSession_def getSession_def split: option.splits)

lemma indicators_hi:
  "hasLocationIndicators (js ''en'') (js ''hi'') = False" "length (trim (js ''hi'')) = 2"
  by (simp_all add: hasLocationIndicators_def testAny_def js_def toLowerCase_def lowerUnit_def
      trim_def isWhiteSpace_def)

lemma indicators_tokyo_weather:
  "hasLocationIndicators (js ''en'') (js ''Tokyo weather'') = True"
  by (simp add: hasLocationIndicators_def testAny_def js_def toLowerCase_def lowerUnit_def)

theorem C9_witness:
  "Map.empty (js ''session_0_gone'') = (None :: WeatherSession option)
   \<and> resolveContextWithSession 0 Map.empty (js ''session_0_gone'') (js ''hi'') (js ''en'') =
      (Map.empty,
       Inr \<lparr>needsLocationInput = True, needsTimeInput = False, contextualQuery = js ''hi'',
            resolved_session = None\<rparr>)
   \<and> exampleStore (js ''session_1000_abc'') \<noteq> None
   \<and> snd (resolveContextWithSession 86401001 exampleStore (js ''session_1000_abc'')
         (js ''Tokyo weather'') (js ''en'')) =
       Inr \<lparr>needsLocationInput = False, needsTimeInput = False,
            contextualQuery = js ''Tokyo weather'', resolved_session = None\<rparr>
   \<and> fst (resolveContextWithSession 86401001 exampleStore (js ''session_1000_abc'')
         (js ''Tokyo weather'') (js ''en'')) (js ''session_1000_abc'') = None"
  using C9_stateless_fallback [of Map.empty "js ''session_0_gone''" 0 "js ''hi''" "js ''en''"]
    C9_stateless_fallback [of exampleStore "js ''session_1000_abc''" 86401001
      "js ''Tokyo weather''" "js ''en''"]
    exampleStore_sid example_expiresAt indicators_hi indicators_tokyo_weather
  by simp

section \<open>The temporal context\<close>

lemma persistContext_temporal [simp]:
  "temporal (mgr_context (persistContext onClient now st)) = temporal (mgr_context st)"
  by (simp add: persistContext_def Let_def)

lemma addToConversationFlow_temporal [simp]:
  "temporal (addToConversationFlow now ty v c) = temporal c"
  by (simp add: addToConversationFlow_def Let_def)

lemma updateTemporalContext_stores:
  "currentTimeframe (temporal (mgr_context (updateTemporalContext onClient now tf tgt rel st)))
     = tf
   \<and> targetDate (temporal (mgr_context (updateTemporalContext onClient now tf tgt rel st)))
     = orNull tgt"
  by (simp add: updateTemporalContext_def Let_def split: option.splits)

lemma updateSession_context:
  "updateSession now sessions sid u = (sessions', Some s') \<Longrightarrow>
     \<exists>s. sessions sid = Some s \<and> now \<le> expiresAt s
       \<and> ctx_location (session_context s') = ctx_location (spread (session_context s) u)
       \<and> temporal (session_context s') = temporal (spread (session_context s) u)
       \<and> conversation (session_context s') = conversation (spread (session_context s) u)"
  by (auto simp: updateSession_def getSession_def Let_def split: option.splits if_splits)

lemma updateTemporal_stores:
  assumes "updateTemporal now sessions sid tf tgt = (sessions', Some s')"
  shows "currentTimeframe (temporal (session_context s')) = tf
       \<and> targetDate (temporal (session_context s')) = orNull tgt"
  using assms unfolding updateTemporal_def
  by (auto simp: Let_def spread_def noUpdates_def split: prod.splits option.splits
      dest!: updateSession_context)

lemma parseDate_current_has_no_target:
  "parseDate tz today d = (tgt, Current) \<Longrightarrow> tgt = None"
  by (auto simp: parseDate_def Let_def split: if_splits)

text \<open>
  Claim C5, as amended. After \<open>updateTemporalContext\<close>, and after a successful
  \<open>updateTemporal\<close>, the stored \<open>currentTimeframe\<close> is the timeframe passed and the
  stored \<open>targetDate\<close> is the target date passed, \<open>null\<close> when it is absent or empty.
  So the invariant (\<open>currentTimeframe = current\<close> implies \<open>targetDate = null\<close>) holds
  after the call exactly when the call does not pass a non-empty target date together
  with the timeframe \<open>current\<close>.
\<close>

theorem C5_temporal_update:
  "currentTimeframe (temporal (mgr_context (updateTemporalContext onClient now tf tgt rel st)))
     = tf
   \<and> targetDate (temporal (mgr_context (updateTemporalContext onClient now tf tgt rel st)))
     = orNull tgt
   \<and> (temporalInvariant
         (temporal (mgr_context (updateTemporalContext onClient now tf tgt rel st)))
        \<longleftrightarrow> (tf = Current \<longrightarrow> orNull tgt = None))
   \<and> (updateTemporal now sessions sid tf tgt = (sessions', Some s') \<longrightarrow>
         currentTimeframe (temporal (session_context s')) = tf
       \<and> targetDate (temporal (session_context s')) = orNull tgt
       \<and> (temporalInvariant (temporal (session_context s'))
            \<longleftrightarrow> (tf = Current \<longrightarrow> orNull tgt = None)))"
  using updateTemporalContext_stores [of onClient now tf tgt rel st]
    updateTemporal_stores [of now sessions sid tf tgt sessions' s']
  by (auto simp: temporalInvariant_def)

lemma exampleStore_updateTemporal:
  "\<exists>sessions' s'.
     updateTemporal 2000 exampleStore (js ''session_1000_abc'') tf tgt = (sessions', Some s')"
  by (simp add: updateTemporal_def updateSession_def getSession_def exampleStore_sid
      example_expiresAt Let_def)

text \<open>
  The claim as it is written fails: a call with the timeframe \<open>current\<close> and the target
  date \<open>2024-01-15\<close> leaves \<open>current\<close> stored together with that date, in the context
  manager and in the session registry.
\<close>

theorem C5_counterexample:
  "\<not> temporalInvariant (temporal (mgr_context
       (updateTemporalContext False 2000 Current (Some (js ''2024-01-15'')) None freshManager)))
   \<and> (\<exists>sessions' s'.
        updateTemporal 2000 exampleStore (js ''session_1000_abc'') Current
          (Some (js ''2024-01-15'')) = (sessions', Some s')
        \<and> currentTimeframe (temporal (session_context s')) = Current
        \<and> targetDate (temporal (session_context s')) = Some (js ''2024-01-15''))"
proof -
  have t: "orNull (Some (js ''2024-01-15'')) = Some (js ''2024-01-15'')"
    by (simp add: orNull_def truthy_def js_def)
  obtain sessions' s' where
    u: "updateTemporal 2000 exampleStore (js ''session_1000_abc'') Current
          (Some (js ''2024-01-15'')) = (sessions', Some s')"
    using exampleStore_updateTemporal by blast
  show ?thesis
    using updateTemporalContext_stores [where onClient = False and now = 2000 and tf = Current
        and tgt = "Some (js ''2024-01-15'')" and rel = None and st = freshManager]
      updateTemporal_stores [OF u] u t
    by (auto simp: temporalInvariant_def)
qed

theorem C5_witness:
  "temporalInvariant (temporal (mgr_context
       (updateTemporalContext False 2000 Forecast (Some (js ''2025-06-02''))
          (Some (js ''tomorrow'')) freshManager)))
   \<and> targetDate (temporal (mgr_context
       (updateTemporalContext False 2000 Forecast (Some (js ''2025-06-02''))
          (Some (js ''tomorrow'')) freshManager)))
       = Some (js ''2025-06-02'')
   \<and> temporalInvariant (temporal (mgr_context
       (updateTemporalContext False 2000 Current None None freshManager)))
   \<and> (\<exists>sessions' s'.
        updateTemporal 2000 exampleStore (js ''session_1000_abc'') Current None
          = (sessions', Some s')
        \<and> temporalInvariant (temporal (session_context s'))
        \<and> targetDate (temporal (session_context s')) = None)"
proof -
  have t: "orNull (Some (js ''2025-06-02'')) = Some (js ''2025-06-02'')" "orNull None = None"
    by (simp_all add: orNull_def truthy_def js_def)
  obtain sessions' s' where
    u: "updateTemporal 2000 exampleStore (js ''session_1000_abc'') Current None
          = (sessions', Some s')"
    using exampleStore_updateTemporal by blast
  show ?thesis
    using C5_temporal_update [where onClient = False and now = 2000 and tf = Forecast
        and tgt = "Some (js ''2025-06-02'')" and rel = "Some (js ''tomorrow'')"
        and st = freshManager]
      C5_temporal_update [where onClient = False and now = 2000 and tf = Current
        and tgt = None and rel = None and st = freshManager and sessions = exampleStore
        and sid = "js ''session_1000_abc''" and sessions' = sessions' and s' = s']
      u t
    by simp
qed

section \<open>Resolution with a live session\<close>

lemma live_session_throws:
  assumes "sessions sid = Some s" "now \<le> expiresAt s"
  shows "resolveContextWithSession now sessions sid query lang =
           (sessions, Inl (ReferenceError (js ''hasExplicitLocation'')))"
  using assms by (simp add: resolveContextWithSession_def getSession_def)

lemma varanasiStore_sid:
  "\<exists>s. varanasiStore (js ''session_1000_abc'') = Some s \<and> expiresAt s = 86402000
      \<and> current (ctx_location (session_context s)) = Some varanasi"
  by (simp add: varanasiStore_def SessionStore_updateLocation_def updateSession_def
      getSession_def exampleStore_sid example_expiresAt Let_def spread_def SESSION_TIMEOUT_def)

lemma indicators_tomorrow:
  "hasLocationIndicators (js ''en'') (js ''Tomorrow?'') = False"
  by (simp add: hasLocationIndicators_def testAny_def js_def toLowerCase_def lowerUnit_def)

text \<open>
  Claim C6, on \<open>resolveContextWithSession\<close>. The session of the example holds the
  location Varanasi and is live at time 3000; the query \<open>Tomorrow?\<close> carries no
  location indicator. The call does not return a rewritten query: it throws the
  \<open>ReferenceError\<close> for the undeclared identifier.
\<close>

theorem C6_session_resolver_throws:
  "(\<exists>s. varanasiStore (js ''session_1000_abc'') = Some s \<and> 3000 \<le> expiresAt s
        \<and> map_option city (current (ctx_location (session_context s)))
            = Some (js ''Varanasi''))
   \<and> \<not> hasLocationIndicators (js ''en'') (js ''Tomorrow?'')
   \<and> snd (resolveContextWithSession 3000 varanasiStore (js ''session_1000_abc'')
            (js ''Tomorrow?'') (js ''en'')) = Inl (ReferenceError (js ''hasExplicitLocation''))"
proof -
  obtain s where s: "varanasiStore (js ''session_1000_abc'') = Some s"
      "expiresAt s = 86402000" "current (ctx_location (session_context s)) = Some varanasi"
    using varanasiStore_sid by blast
  then show ?thesis
    using live_session_throws [of varanasiStore "js ''session_1000_abc''" s 3000
        "js ''Tomorrow?''" "js ''en''"] indicators_tomorrow
    by (simp add: varanasi_def)
qed

lemma startsWith_append: "startsWith (p @ b) p"
  by (induction p) auto

lemma containsStr_startsWith: "startsWith s p \<Longrightarrow> containsStr s p"
  by (cases s; cases p) auto

lemma containsStr_append: "containsStr (a @ p @ b) p"
proof (induction a)
  case Nil
  show ?case using containsStr_startsWith [OF startsWith_append] by simp
next
  case (Cons c a)
  then show ?case by simp
qed

lemma containsStr_withCity: "containsStr (withCity lang c q) c"
  using containsStr_append [of q c "[]"] containsStr_append [of "[]" c "0x306E # q"]
    containsStr_append [of "q @ js '' in ''" c "[]"]
  by (auto simp: withCity_def)

text \<open>
  The client-side resolver does what claim C6 says: for a query without a locative
  marker and a stored current location, \<open>resolveImplicitContext\<close> returns
  \<open>needsLocationInput = false\<close> and the query with the stored city spliced in by the
  template of the language, so the rewritten query contains the city.
\<close>

theorem resolveImplicitContext_uses_stored_city:
  assumes "current (ctx_location (mgr_context st)) = Some l"
      and "\<not> hasExplicitLocation lang query"
  shows "needsLocationInput (resolveImplicitContext st query lang) = False
       \<and> contextualQuery (resolveImplicitContext st query lang) = withCity lang (city l) query
       \<and> containsStr (contextualQuery (resolveImplicitContext st query lang)) (city l)"
  using assms containsStr_withCity [of lang "city l" query]
  by (simp add: resolveImplicitContext_def Let_def)

lemma updated_current:
  "\<exists>l. current (ctx_location (mgr_context
            (ContextManager_updateLocation False 2000 varanasi freshManager))) = Some l
       \<and> city l = js ''Varanasi''"
  by (simp add: ContextManager_updateLocation_def Let_def persistContext_def
      addToConversationFlow_def varanasi_def)

lemma explicit_tomorrow: "\<not> hasExplicitLocation (js ''en'') (js ''Tomorrow?'')"
  by (simp add: hasExplicitLocation_def testAny_def js_def toLowerCase_def lowerUnit_def)

text \<open>
  The example of the specification on the client side: after Varanasi has been
  resolved, the follow-up \<open>Tomorrow?\<close> becomes \<open>Tomorrow? in Varanasi\<close>.
\<close>

lemma resolveImplicitContext_example:
  "needsLocationInput (resolveImplicitContext
       (ContextManager_updateLocation False 2000 varanasi freshManager)
       (js ''Tomorrow?'') (js ''en'')) = False
   \<and> contextualQuery (resolveImplicitContext
       (ContextManager_updateLocation False 2000 varanasi freshManager)
       (js ''Tomorrow?'') (js ''en'')) = js ''Tomorrow? in Varanasi''"
proof -
  obtain l where l: "current (ctx_location (mgr_context
        (ContextManager_updateLocation False 2000 varanasi freshManager))) = Some l"
      "city l = js ''Varanasi''"
    using updated_current by blast
  from resolveImplicitContext_uses_stored_city [OF l(1) explicit_tomorrow] l(2)
  show ?thesis by (simp add: withCity_def js_def)
qed

section \<open>The date classifier\<close>













lemma civil_dates:
  "civilFromDays 20240 = (2025, 6, 1)" "civilFromDays 20241 = (2025, 6, 2)"
  "civilFromDays 20239 = (2025, 5, 31)" "civilFromDays 19358 = (2023, 1, 1)"
  "civilFromDays 20156 = (2025, 3, 9)" "civilFromDays 20157 = (2025, 3, 10)"
  by code_simp+

lemma example_days:
  "Day noon_2025_06_01 = 20240" "Day (noon_2025_06_01 + msPerDay) = 20241"
  "Day (noon_2025_06_01 - msPerDay) = 20239" "Day midnight_2023_01_01 = 19358"
  "Day 1741563000000 = 20156" "Day (evening_2025_03_08_newYork + msPerDay) = 20157"
  "Day evening_2025_03_08_newYork = 20156"
  by (simp_all add: Day_def msPerDay_def noon_2025_06_01_def midnight_2023_01_01_def
      evening_2025_03_08_newYork_def)

lemma example_dates:
  "beforeT (toISOString noon_2025_06_01) = js ''2025-06-01''"
  "beforeT (toISOString (noon_2025_06_01 + msPerDay)) = js ''2025-06-02''"
  "beforeT (toISOString (noon_2025_06_01 - msPerDay)) = js ''2025-05-31''"
  "beforeT (toISOString midnight_2023_01_01) = js ''2023-01-01''"
  "beforeT (toISOString 1741563000000) = js ''2025-03-09''"
  "beforeT (toISOString (evening_2025_03_08_newYork + msPerDay)) = js ''2025-03-10''"
  "beforeT (toISOString evening_2025_03_08_newYork) = js ''2025-03-09''"
  by (simp_all add: toISOString_def YearFromTime_def MonthFromTime_def DateFromTime_def
      example_days civil_dates MakeDay_def DayFromYear_def daysBeforeMonth_def InLeapYear_def
      isoYear_def pad2_def pad3_def pad4_def digit_def beforeT_def js_def Let_def)







text \<open>
  The year of the local calendar: at 02:00 UTC of 2025-01-01 it is still 2024 in New
  York.
\<close>

lemma example_local_year:
  "getFullYear newYork 1735696800000 = 2024" "getFullYear (fixedZone 0) 1735696800000 = 2025"
  "beforeT (toISOString 1735696800000) = js ''2025-01-01''"
proof -
  have d: "civilFromDays 20088 = (2024, 12, 31)" "civilFromDays 20089 = (2025, 1, 1)"
    by code_simp+
  show "getFullYear newYork 1735696800000 = 2024"
    by (simp add: getFullYear_def LocalTime_def newYork_def YearFromTime_def Day_def
        msPerDay_def d)
  show "getFullYear (fixedZone 0) 1735696800000 = 2025"
    by (simp add: getFullYear_def LocalTime_def fixedZone_def YearFromTime_def Day_def
        msPerDay_def d)
  show "beforeT (toISOString 1735696800000) = js ''2025-01-01''"
    by (simp add: toISOString_def YearFromTime_def MonthFromTime_def DateFromTime_def
        Day_def msPerDay_def d MakeDay_def DayFromYear_def daysBeforeMonth_def InLeapYear_def
        isoYear_def pad2_def pad3_def pad4_def digit_def beforeT_def js_def Let_def)
qed

section \<open>Recent locations\<close>

lemma set_mostRecentFirst: "set (mostRecentFirst xs) = set xs"
  by (induction xs) auto

lemma distinct_mostRecentFirst: "distinct (mostRecentFirst xs)"
  by (induction xs) auto

lemma mostRecentFirst_distinct: "distinct xs \<Longrightarrow> mostRecentFirst xs = xs"
proof (induction xs)
  case Nil
  show ?case by simp
next
  case (Cons x xs)
  then have "filter (\<lambda>y. y \<noteq> x) xs = xs"
    by (auto intro: filter_True)
  with Cons show ?case by simp
qed

lemma take_filter_take:
  "distinct L \<Longrightarrow>
     take n (filter (\<lambda>y. y \<noteq> k) (take (Suc n) L)) = take n (filter (\<lambda>y. y \<noteq> k) L)"
proof (induction L arbitrary: n)
  case Nil
  show ?case by simp
next
  case (Cons y ys)
  show ?case
  proof (cases "y = k")
    case True
    with Cons.prems have "filter (\<lambda>z. z \<noteq> k) ys = ys"
      by (auto intro: filter_True)
    moreover from True Cons.prems have "filter (\<lambda>z. z \<noteq> k) (take n ys) = take n ys"
      by (auto intro!: filter_True dest: in_set_takeD)
    ultimately show ?thesis using True by simp
  next
    case False
    show ?thesis
    proof (cases n)
      case 0
      then show ?thesis by simp
    next
      case (Suc m)
      with False Cons.IH [of m] Cons.prems show ?thesis by simp
    qed
  qed
qed

text \<open>One use of a key on a list of at most five keys, most recent first.\<close>

lemma take4_filter_take5:
  "distinct L \<Longrightarrow>
     take 4 (filter (\<lambda>y. y \<noteq> k) (take 5 L)) = take 4 (filter (\<lambda>y. y \<noteq> k) L)"
  using take_filter_take [of L 4 k] by simp

lemma use_key:
  "take 5 (k # filter (\<lambda>y. y \<noteq> k) (take 5 (mostRecentFirst xs)))
     = take 5 (mostRecentFirst (k # xs))"
  using take4_filter_take5 [OF distinct_mostRecentFirst, of k xs] by simp

lemma keys_of_filtered:
  "map locationKey (take n (l' # filter (\<lambda>loc. \<not> sameLocation loc l) xs))
     = take n (locationKey l' # filter (\<lambda>y. y \<noteq> locationKey l) (map locationKey xs))"
proof -
  have "map locationKey (filter (\<lambda>loc. \<not> sameLocation loc l) xs)
          = filter (\<lambda>y. y \<noteq> locationKey l) (map locationKey xs)"
    by (induction xs) (auto simp: sameLocation_def locationKey_def)
  then show ?thesis
    by (simp add: take_map [symmetric] del: take_Cons_numeral)
qed

lemma persistContext_location [simp]:
  "ctx_location (mgr_context (persistContext onClient now st)) = ctx_location (mgr_context st)"
  by (simp add: persistContext_def Let_def)

lemma addToConversationFlow_location [simp]:
  "ctx_location (addToConversationFlow now ty v c) = ctx_location c"
  by (simp add: addToConversationFlow_def Let_def)

lemma ContextManager_updateLocation_recent:
  "recent (ctx_location (mgr_context (ContextManager_updateLocation onClient now l st)))
     = take 5 (l\<lparr>lastUsed := Some (toISOString now),
                  confidence := Some (orNumber (confidence l) 1)\<rparr>
               # filter (\<lambda>loc. \<not> sameLocation loc l) (recent (ctx_location (mgr_context st))))"
  by (simp add: ContextManager_updateLocation_def Let_def MAX_RECENT_LOCATIONS_def)

lemma ContextManager_updateLocation_current:
  "current (ctx_location (mgr_context (ContextManager_updateLocation onClient now l st)))
     = Some (l\<lparr>lastUsed := Some (toISOString now),
                 confidence := Some (orNumber (confidence l) 1)\<rparr>)"
  by (simp add: ContextManager_updateLocation_def Let_def)

lemma ContextManager_updateLocation_keys:
  "map locationKey
     (recent (ctx_location (mgr_context (ContextManager_updateLocation onClient now l st))))
     = take 5 (locationKey l
               # filter (\<lambda>y. y \<noteq> locationKey l)
                   (map locationKey (recent (ctx_location (mgr_context st)))))"
proof -
  have "locationKey (l\<lparr>lastUsed := Some (toISOString now),
                       confidence := Some (orNumber (confidence l) 1)\<rparr>) = locationKey l"
    by (simp add: locationKey_def)
  then show ?thesis
    unfolding ContextManager_updateLocation_recent keys_of_filtered by simp
qed

lemma ContextManager_updateLocations_snoc:
  "ContextManager_updateLocations onClient (calls @ [(now, l)]) st
     = ContextManager_updateLocation onClient now l
         (ContextManager_updateLocations onClient calls st)"
  by (simp add: ContextManager_updateLocations_def)

lemma ContextManager_updateLocations_keys:
  assumes "distinct (map locationKey (recent (ctx_location (mgr_context st))))"
      and "length (recent (ctx_location (mgr_context st))) \<le> 5"
  shows "map locationKey
           (recent (ctx_location (mgr_context (ContextManager_updateLocations onClient calls st))))
         = take 5 (mostRecentFirst (rev (map (\<lambda>c. locationKey (snd c)) calls)
                     @ map locationKey (recent (ctx_location (mgr_context st)))))"
proof (induction calls rule: rev_induct)
  case Nil
  show ?case
    using assms by (simp add: ContextManager_updateLocations_def mostRecentFirst_distinct)
next
  case (snoc c calls)
  obtain now l where c: "c = (now, l)" by (cases c)
  let ?K = "rev (map (\<lambda>c. locationKey (snd c)) calls)
              @ map locationKey (recent (ctx_location (mgr_context st)))"
  have "map locationKey (recent (ctx_location (mgr_context
          (ContextManager_updateLocations onClient (calls @ [c]) st))))
        = take 5 (locationKey l # filter (\<lambda>y. y \<noteq> locationKey l)
                    (take 5 (mostRecentFirst ?K)))"
    unfolding c ContextManager_updateLocations_snoc ContextManager_updateLocation_keys
      snoc.IH ..
  also have "\<dots> = take 5 (mostRecentFirst (locationKey l # ?K))"
    by (rule use_key)
  finally show ?case by (simp add: c)
qed

lemma SessionStore_updateLocation_recent:
  assumes "fst (SessionStore_updateLocation now sessions sid l) sid = Some s'"
  shows "\<exists>s. sessions sid = Some s \<and> now \<le> expiresAt s
           \<and> current (ctx_location (session_context s')) = Some l
           \<and> recent (ctx_location (session_context s'))
               = take 5 (l # filter (\<lambda>loc. \<not> sameLocation loc l)
                               (recent (ctx_location (session_context s))))"
  using assms
  by (auto simp: SessionStore_updateLocation_def updateSession_def getSession_def Let_def
      spread_def noUpdates_def split: option.splits if_splits)

lemma SessionStore_updateLocations_keys:
  assumes "sessions sid = Some s0"
      and "distinct (map locationKey (recent (ctx_location (session_context s0))))"
      and "length (recent (ctx_location (session_context s0))) \<le> 5"
  shows "SessionStore_updateLocations sid calls sessions sid = Some s \<Longrightarrow>
         map locationKey (recent (ctx_location (session_context s)))
         = take 5 (mostRecentFirst (rev (map (\<lambda>c. locationKey (snd c)) calls)
                     @ map locationKey (recent (ctx_location (session_context s0)))))
         \<and> (calls \<noteq> [] \<longrightarrow> current (ctx_location (session_context s)) = Some (snd (last calls))
               \<and> hd (recent (ctx_location (session_context s))) = snd (last calls))"
proof (induction calls arbitrary: s rule: rev_induct)
  case Nil
  then show ?case
    using assms by (simp add: SessionStore_updateLocations_def mostRecentFirst_distinct)
next
  case (snoc c calls)
  obtain now l where c: "c = (now, l)" by (cases c)
  let ?before = "SessionStore_updateLocations sid calls sessions"
  from snoc.prems have "fst (SessionStore_updateLocation now ?before sid l) sid = Some s"
    by (simp add: SessionStore_updateLocations_def c)
  then obtain p where p: "?before sid = Some p"
      "current (ctx_location (session_context s)) = Some l"
      "recent (ctx_location (session_context s))
         = take 5 (l # filter (\<lambda>loc. \<not> sameLocation loc l)
                         (recent (ctx_location (session_context p))))"
    using SessionStore_updateLocation_recent by blast
  let ?K = "rev (map (\<lambda>c. locationKey (snd c)) calls)
              @ map locationKey (recent (ctx_location (session_context s0)))"
  from snoc.IH [OF p(1)] have
    ih: "map locationKey (recent (ctx_location (session_context p)))
           = take 5 (mostRecentFirst ?K)"
    by simp
  have "map locationKey (recent (ctx_location (session_context s)))
        = take 5 (locationKey l # filter (\<lambda>y. y \<noteq> locationKey l)
                    (take 5 (mostRecentFirst ?K)))"
    unfolding p(3) keys_of_filtered ih ..
  also have "\<dots> = take 5 (mostRecentFirst (locationKey l # ?K))"
    by (rule use_key)
  finally have "map locationKey (recent (ctx_location (session_context s)))
        = take 5 (mostRecentFirst (rev (map (\<lambda>c. locationKey (snd c)) (calls @ [c]))
                     @ map locationKey (recent (ctx_location (session_context s0)))))"
    by (simp add: c)
  then show ?case
    using p(2,3) by (simp add: c)
qed

lemma head_of_keys:
  assumes "calls \<noteq> []"
      and "map f r = take 5 (mostRecentFirst (rev (map g calls) @ K))"
  shows "r \<noteq> [] \<and> f (hd r) = g (last calls)"
proof -
  obtain cs c where "calls = cs @ [c]"
    using assms(1) by (cases calls rule: rev_cases) auto
  with assms(2) have "map f r = g c # take 4 (filter (\<lambda>y. y \<noteq> g c)
                                      (mostRecentFirst (rev (map g cs) @ K)))"
    by simp
  then show ?thesis
    using \<open>calls = cs @ [c]\<close> by (cases r) auto
qed

text \<open>
  Claim C4. Take a context manager, or a session of the registry, whose recent
  locations hold no (city, country) pair twice and number at most five, as they do
  in a fresh context. After every sequence of \<open>updateLocation\<close> calls (for the registry:
  every sequence after which the session is still in the store) the recent locations
  hold no pair twice and number at most five, and their pairs are the first five of
  the pairs used, the most recently used first, each once: the pairs of the calls from
  the latest backwards, then those of the list before the calls. In particular the
  location of the latest call is at the head.
\<close>

theorem C4_recent_locations_mru:
  "(distinct (map locationKey (recent (ctx_location (mgr_context st))))
      \<and> length (recent (ctx_location (mgr_context st))) \<le> 5 \<longrightarrow>
      distinct (map locationKey (recent (ctx_location (mgr_context
         (ContextManager_updateLocations onClient calls st)))))
    \<and> length (recent (ctx_location (mgr_context
         (ContextManager_updateLocations onClient calls st)))) \<le> 5
    \<and> map locationKey (recent (ctx_location (mgr_context
         (ContextManager_updateLocations onClient calls st))))
        = take 5 (mostRecentFirst (rev (map (\<lambda>c. locationKey (snd c)) calls)
                    @ map locationKey (recent (ctx_location (mgr_context st)))))
    \<and> (calls \<noteq> [] \<longrightarrow>
          locationKey (hd (recent (ctx_location (mgr_context
            (ContextManager_updateLocations onClient calls st)))))
          = locationKey (snd (last calls))))
   \<and> (sessions sid = Some s0
      \<and> distinct (map locationKey (recent (ctx_location (session_context s0))))
      \<and> length (recent (ctx_location (session_context s0))) \<le> 5
      \<and> SessionStore_updateLocations sid calls sessions sid = Some s \<longrightarrow>
      distinct (map locationKey (recent (ctx_location (session_context s))))
    \<and> length (recent (ctx_location (session_context s))) \<le> 5
    \<and> map locationKey (recent (ctx_location (session_context s)))
        = take 5 (mostRecentFirst (rev (map (\<lambda>c. locationKey (snd c)) calls)
                    @ map locationKey (recent (ctx_location (session_context s0)))))
    \<and> (calls \<noteq> [] \<longrightarrow> hd (recent (ctx_location (session_context s))) = snd (last calls)))"
proof (intro conjI impI; (elim conjE)?)
  let ?r = "recent (ctx_location (mgr_context (ContextManager_updateLocations onClient calls st)))"
  let ?K = "rev (map (\<lambda>c. locationKey (snd c)) calls)
              @ map locationKey (recent (ctx_location (mgr_context st)))"
  assume a: "distinct (map locationKey (recent (ctx_location (mgr_context st))))"
            "length (recent (ctx_location (mgr_context st))) \<le> 5"
  have k: "map locationKey ?r = take 5 (mostRecentFirst ?K)"
    by (rule ContextManager_updateLocations_keys [OF a])
  show "map locationKey ?r = take 5 (mostRecentFirst ?K)" by (rule k)
  show "distinct (map locationKey ?r)"
    unfolding k by (simp add: distinct_mostRecentFirst)
  have "length (map locationKey ?r) \<le> 5"
    unfolding k by simp
  then show "length ?r \<le> 5" by simp
  show "locationKey (hd ?r) = locationKey (snd (last calls))" if "calls \<noteq> []"
    using head_of_keys [OF that k] by simp
next
  let ?r = "recent (ctx_location (session_context s))"
  let ?K = "rev (map (\<lambda>c. locationKey (snd c)) calls)
              @ map locationKey (recent (ctx_location (session_context s0)))"
  assume a: "sessions sid = Some s0"
            "distinct (map locationKey (recent (ctx_location (session_context s0))))"
            "length (recent (ctx_location (session_context s0))) \<le> 5"
            "SessionStore_updateLocations sid calls sessions sid = Some s"
  note r = SessionStore_updateLocations_keys [OF a]
  from r have k: "map locationKey ?r = take 5 (mostRecentFirst ?K)" by simp
  show "map locationKey ?r = take 5 (mostRecentFirst ?K)" by (rule k)
  show "distinct (map locationKey ?r)"
    unfolding k by (simp add: distinct_mostRecentFirst)
  have "length (map locationKey ?r) \<le> 5"
    unfolding k by simp
  then show "length ?r \<le> 5" by simp
  show "hd ?r = snd (last calls)" if "calls \<noteq> []"
    using r that by simp
qed

lemma fresh_recent:
  "recent (ctx_location (mgr_context freshManager)) = []"
  "recent (ctx_location (session_context
     (snd (createSession 1000 (js ''session_1000_abc'') noUpdates Map.empty)))) = []"
  by (simp_all add: freshManager_def initializeContext_def createSession_def Let_def spread_def
      noUpdates_def)

lemma store_step_live:
  assumes "sessions sid = Some s" "now \<le> expiresAt s"
  shows "\<exists>s'. fst (SessionStore_updateLocation now sessions sid l) sid = Some s'
            \<and> expiresAt s' = now + SESSION_TIMEOUT"
  using assms
  by (simp add: SessionStore_updateLocation_def updateSession_def getSession_def Let_def)

lemma example_store_run:
  "\<exists>s. SessionStore_updateLocations (js ''session_1000_abc'')
         [(2000, place ''Tokyo'' ''Japan''), (3000, place ''London'' ''UK''),
          (4000, place ''Tokyo'' ''Japan'')] exampleStore (js ''session_1000_abc'') = Some s"
proof -
  let ?sid = "js ''session_1000_abc''"
  let ?st1 = "fst (SessionStore_updateLocation 2000 exampleStore ?sid (place ''Tokyo'' ''Japan''))"
  let ?st2 = "fst (SessionStore_updateLocation 3000 ?st1 ?sid (place ''London'' ''UK''))"
  let ?st3 = "fst (SessionStore_updateLocation 4000 ?st2 ?sid (place ''Tokyo'' ''Japan''))"
  obtain s1 where s1: "?st1 ?sid = Some s1" "expiresAt s1 = 2000 + SESSION_TIMEOUT"
    using store_step_live [of exampleStore ?sid _ 2000 "place ''Tokyo'' ''Japan''"]
      exampleStore_sid example_expiresAt
    by auto
  obtain s2 where s2: "?st2 ?sid = Some s2" "expiresAt s2 = 3000 + SESSION_TIMEOUT"
    using store_step_live [of ?st1 ?sid s1 3000 "place ''London'' ''UK''"] s1
    by (auto simp: SESSION_TIMEOUT_def)
  obtain s3 where s3: "?st3 ?sid = Some s3"
    using store_step_live [of ?st2 ?sid s2 4000 "place ''Tokyo'' ''Japan''"] s2
    by (auto simp: SESSION_TIMEOUT_def)
  then show ?thesis
    by (simp add: SessionStore_updateLocations_def)
qed

theorem C4_witness:
  "recent (ctx_location (mgr_context freshManager)) = []
   \<and> map locationKey (recent (ctx_location (mgr_context
        (ContextManager_updateLocations False
           [(1, place ''Tokyo'' ''Japan''), (2, place ''London'' ''UK''),
            (3, place ''Tokyo'' ''Japan''), (4, place ''Paris'' ''France''),
            (5, place ''Berlin'' ''Germany''), (6, place ''Rome'' ''Italy''),
            (7, place ''Madrid'' ''Spain'')] freshManager))))
      = [(js ''Madrid'', js ''Spain''), (js ''Rome'', js ''Italy''),
         (js ''Berlin'', js ''Germany''), (js ''Paris'', js ''France''),
         (js ''Tokyo'', js ''Japan'')]
   \<and> (\<exists>s. SessionStore_updateLocations (js ''session_1000_abc'')
         [(2000, place ''Tokyo'' ''Japan''), (3000, place ''London'' ''UK''),
          (4000, place ''Tokyo'' ''Japan'')] exampleStore (js ''session_1000_abc'') = Some s
        \<and> map locationKey (recent (ctx_location (session_context s)))
            = [(js ''Tokyo'', js ''Japan''), (js ''London'', js ''UK'')]
        \<and> hd (recent (ctx_location (session_context s))) = place ''Tokyo'' ''Japan'')"
proof -
  let ?sid = "js ''session_1000_abc''"
  let ?calls3 = "[(2000, place ''Tokyo'' ''Japan''), (3000, place ''London'' ''UK''),
          (4000, place ''Tokyo'' ''Japan'')]"
  let ?calls7 = "[(1, place ''Tokyo'' ''Japan''), (2, place ''London'' ''UK''),
            (3, place ''Tokyo'' ''Japan''), (4, place ''Paris'' ''France''),
            (5, place ''Berlin'' ''Germany''), (6, place ''Rome'' ''Italy''),
            (7, place ''Madrid'' ''Spain'')]"
  obtain s where s: "SessionStore_updateLocations ?sid ?calls3 exampleStore ?sid = Some s"
    using example_store_run by blast
  have keys: "locationKey (place c k) = (js c, js k)" for c k
    by (simp add: locationKey_def place_def)
  have ne: "js ''Tokyo'' \<noteq> js ''London''" "js ''Tokyo'' \<noteq> js ''Paris''"
    "js ''Tokyo'' \<noteq> js ''Berlin''" "js ''Tokyo'' \<noteq> js ''Rome''" "js ''Tokyo'' \<noteq> js ''Madrid''"
    "js ''London'' \<noteq> js ''Paris''" "js ''London'' \<noteq> js ''Berlin''"
    "js ''London'' \<noteq> js ''Rome''" "js ''London'' \<noteq> js ''Madrid''"
    "js ''Paris'' \<noteq> js ''Berlin''" "js ''Paris'' \<noteq> js ''Rome''" "js ''Paris'' \<noteq> js ''Madrid''"
    "js ''Berlin'' \<noteq> js ''Rome''" "js ''Berlin'' \<noteq> js ''Madrid''" "js ''Rome'' \<noteq> js ''Madrid''"
    by (simp_all add: js_def)
  show ?thesis
    using C4_recent_locations_mru [where st = freshManager and onClient = False
        and calls = ?calls7 and sessions = "Map.empty" and sid = ?sid]
      C4_recent_locations_mru [where st = freshManager and onClient = False
        and calls = ?calls3 and sessions = exampleStore and sid = ?sid and s = s
        and ?s0.0 = "snd (createSession 1000 ?sid noUpdates Map.empty)"]
      s exampleStore_sid fresh_recent ne ne [symmetric]
    by (simp add: keys)
qed

section \<open>Numbers\<close>

lemma bitlen_pos_bounds:
  assumes "0 < (n::int)"
  shows "2 ^ nat (bitlen n - 1) \<le> n" "n < 2 ^ nat (bitlen n)" "0 < bitlen n"
proof -
  show a: "2 ^ nat (bitlen n - 1) \<le> n" and b: "n < 2 ^ nat (bitlen n)"
    using bitlen_bounds [OF assms] by simp_all
  show "0 < bitlen n"
  proof (rule ccontr)
    assume "\<not> 0 < bitlen n"
    then have "nat (bitlen n) = 0" by simp
    then show False using b assms by simp
  qed
qed

lemma powr_of_int:
  assumes "0 \<le> k"
  shows "(2::real) powr real_of_int k = 2 ^ nat k"
  using assms powr_realpow [of 2 "nat k"] by simp

text \<open>\<open>exponentOf\<close> is the exponent of the binade.\<close>

lemma exponentOf_binade:
  assumes "0 < x"
  shows "2 powr real_of_int (exponentOf x) \<le> x \<and> x < 2 powr real_of_int (exponentOf x + 1)"
proof (cases "1 \<le> x")
  case True
  let ?n = "\<lfloor>x\<rfloor>"
  have n: "0 < ?n" using True by simp
  have b: "2 ^ nat (bitlen ?n - 1) \<le> ?n" "?n < 2 ^ nat (bitlen ?n)" "0 < bitlen ?n"
    using bitlen_pos_bounds [OF n] by auto
  have e: "exponentOf x = bitlen ?n - 1" using True by (simp add: exponentOf_def)
  have l: "(2::real) powr real_of_int (bitlen ?n - 1) = 2 ^ nat (bitlen ?n - 1)"
    using b(3) by (intro powr_of_int) simp
  have u: "(2::real) powr real_of_int (bitlen ?n) = 2 ^ nat (bitlen ?n)"
    using b(3) by (intro powr_of_int) simp
  have "real_of_int (2 ^ nat (bitlen ?n - 1)) \<le> x"
    by (metis b(1) le_floor_iff)
  moreover have "x < real_of_int (2 ^ nat (bitlen ?n))"
    by (metis b(2) floor_less_iff)
  ultimately show ?thesis
    using e l u by simp
next
  case False
  let ?m = "\<lceil>1 / x\<rceil> - 1"
  let ?b = "bitlen ?m"
  have x1: "x < 1" using False by simp
  have inv: "1 < 1 / x" using assms x1 by simp
  have m: "0 < ?m" using inv by linarith
  have b: "2 ^ nat (?b - 1) \<le> ?m" "?m < 2 ^ nat ?b" "0 < ?b"
    using bitlen_pos_bounds [OF m] by auto
  have e: "exponentOf x = - ?b" using False by (simp add: exponentOf_def)
  have lo: "real_of_int ?m < 1 / x" by linarith
  have hi: "1 / x \<le> real_of_int (?m + 1)" by linarith
  have "?m + 1 \<le> 2 ^ nat ?b" using b(2) by linarith
  then have hi2: "real_of_int (?m + 1) \<le> 2 ^ nat ?b"
    by (metis of_int_le_iff of_int_numeral of_int_power)
  have lo2: "(2::real) ^ nat (?b - 1) \<le> real_of_int ?m"
    by (metis b(1) numeral_power_le_of_int_cancel_iff)
  have p1: "(2::real) powr real_of_int (- ?b) = 1 / 2 ^ nat ?b"
    using b(3) powr_of_int [of ?b] by (simp add: powr_minus inverse_eq_divide)
  have "(2::real) powr real_of_int (- (?b - 1)) = 1 / 2 ^ nat (?b - 1)"
    using b(3) powr_of_int [of "?b - 1"]
    by (simp only: of_int_minus powr_minus inverse_eq_divide)
  then have p2: "(2::real) powr real_of_int (- ?b + 1) = 1 / 2 ^ nat (?b - 1)"
    by (simp add: algebra_simps)
  have "1 / x \<le> 2 ^ nat ?b" using hi hi2 by linarith
  then have "1 \<le> 2 ^ nat ?b * x" using assms by (simp add: field_simps)
  then have low: "1 / 2 ^ nat ?b \<le> x" by (simp add: field_simps)
  have "(2::real) ^ nat (?b - 1) < 1 / x" using lo lo2 by linarith
  then have "2 ^ nat (?b - 1) * x < 1" using assms by (simp add: field_simps)
  then have high: "x < 1 / 2 ^ nat (?b - 1)" by (simp add: field_simps)
  show ?thesis
    using e p1 p2 low high by simp
qed

lemma binade_unique:
  fixes a b :: int
  assumes "2 powr real_of_int a \<le> z" "z < 2 powr real_of_int (a + 1)"
      and "2 powr real_of_int b \<le> z" "z < 2 powr real_of_int (b + 1)"
  shows "a = b"
proof -
  have "2 powr real_of_int a < 2 powr real_of_int (b + 1)" using assms by linarith
  then have 1: "a < b + 1" by simp
  have "2 powr real_of_int b < 2 powr real_of_int (a + 1)" using assms by linarith
  then have 2: "b < a + 1" by simp
  show ?thesis using 1 2 by linarith
qed

lemma exponentOf_eq:
  assumes "2 powr real_of_int a \<le> z" "z < 2 powr real_of_int (a + 1)"
  shows "exponentOf z = a"
proof -
  have "0 < z" using assms(1) by (smt (verit) powr_gt_zero)
  from exponentOf_binade [OF this] show ?thesis
    using binade_unique [of "exponentOf z" z a] assms by simp
qed

lemma ulp_powr: "ulp e = 2 powr real_of_int (e - 52)"
proof (cases "52 \<le> e")
  case True
  then show ?thesis using powr_of_int [of "e - 52"] by (simp add: ulp_def)
next
  case False
  then have "(2::real) powr real_of_int (- (52 - e)) = 1 / 2 ^ nat (52 - e)"
    using powr_of_int [of "52 - e"]
    by (simp only: of_int_minus powr_minus inverse_eq_divide)
  then show ?thesis using False by (simp add: ulp_def algebra_simps)
qed

lemma roundTiesToEven_int: "roundTiesToEven (of_int k) = k"
  by (simp add: roundTiesToEven_def)

lemma roundTiesToEven_bounds:
  "real_of_int (roundTiesToEven q) \<le> q + 1 / 2" "q - 1 / 2 \<le> real_of_int (roundTiesToEven q)"
  by (auto simp: roundTiesToEven_def Let_def) linarith+

lemma roundTiesToEven_mono_int:
  "real_of_int k \<le> q \<Longrightarrow> k \<le> roundTiesToEven q"
  "q \<le> real_of_int k \<Longrightarrow> roundTiesToEven q \<le> k"
proof -
  let ?f = "\<lfloor>q\<rfloor>"
  have r: "roundTiesToEven q = ?f \<or> roundTiesToEven q = ?f + 1"
    by (simp add: roundTiesToEven_def Let_def)
  show "real_of_int k \<le> q \<Longrightarrow> k \<le> roundTiesToEven q"
  proof -
    assume "real_of_int k \<le> q"
    then have "k \<le> ?f" by (simp add: le_floor_iff)
    then show ?thesis using r by auto
  qed
  show "q \<le> real_of_int k \<Longrightarrow> roundTiesToEven q \<le> k"
  proof (cases "q = of_int ?f")
    case True
    assume "q \<le> real_of_int k"
    then have "?f \<le> k" by linarith
    moreover have "roundTiesToEven q = ?f"
      using True by (simp add: roundTiesToEven_def Let_def)
    ultimately show ?thesis by simp
  next
    case False
    assume "q \<le> real_of_int k"
    then have "of_int ?f < real_of_int k" using False by linarith
    then have "?f + 1 \<le> k" by linarith
    then show ?thesis using r by auto
  qed
qed

lemma toDouble_unfold:
  "x \<noteq> 0 \<Longrightarrow> toDouble x
     = of_int (roundTiesToEven (x / ulp (max (exponentOf \<bar>x\<bar>) (- 1022))))
       * ulp (max (exponentOf \<bar>x\<bar>) (- 1022))"
  by (simp add: toDouble_def Let_def)

lemma exponentOf_le:
  assumes "0 < z" "z < 2 powr real_of_int (a + 1)"
  shows "exponentOf z \<le> a"
proof -
  have "2 powr real_of_int (exponentOf z) < 2 powr real_of_int (a + 1)"
    using exponentOf_binade [OF assms(1)] assms(2) by linarith
  then show ?thesis by simp
qed

lemma exponentOf_ge:
  assumes "2 powr real_of_int a \<le> z"
  shows "a \<le> exponentOf z"
proof -
  have z: "0 < z" using assms by (smt (verit) powr_gt_zero)
  have "2 powr real_of_int a < 2 powr real_of_int (exponentOf z + 1)"
    using exponentOf_binade [OF z] assms by linarith
  then show ?thesis by simp
qed

lemma ulp_scale:
  "2 powr real_of_int (e + 1) = 2 ^ 53 * ulp e" "2 powr real_of_int e = 2 ^ 52 * ulp e"
  "ulp (e + 1) = 2 * ulp e" "0 < ulp e"
proof -
  have "real_of_int (e + 1) = 53 + real_of_int (e - 52)" by simp
  then have "2 powr real_of_int (e + 1) = 2 powr 53 * 2 powr real_of_int (e - 52)"
    by (simp only: powr_add)
  then show "2 powr real_of_int (e + 1) = 2 ^ 53 * ulp e" by (simp add: ulp_powr)
  have "real_of_int e = 52 + real_of_int (e - 52)" by simp
  then have "2 powr real_of_int e = 2 powr 52 * 2 powr real_of_int (e - 52)"
    by (simp only: powr_add)
  then show "2 powr real_of_int e = 2 ^ 52 * ulp e" by (simp add: ulp_powr)
  have "real_of_int (e + 1 - 52) = 1 + real_of_int (e - 52)" by simp
  then have "2 powr real_of_int (e + 1 - 52) = 2 powr 1 * 2 powr real_of_int (e - 52)"
    by (simp only: powr_add)
  then show "ulp (e + 1) = 2 * ulp e" by (simp add: ulp_powr)
  show "0 < ulp e" by (simp add: ulp_powr)
qed

text \<open>\<open>toDouble x\<close> is within half a unit in the last place of \<open>x\<close>.\<close>

lemma toDouble_nearest:
  assumes "x \<noteq> 0"
  shows "\<bar>toDouble x - x\<bar> \<le> ulp (max (exponentOf \<bar>x\<bar>) (- 1022)) / 2"
proof -
  define u where "u = ulp (max (exponentOf \<bar>x\<bar>) (- 1022))"
  define q where "q = x / u"
  have u: "0 < u" unfolding u_def by (rule ulp_scale)
  have x: "x = q * u" using u by (simp add: q_def)
  have "toDouble x - x = (real_of_int (roundTiesToEven q) - q) * u"
    using assms u by (simp add: toDouble_unfold u_def [symmetric] q_def algebra_simps)
  moreover have "\<bar>real_of_int (roundTiesToEven q) - q\<bar> \<le> 1 / 2"
    using roundTiesToEven_bounds [of q] by linarith
  ultimately have "\<bar>toDouble x - x\<bar> \<le> 1 / 2 * u"
    using u by (simp add: abs_mult)
  then show ?thesis by (simp add: u_def)
qed

text \<open>\<open>toDouble\<close> leaves a double as it is.\<close>

lemma toDouble_idem: "toDouble (toDouble x) = toDouble x"
proof (cases "x = 0")
  case True
  then show ?thesis by (simp add: toDouble_def)
next
  case False
  define E where "E = max (exponentOf \<bar>x\<bar>) (- 1022)"
  define u where "u = ulp E"
  define q where "q = x / u"
  define r where "r = roundTiesToEven q"
  define y where "y = real_of_int r * u"
  have y: "toDouble x = y"
    using False by (simp add: toDouble_unfold E_def u_def q_def r_def y_def)
  have u: "0 < u" unfolding u_def by (rule ulp_scale)
  have E: "exponentOf \<bar>x\<bar> \<le> E" "- 1022 \<le> E" by (simp_all add: E_def)
  have scale: "2 powr real_of_int (E + 1) = 2 ^ 53 * u" "2 powr real_of_int E = 2 ^ 52 * u"
    "ulp (E + 1) = 2 * u"
    unfolding u_def by (rule ulp_scale)+
  have ax: "0 < \<bar>x\<bar>" using False by simp
  have absx: "\<bar>x\<bar> = \<bar>q\<bar> * u" using u by (simp add: q_def abs_mult)
  have absy: "\<bar>y\<bar> = real_of_int \<bar>r\<bar> * u" using u by (simp add: y_def abs_mult)
  have "2 powr real_of_int (exponentOf \<bar>x\<bar> + 1) \<le> 2 powr real_of_int (E + 1)"
    using E(1) by simp
  then have "\<bar>x\<bar> < 2 ^ 53 * u"
    using exponentOf_binade [OF ax] scale(1) by linarith
  then have "\<bar>q\<bar> * u < 2 ^ 53 * u" by (simp only: absx)
  then have q53: "\<bar>q\<bar> < 2 ^ 53" using u by simp
  have q: "q \<le> real_of_int (2 ^ 53)" "real_of_int (- (2 ^ 53)) \<le> q"
    using q53 by simp_all
  have "r \<le> 2 ^ 53" "- (2 ^ 53) \<le> r"
    using roundTiesToEven_mono_int(2) [OF q(1)] roundTiesToEven_mono_int(1) [OF q(2)]
    by (simp_all add: r_def)
  then have r53: "\<bar>r\<bar> \<le> 2 ^ 53" by simp
  show ?thesis
  proof (cases "r = 0")
    case True
    then show ?thesis unfolding y by (simp add: y_def toDouble_def)
  next
    case r0: False
    have y0: "y \<noteq> 0" using r0 u by (simp add: y_def)
    have ay: "0 < \<bar>y\<bar>" using y0 by simp
    show ?thesis
    proof (cases "\<bar>r\<bar> = 2 ^ 53")
      case True
      then have "real_of_int \<bar>r\<bar> = 2 ^ 53" by simp
      then have ytop: "\<bar>y\<bar> = 2 powr real_of_int (E + 1)"
        by (simp only: absy scale(1))
      have "2 powr real_of_int (E + 1) < 2 powr real_of_int (E + 1 + 1)" by simp
      then have e: "exponentOf \<bar>y\<bar> = E + 1"
        using exponentOf_eq [of "E + 1" "\<bar>y\<bar>"] ytop by simp
      have m: "max (E + 1) (- 1022) = E + 1" using E(2) by simp
      have "r = 2 ^ 53 \<or> r = - (2 ^ 53)" using True by linarith
      then have "even r" by auto
      then have even: "r = 2 * (r div 2)" by simp
      have "y / (2 * u) = real_of_int (r div 2)"
      proof -
        have "y = real_of_int (2 * (r div 2)) * u" using even by (simp only: y_def)
        then show ?thesis using u by simp
      qed
      then have "toDouble y = real_of_int (r div 2) * (2 * u)"
        using y0 by (simp add: toDouble_unfold e m scale(3) roundTiesToEven_int)
      also have "\<dots> = y"
      proof -
        have "y = real_of_int (2 * (r div 2)) * u" using even by (simp only: y_def)
        then show ?thesis by simp
      qed
      finally show ?thesis unfolding y .
    next
      case False
      then have lt: "\<bar>r\<bar> < 2 ^ 53" using r53 by linarith
      then have "real_of_int \<bar>r\<bar> < 2 ^ 53" by (metis of_int_less_numeral_power_cancel_iff)
      then have "\<bar>y\<bar> < 2 ^ 53 * u" using u by (simp add: absy)
      then have "\<bar>y\<bar> < 2 powr real_of_int (E + 1)" by (simp only: scale(1))
      then have le: "exponentOf \<bar>y\<bar> \<le> E" using exponentOf_le [OF ay] by simp
      have same: "max (exponentOf \<bar>y\<bar>) (- 1022) = E"
      proof (cases "E = exponentOf \<bar>x\<bar>")
        case True
        then have "2 ^ 52 * u \<le> \<bar>x\<bar>"
          using exponentOf_binade [OF ax] scale(2) by simp
        then have "2 ^ 52 * u \<le> \<bar>q\<bar> * u" by (simp only: absx)
        then have q52: "2 ^ 52 \<le> \<bar>q\<bar>" using u by simp
        have "2 ^ 52 \<le> \<bar>r\<bar>"
        proof (cases "0 \<le> q")
          case True
          then have "real_of_int (2 ^ 52) \<le> q" using q52 by simp
          from roundTiesToEven_mono_int(1) [OF this] show ?thesis by (simp add: r_def)
        next
          case False
          then have "q \<le> real_of_int (- (2 ^ 52))" using q52 by simp
          from roundTiesToEven_mono_int(2) [OF this] show ?thesis by (simp add: r_def)
        qed
        then have "(2::real) ^ 52 \<le> real_of_int \<bar>r\<bar>"
          by (metis numeral_power_le_of_int_cancel_iff)
        then have "2 ^ 52 * u \<le> \<bar>y\<bar>" using u by (simp add: absy)
        then have "2 powr real_of_int E \<le> \<bar>y\<bar>" by (simp only: scale(2))
        then have "E \<le> exponentOf \<bar>y\<bar>" by (rule exponentOf_ge)
        then show ?thesis using le E(2) by linarith
      next
        case False
        then have "E = - 1022" using E by (simp add: E_def)
        then show ?thesis using le by linarith
      qed
      have "y / u = real_of_int r" using u by (simp add: y_def)
      then have "toDouble y = y"
        using y0 same by (simp add: toDouble_unfold u_def roundTiesToEven_int y_def)
      then show ?thesis unfolding y .
    qed
  qed
qed

section \<open>The tool-execution phase\<close>

lemma Promise_all_rejects: "\<exists>p\<in>set ps. isl p \<Longrightarrow> isl (Promise_all ps)"
proof (induction ps rule: Promise_all.induct)
  case 1
  then show ?case by simp
next
  case (2 e ps)
  show ?case by simp
next
  case (3 v ps)
  then show ?case by (auto split: sum.splits)
qed

lemma Promise_all_fulfils: "Promise_all (map Inr vs) = Inr vs"
  by (induction vs) auto

text \<open>
  The promise of one invocation. It is fulfilled exactly when the arguments parse and
  the lookup returns an observation, and its value then carries the identifier of the
  call; it is rejected exactly when the arguments do not parse or the lookup throws.
\<close>

lemma runToolCall_fulfilled:
  "snd (runToolCall env tc) = Inr r \<longleftrightarrow>
     (\<exists>args. JSON_parse env (function_arguments tc) = Some args
        \<and> snd (executeWeatherTool env args) = Inr (result r)) \<and> tool_call_id r = call_id tc"
  by (cases r) (auto simp: runToolCall_def split: option.splits prod.splits sum.splits)

lemma runToolCall_rejected:
  "isl (snd (runToolCall env tc)) \<longleftrightarrow>
     (case JSON_parse env (function_arguments tc) of
        None \<Rightarrow> True
      | Some args \<Rightarrow> isl (snd (executeWeatherTool env args)))"
  by (auto simp: runToolCall_def split: option.splits prod.splits sum.splits)

lemma lookups_all_succeed:
  assumes "list_all2 (\<lambda>tc ob. case JSON_parse env (function_arguments tc) of
             None \<Rightarrow> False
           | Some args \<Rightarrow> snd (executeWeatherTool env args) = Inr ob) calls obs"
  shows "map snd (map (runToolCall env) calls)
           = map Inr (map2 (\<lambda>tc ob. \<lparr>tool_call_id = call_id tc, result = ob\<rparr>) calls obs)"
  using assms
  by (induction calls obs rule: list_all2_induct)
     (auto simp: runToolCall_def split: option.splits prod.splits sum.splits)

lemma results_of_lookups:
  "length calls = length obs \<Longrightarrow>
     map result (map2 (\<lambda>tc ob. \<lparr>tool_call_id = call_id tc, result = ob\<rparr>) calls obs) = obs"
  by (induction calls obs rule: list_induct2) auto

lemma toolMessages_of_lookups:
  "toolMessages env (map2 (\<lambda>tc ob. \<lparr>tool_call_id = call_id tc, result = ob\<rparr>) calls obs)
     = map2 (\<lambda>tc ob. ToolResultMessage (call_id tc) (JSON_stringify env ob)) calls obs"
proof (induction calls arbitrary: obs)
  case Nil
  show ?case by (simp add: toolMessages_def)
next
  case (Cons tc calls)
  then show ?case by (cases obs) (auto simp: toolMessages_def)
qed

lemma executedLookups_append:
  "executedLookups (xs @ ys) = executedLookups xs @ executedLookups ys"
  by (induction xs rule: executedLookups.induct) auto

text \<open>The lookups started by the mapped function: one for every call whose arguments parse.\<close>

lemma executedLookups_of_calls:
  "executedLookups (concat (map (\<lambda>tc. fst (runToolCall env tc)) calls))
     = List.map_filter (\<lambda>tc. JSON_parse env (function_arguments tc)) calls"
  by (induction calls)
     (auto simp: executedLookups_append runToolCall_def map_filter_simps
       split: option.splits prod.splits sum.splits)

text \<open>
  What makes a lookup throw: arguments that are \<open>null\<close> or hold no string as their
  location, a location whose coordinates are not found, and a weather request that
  fails or is answered with a status that is not ok.
\<close>

lemma lookup_fails_when:
  "isl (readProperty (js ''location'') args) \<Longrightarrow> isl (snd (executeWeatherTool env args))"
  "readProperty (js ''location'') args = Inr location \<Longrightarrow>
     isl (snd (getCoordinatesOf (geocoding env) location)) \<Longrightarrow>
     isl (snd (executeWeatherTool env args))"
  "readProperty (js ''location'') args = Inr (Some (JString loc)) \<Longrightarrow>
     isl (snd (getCoordinates (geocoding env) loc)) \<Longrightarrow>
     isl (snd (executeWeatherTool env args))"
  "readProperty (js ''location'') args = Inr location \<Longrightarrow>
     getCoordinatesOf (geocoding env) location = (sent, Inr coords) \<Longrightarrow>
     coords_lat coords = Some la \<Longrightarrow> coords_lng coords = Some lo \<Longrightarrow>
     readProperty (js ''date'') args = Inr date \<Longrightarrow>
     parseDateOf (zone env) (clock env) date = Inr parsed \<Longrightarrow>
     weatherApi env (weatherRequest la lo parsed) = WeatherFetchFailed
       \<or> weatherApi env (weatherRequest la lo parsed) = WeatherStatus st \<Longrightarrow>
     isl (snd (executeWeatherTool env args))"
  by (auto simp: executeWeatherTool_def getCoordinatesOf_def Let_def
      split: prod.splits sum.splits)

lemma languageIsJa_iff: "languageIsJa req \<longleftrightarrow> req_language req = Some (js ''ja'')"
  by (simp add: languageIsJa_def js_def split: option.splits)

text \<open>
  Claim C1. In the tool-execution phase of \<open>POST\<close> (the credential is set, the last
  message is the user's, the first completion carries tool calls), when the arguments
  of one of the calls do not parse or the lookup of one of the calls throws, the
  handler answers with status 200, \<open>error: true\<close> and the message that no weather
  information could be got, in Japanese when the language of the request is \<open>ja\<close> and
  in English otherwise; the body has no \<open>weatherData\<close>, \<open>toolsUsed\<close> or \<open>multiCity\<close>, so
  nothing of a lookup that succeeded is returned. Every lookup whose arguments parse
  was started, in the order of the calls, and no second completion is requested.
\<close>

theorem C1_any_failed_lookup_fails_the_turn:
  assumes "truthy (OPENAI_API_KEY env)"
      and "lastMessageIsUser (req_messages req)"
      and "openai env (chatFirstRequest env req) = CompletionOk message"
      and "tool_calls message = Some calls" and "calls \<noteq> []"
      and "\<exists>toolCall\<in>set calls.
             case JSON_parse env (function_arguments toolCall) of
               None \<Rightarrow> True
             | Some args \<Rightarrow> isl (snd (executeWeatherTool env args))"
  shows "POST_chat env req =
           (CompletionRequested (chatFirstRequest env req)
              # concat (map (\<lambda>toolCall. fst (runToolCall env toolCall)) calls),
            \<lparr>status = 200,
             body = \<lparr>response = Some
                       (if req_language req = Some (js ''ja'') then
                          [0x7533, 0x3057, 0x8A33, 0x3054, 0x3056, 0x3044, 0x307E, 0x305B,
                           0x3093, 0x304C, 0x3001, 0x5929, 0x6C17, 0x60C5, 0x5831, 0x3092,
                           0x53D6, 0x5F97, 0x3067, 0x304D, 0x307E, 0x305B, 0x3093, 0x3067,
                           0x3057, 0x305F, 0x3002, 0x5225, 0x306E, 0x90FD, 0x5E02, 0x540D,
                           0x3092, 0x304A, 0x8A66, 0x3057, 0x304F, 0x3060, 0x3055, 0x3044,
                           0x3002]
                        else js ''Sorry, I couldn'' @ [39]
                             @ js ''t get weather information. Please try different city names.''),
                     weatherData = None, toolsUsed = None, multiCity = None,
                     toolUsed = None, error = Some ErrorTrue\<rparr>\<rparr>)
       \<and> executedLookups (fst (POST_chat env req))
           = List.map_filter (\<lambda>toolCall. JSON_parse env (function_arguments toolCall)) calls"
proof -
  obtain toolCall others where c: "calls = toolCall # others"
    using assms(5) by (cases calls) auto
  have "\<exists>toolCall\<in>set calls. isl (snd (runToolCall env toolCall))"
    using assms(6) by (simp add: runToolCall_rejected)
  then have "isl (Promise_all (map snd (map (runToolCall env) calls)))"
    by (intro Promise_all_rejects) auto
  then obtain e where e: "Promise_all (map snd (map (runToolCall env) calls)) = Inl e"
    by (cases "Promise_all (map snd (map (runToolCall env) calls))") auto
  have m: "map fst (map (runToolCall env) calls)
             = map (\<lambda>toolCall. fst (runToolCall env toolCall)) calls"
    by simp
  have post: "POST_chat env req =
           (CompletionRequested (chatFirstRequest env req)
              # concat (map (\<lambda>toolCall. fst (runToolCall env toolCall)) calls),
            \<lparr>status = 200,
             body = \<lparr>response = Some (weatherErrorMessage (languageIsJa req)),
                     weatherData = None, toolsUsed = None, multiCity = None,
                     toolUsed = None, error = Some ErrorTrue\<rparr>\<rparr>)"
    using assms(1-4) e m unfolding c
    by (simp add: POST_chat_def Let_def toolErrorResponse_def emptyBody_def comp_def)
  have lookups: "executedLookups (fst (POST_chat env req))
      = List.map_filter (\<lambda>toolCall. JSON_parse env (function_arguments toolCall)) calls"
    unfolding post by (simp add: executedLookups_of_calls)
  show ?thesis
    using lookups unfolding post by (simp add: weatherErrorMessage_def languageIsJa_iff)
qed

text \<open>The handler once every lookup has succeeded, up to the second completion.\<close>

lemma POST_chat_after_join:
  assumes "truthy (OPENAI_API_KEY env)"
      and "lastMessageIsUser (req_messages req)"
      and "openai env (chatFirstRequest env req) = CompletionOk message"
      and "tool_calls message = Some calls" and "calls \<noteq> []"
      and "list_all2 (\<lambda>toolCall ob. case JSON_parse env (function_arguments toolCall) of
               None \<Rightarrow> False
             | Some args \<Rightarrow> snd (executeWeatherTool env args) = Inr ob) calls obs"
      and "final = \<lparr>request_messages =
                      SystemMessage (ComparisonFormattingPreamble (languageIsJa req))
                      # map HistoryMessage (req_messages req)
                      @ [AssistantToolCalls message]
                      @ map2 (\<lambda>toolCall ob. ToolResultMessage (call_id toolCall)
                                (JSON_stringify env ob)) calls obs,
                    declares_weatherTool = False\<rparr>"
  shows "POST_chat env req =
           (CompletionRequested (chatFirstRequest env req)
              # concat (map (\<lambda>toolCall. fst (runToolCall env toolCall)) calls)
              @ [CompletionRequested final],
            case openai env final of
              CompletionOk finalMessage \<Rightarrow>
                \<lparr>status = 200,
                 body = \<lparr>response = message_content finalMessage,
                         weatherData = Some (Array obs), toolsUsed = Some (length calls),
                         multiCity = Some (1 < length calls),
                         toolUsed = None, error = None\<rparr>\<rparr>
            | _ \<Rightarrow> toolErrorResponse (weatherErrorMessage (languageIsJa req)))"
    and "length obs = length calls"
proof -
  let ?toolResults = "map2 (\<lambda>tc ob. \<lparr>tool_call_id = call_id tc, result = ob\<rparr>) calls obs"
  obtain toolCall others where c: "calls = toolCall # others"
    using assms(5) by (cases calls) auto
  have len: "length calls = length obs"
    using assms(6) by (rule list_all2_lengthD)
  then show "length obs = length calls" by simp
  have all: "Promise_all (map snd (map (runToolCall env) calls)) = Inr ?toolResults"
    unfolding lookups_all_succeed [OF assms(6)] by (rule Promise_all_fulfils)
  have fin: "chatFinalRequest env req message ?toolResults = final"
    by (simp add: chatFinalRequest_def toolMessages_of_lookups assms(7))
  have res: "map result ?toolResults = obs" "length ?toolResults = length calls"
    using results_of_lookups [OF len] len by simp_all
  have "POST_chat env req =
           (CompletionRequested (chatFirstRequest env req)
              # concat (map fst (map (runToolCall env) calls))
              @ [CompletionRequested final],
            case openai env final of
              CompletionOk finalMessage \<Rightarrow>
                \<lparr>status = 200,
                 body = emptyBody
                   \<lparr>response := message_content finalMessage,
                    weatherData := Some (Array (map result ?toolResults)),
                    toolsUsed := Some (length ?toolResults),
                    multiCity := Some (length ?toolResults > 1)\<rparr>\<rparr>
            | _ \<Rightarrow> toolErrorResponse (weatherErrorMessage (languageIsJa req)))"
    using assms(1-4) all fin unfolding c
    by (simp add: POST_chat_def Let_def del: map_map split: CompletionOutcome.splits)
  then show "POST_chat env req =
           (CompletionRequested (chatFirstRequest env req)
              # concat (map (\<lambda>toolCall. fst (runToolCall env toolCall)) calls)
              @ [CompletionRequested final],
            case openai env final of
              CompletionOk finalMessage \<Rightarrow>
                \<lparr>status = 200,
                 body = \<lparr>response = message_content finalMessage,
                         weatherData = Some (Array obs), toolsUsed = Some (length calls),
                         multiCity = Some (1 < length calls),
                         toolUsed = None, error = None\<rparr>\<rparr>
            | _ \<Rightarrow> toolErrorResponse (weatherErrorMessage (languageIsJa req)))"
    unfolding res emptyBody_def by (simp add: comp_def split: CompletionOutcome.splits)
qed

text \<open>
  Claim C7, as amended. When the first completion requests the tool calls \<open>calls\<close>,
  every lookup succeeds (the arguments of the i-th call parse and its lookup returns
  the observation \<open>obs ! i\<close>) and the second completion succeeds, the handler answers
  with status 200, the text of the second completion, the observations as an array in
  the order of the tool calls, \<open>toolsUsed\<close> the number of tool calls and \<open>multiCity\<close> true
  exactly when there is more than one. The messages of the second request end with the
  assistant's tool-call message and then one tool-result message for each call, in the
  order of the calls, each with the identifier of its call and the \<open>JSON.stringify\<close> of
  its observation.
\<close>

theorem C7_all_lookups_succeed:
  assumes "truthy (OPENAI_API_KEY env)"
      and "lastMessageIsUser (req_messages req)"
      and "openai env (chatFirstRequest env req) = CompletionOk message"
      and "tool_calls message = Some calls" and "calls \<noteq> []"
      and "list_all2 (\<lambda>toolCall ob. case JSON_parse env (function_arguments toolCall) of
               None \<Rightarrow> False
             | Some args \<Rightarrow> snd (executeWeatherTool env args) = Inr ob) calls obs"
      and "final = \<lparr>request_messages =
                      SystemMessage (ComparisonFormattingPreamble
                                       (req_language req = Some (js ''ja'')))
                      # map HistoryMessage (req_messages req)
                      @ [AssistantToolCalls message]
                      @ map2 (\<lambda>toolCall ob. ToolResultMessage (call_id toolCall)
                                (JSON_stringify env ob)) calls obs,
                    declares_weatherTool = False\<rparr>"
      and "openai env final = CompletionOk finalMessage"
  shows "POST_chat env req =
           (CompletionRequested (chatFirstRequest env req)
              # concat (map (\<lambda>toolCall. fst (runToolCall env toolCall)) calls)
              @ [CompletionRequested final],
            \<lparr>status = 200,
             body = \<lparr>response = message_content finalMessage,
                     weatherData = Some (Array obs), toolsUsed = Some (length calls),
                     multiCity = Some (1 < length calls),
                     toolUsed = None, error = None\<rparr>\<rparr>)
         \<and> length obs = length calls"
proof -
  have final: "final = \<lparr>request_messages =
                      SystemMessage (ComparisonFormattingPreamble (languageIsJa req))
                      # map HistoryMessage (req_messages req)
                      @ [AssistantToolCalls message]
                      @ map2 (\<lambda>toolCall ob. ToolResultMessage (call_id toolCall)
                                (JSON_stringify env ob)) calls obs,
                    declares_weatherTool = False\<rparr>"
    using assms(7) by (simp add: languageIsJa_iff)
  show ?thesis
    using POST_chat_after_join [OF assms(1-6) final] assms(8) by simp
qed

text \<open>
  Claim C8, as amended. When the first completion of the handler of
  \<open>/api/chat-optimized\<close> carries one or more tool calls, the handler parses the
  arguments of the first call only. If they are not valid JSON it calls no lookup and
  answers with status 500, \<open>error: true\<close> and the general apology, in Japanese when the
  language of the request is \<open>ja\<close> and in English otherwise. If they are valid JSON,
  whatever value they denote, it calls the lookup exactly once, with that value,
  whatever further calls were requested; and when that lookup and the second completion
  succeed it answers with status 200, the text of the second completion, the one
  observation as an object and \<open>toolUsed: true\<close>.
\<close>

theorem C8_only_the_first_tool_call:
  assumes "truthy (OPENAI_API_KEY env)"
      and "openai env (optimizedFirstRequest req) = CompletionOk message"
      and "tool_calls message = Some (toolCall # others)"
  shows "(JSON_parse env (function_arguments toolCall) = None \<longrightarrow>
            POST_chat_optimized env req
              = ([CompletionRequested (optimizedFirstRequest req)],
                 \<lparr>status = 500,
                  body = \<lparr>response = Some
                            (if req_language req = Some (js ''ja'') then
                               [0x3059, 0x307F, 0x307E, 0x305B, 0x3093, 0x3001, 0x30A8,
                                0x30E9, 0x30FC, 0x304C, 0x767A, 0x751F, 0x3057, 0x307E,
                                0x3057, 0x305F, 0x3002, 0x3082, 0x3046, 0x4E00, 0x5EA6,
                                0x304A, 0x8A66, 0x3057, 0x304F, 0x3060, 0x3055, 0x3044,
                                0x3002]
                             else js ''Sorry, an error occurred. Please try again.''),
                          weatherData = None, toolsUsed = None, multiCity = None,
                          toolUsed = None, error = Some ErrorTrue\<rparr>\<rparr>))
       \<and> (JSON_parse env (function_arguments toolCall) = Some toolArgs \<longrightarrow>
            executedLookups (fst (POST_chat_optimized env req)) = [toolArgs]
          \<and> (executeWeatherTool env toolArgs = (sent, Inr weatherResult)
              \<and> openai env (optimizedFinalRequest env req message toolCall weatherResult)
                  = CompletionOk finalMessage \<longrightarrow>
              POST_chat_optimized env req
                = ([CompletionRequested (optimizedFirstRequest req),
                    ToolExecuted toolArgs sent,
                    CompletionRequested
                      (optimizedFinalRequest env req message toolCall weatherResult)],
                   \<lparr>status = 200,
                    body = \<lparr>response = message_content finalMessage,
                            weatherData = Some (Single weatherResult),
                            toolsUsed = None, multiCity = None,
                            toolUsed = Some True, error = None\<rparr>\<rparr>)))"
  using assms
  by (auto simp: POST_chat_optimized_def Let_def emptyBody_def fallbackResponse_def
      fallbackMessage_def languageIsJa_iff
      split: prod.splits sum.splits CompletionOutcome.splits)

lemma optimized_unparsable_arguments:
  assumes "truthy (OPENAI_API_KEY env)"
      and "openai env (optimizedFirstRequest req) = CompletionOk message"
      and "tool_calls message = Some (toolCall # others)"
      and "JSON_parse env (function_arguments toolCall) = None"
  shows "POST_chat_optimized env req
           = ([CompletionRequested (optimizedFirstRequest req)],
              fallbackResponse (languageIsJa req))"
  using assms by (simp add: POST_chat_optimized_def Let_def)

text \<open>
  The handler of \<open>/api/chat-optimized\<close> where the lookup of the first call throws: the
  message names what the template makes of \<open>toolArgs.location\<close>, and the outer \<open>catch\<close>
  answers where that cannot be read or converted.
\<close>

lemma optimized_failed_lookup:
  assumes "truthy (OPENAI_API_KEY env)"
      and "openai env (optimizedFirstRequest req) = CompletionOk message"
      and "tool_calls message = Some (toolCall # others)"
      and "JSON_parse env (function_arguments toolCall) = Some toolArgs"
      and "executeWeatherTool env toolArgs = (sent, Inl e)"
  shows "POST_chat_optimized env req
           = ([CompletionRequested (optimizedFirstRequest req), ToolExecuted toolArgs sent],
              toolErrorResponseFor env (languageIsJa req) toolArgs)"
  using assms by (simp add: POST_chat_optimized_def Let_def)

subsection \<open>The examples\<close>

lemma parseDate_absent: "parseDate tz today None = (None, Current)"
  by (simp add: parseDate_def toLowerCase_def lowerUnit_def js_def)

lemma example_fields:
  "OPENAI_API_KEY (exampleProviders calls final) = Some (js ''sk-test'')"
  "clock (exampleProviders calls final) = noon_2025_06_01"
  "zone (exampleProviders calls final) = fixedZone 0"
  "JSON_parse (exampleProviders calls final) = exampleParse"
  "JSON_stringify (exampleProviders calls final) r
     = [123, 34] @ js ''city'' @ [34, 58, 34] @ w_city r @ [34, 125]"
  "geocoding (exampleProviders calls final) n = GeocodingResults []"
  "weatherApi (exampleProviders calls final) u
     = WeatherOk \<lparr>body_current = Some exampleCurrent, body_daily = None\<rparr>"
  "openai (exampleProviders calls final) q
     = (if declares_weatherTool q
        then CompletionOk \<lparr>message_content = None, tool_calls = Some calls\<rparr> else final)"
  by (simp_all add: exampleProviders_def)

lemma unavailable_fields:
  "OPENAI_API_KEY (londonUnavailable env) = OPENAI_API_KEY env"
  "clock (londonUnavailable env) = clock env"
  "zone (londonUnavailable env) = zone env"
  "JSON_parse (londonUnavailable env) = JSON_parse env"
  "JSON_stringify (londonUnavailable env) = JSON_stringify env"
  "geocoding (londonUnavailable env) = geocoding env"
  "openai (londonUnavailable env) = openai env"
  by (simp_all add: londonUnavailable_def)

lemma example_keys:
  "readCityCoordinates (trim (toLowerCase (js ''Tokyo'')))
     = OwnEntry \<lparr>lat = 35.6762, lng = 139.6503, entry_country = js ''Japan''\<rparr>"
  "readCityCoordinates (trim (toLowerCase (js ''London'')))
     = OwnEntry \<lparr>lat = 51.5074, lng = - 0.1278, entry_country = js ''UK''\<rparr>"
  "readCityCoordinates (trim (toLowerCase (js ''Atlantis''))) = Absent"
  "isWellFormed (js ''Atlantis'')"
  by (simp_all add: readCityCoordinates_def CITY_COORDINATES_def trim_def toLowerCase_def
      lowerUnit_def js_def isWhiteSpace_def)

lemma example_properties:
  "readProperty (js ''location'') (locationOnly c) = Inr (Some (JString (js c)))"
  "readProperty (js ''date'') (locationOnly c) = Inr None"
  "readProperty (js ''location'') JNull = Inl TypeError"
  "readProperty (js ''location'') (JString s) = Inr None"
  by (simp_all add: readProperty_def locationOnly_def js_def)

text \<open>
  Rounding. The temperature 21.4 of the examples rounds to 21. The mean of the daily
  temperatures 8.2 and -1.2 rounds to 3, although their exact mean is 3.5: the sum of
  the two doubles is the double just below 7.
\<close>

lemma example_rounding:
  "Math_round (toDouble 21.4) = 21"
  "Math_round (toDouble (toDouble 8.2 + toDouble (- 1.2)) / 2) = 3"
  "toDouble (toDouble 8.2 + toDouble (- 1.2)) = 7 - 1 / 2 ^ 50"
  "toDouble (toDouble 8.2) = toDouble 8.2" "toDouble 7 = 7" "toDouble (1 / 2) = 1 / 2"
  "Math_round (- 5 / 2) = - 2" "Math_round (5 / 2) = 3"
  by code_simp+

lemma example_rounding_fractions:
  "Math_round (toDouble (107 / 5)) = 21"
  "Math_round (toDouble (toDouble (41 / 5) + toDouble (- (6 / 5))) / 2) = 3"
  using example_rounding by simp_all

lemma example_daily_observation:
  "map_sum id temperature
     (processWeather coords (Some d, Forecast)
        \<lparr>body_current = None,
         body_daily = Some [\<lparr>daily_time = d, temperature_2m_max = 8.2,
                              temperature_2m_min = - 1.2, daily_weather_code = 3,
                              relative_humidity_2m_max = 80, wind_speed_10m_max = 10,
                              precipitation_sum = 0, uv_index_max = 2\<rparr>]\<rparr>) = Inr 3"
  by (simp add: processWeather_def example_rounding_fractions)

lemma example_observation:
  "processWeather \<lparr>coords_lat = Some la, coords_lng = Some lo, coords_city = js c,
                   coords_country = Some (js k)\<rparr> (None, Current)
     \<lparr>body_current = Some exampleCurrent, body_daily = None\<rparr> = Inr (observationFor c k)"
  by (simp add: processWeather_def exampleCurrent_def observationFor_def
      example_rounding_fractions describe_def weatherDescriptions_def)

text \<open>A name with a surrogate outside a pair is not sent to the geocoding service.\<close>

lemma example_lone_surrogate:
  "getCoordinates geocode [0xD83C] = ([], Inl (CouldNotFindCoordinates [0xD83C]))"
  by (simp add: getCoordinates_def readCityCoordinates_def Let_def trim_def toLowerCase_def
      lowerUnit_def isWhiteSpace_def CITY_COORDINATES_def js_def)

text \<open>The lookup of a city of the table, with no date: one request for the current weather.\<close>

lemma lookup_of_table_city:
  assumes "readCityCoordinates (trim (toLowerCase (js c))) = OwnEntry e"
  shows "executeWeatherTool env (locationOnly c)
     = ([WeatherRequestSent (ForecastCurrent (lat e) (lng e))],
        case weatherApi env (ForecastCurrent (lat e) (lng e)) of
          WeatherFetchFailed \<Rightarrow> Inl FetchFailed
        | WeatherStatus st \<Rightarrow> Inl (WeatherApiError st)
        | WeatherOk data \<Rightarrow>
            processWeather \<lparr>coords_lat = Some (lat e), coords_lng = Some (lng e),
                            coords_city = js c, coords_country = Some (entry_country e)\<rparr>
              (None, Current) data)"
  using assms
  by (simp add: executeWeatherTool_def example_properties getCoordinatesOf_def
      getCoordinates_def parseDateOf_def parseDate_absent weatherRequest_def Let_def)

lemma example_lookups:
  "executeWeatherTool (exampleProviders calls final) (locationOnly ''Tokyo'')
     = ([WeatherRequestSent (ForecastCurrent 35.6762 139.6503)],
        Inr (observationFor ''Tokyo'' ''Japan''))"
  "executeWeatherTool (exampleProviders calls final) (locationOnly ''London'')
     = ([WeatherRequestSent (ForecastCurrent 51.5074 (- 0.1278))],
        Inr (observationFor ''London'' ''UK''))"
  "executeWeatherTool (exampleProviders calls final) (locationOnly ''Atlantis'')
     = ([GeocodingRequest (js ''Atlantis'')], Inl (CouldNotFindCoordinates (js ''Atlantis'')))"
  "executeWeatherTool (londonUnavailable (exampleProviders calls final)) (locationOnly ''Tokyo'')
     = ([WeatherRequestSent (ForecastCurrent 35.6762 139.6503)],
        Inr (observationFor ''Tokyo'' ''Japan''))"
  "executeWeatherTool (londonUnavailable (exampleProviders calls final)) (locationOnly ''London'')
     = ([WeatherRequestSent (ForecastCurrent 51.5074 (- 0.1278))], Inl (WeatherApiError 503))"
  "executeWeatherTool env JNull = ([], Inl TypeError)"
  "executeWeatherTool env (JString s) = ([], Inl TypeError)"
proof -
  show "executeWeatherTool (exampleProviders calls final) (locationOnly ''Tokyo'')
     = ([WeatherRequestSent (ForecastCurrent 35.6762 139.6503)],
        Inr (observationFor ''Tokyo'' ''Japan''))"
    by (simp add: lookup_of_table_city [OF example_keys(1)] example_fields example_observation)
  show "executeWeatherTool (exampleProviders calls final) (locationOnly ''London'')
     = ([WeatherRequestSent (ForecastCurrent 51.5074 (- 0.1278))],
        Inr (observationFor ''London'' ''UK''))"
    by (simp add: lookup_of_table_city [OF example_keys(2)] example_fields example_observation)
  show "executeWeatherTool (exampleProviders calls final) (locationOnly ''Atlantis'')
     = ([GeocodingRequest (js ''Atlantis'')], Inl (CouldNotFindCoordinates (js ''Atlantis'')))"
    by (simp add: executeWeatherTool_def example_properties getCoordinatesOf_def
        getCoordinates_def example_keys example_fields)
  show "executeWeatherTool (londonUnavailable (exampleProviders calls final))
          (locationOnly ''Tokyo'')
     = ([WeatherRequestSent (ForecastCurrent 35.6762 139.6503)],
        Inr (observationFor ''Tokyo'' ''Japan''))"
    by (simp add: lookup_of_table_city [OF example_keys(1)] londonUnavailable_def
        example_fields example_observation)
  show "executeWeatherTool (londonUnavailable (exampleProviders calls final))
          (locationOnly ''London'')
     = ([WeatherRequestSent (ForecastCurrent 51.5074 (- 0.1278))], Inl (WeatherApiError 503))"
    by (simp add: lookup_of_table_city [OF example_keys(2)] londonUnavailable_def)
  show "executeWeatherTool env JNull = ([], Inl TypeError)"
    by (simp add: executeWeatherTool_def example_properties)
  show "executeWeatherTool env (JString s) = ([], Inl TypeError)"
    by (simp add: executeWeatherTool_def example_properties getCoordinatesOf_def)
qed

lemma example_arguments:
  "exampleParse (argumentsFor (js ''Tokyo'')) = Some (locationOnly ''Tokyo'')"
  "exampleParse (argumentsFor (js ''London'')) = Some (locationOnly ''London'')"
  "exampleParse (argumentsFor (js ''Atlantis'')) = Some (locationOnly ''Atlantis'')"
  "exampleParse (js ''{'') = None"
  "exampleParse (function_arguments unparsableCall) = None"
  "exampleParse (function_arguments nullCall) = Some JNull"
  "exampleParse (function_arguments stringCall) = Some (JString (js ''Tokyo''))"
  by (simp_all add: exampleParse_def argumentsFor_def unparsableCall_def nullCall_def
      stringCall_def js_def)

lemma example_runs:
  "runToolCall (exampleProviders calls final) (toolCallFor i ''Tokyo'')
     = ([ToolExecuted (locationOnly ''Tokyo'')
           [WeatherRequestSent (ForecastCurrent 35.6762 139.6503)]],
        Inr \<lparr>tool_call_id = js i, result = observationFor ''Tokyo'' ''Japan''\<rparr>)"
  "runToolCall (exampleProviders calls final) (toolCallFor i ''London'')
     = ([ToolExecuted (locationOnly ''London'')
           [WeatherRequestSent (ForecastCurrent 51.5074 (- 0.1278))]],
        Inr \<lparr>tool_call_id = js i, result = observationFor ''London'' ''UK''\<rparr>)"
  "runToolCall (exampleProviders calls final) (toolCallFor i ''Atlantis'')
     = ([ToolExecuted (locationOnly ''Atlantis'') [GeocodingRequest (js ''Atlantis'')]],
        Inl (CouldNotFindCoordinates (js ''Atlantis'')))"
  "runToolCall (londonUnavailable (exampleProviders calls final)) (toolCallFor i ''Tokyo'')
     = ([ToolExecuted (locationOnly ''Tokyo'')
           [WeatherRequestSent (ForecastCurrent 35.6762 139.6503)]],
        Inr \<lparr>tool_call_id = js i, result = observationFor ''Tokyo'' ''Japan''\<rparr>)"
  "runToolCall (londonUnavailable (exampleProviders calls final)) (toolCallFor i ''London'')
     = ([ToolExecuted (locationOnly ''London'')
           [WeatherRequestSent (ForecastCurrent 51.5074 (- 0.1278))]],
        Inl (WeatherApiError 503))"
  by (simp_all add: runToolCall_def toolCallFor_def example_fields unavailable_fields
      example_arguments example_lookups)

lemma example_request:
  "truthy (Some (js ''sk-test''))" "lastMessageIsUser (req_messages exampleRequest)"
  "languageIsJa exampleRequest = False"
  "declares_weatherTool (chatFirstRequest env exampleRequest) = True"
  "declares_weatherTool (optimizedFirstRequest exampleRequest) = True"
  "declares_weatherTool (optimizedFinalRequest env exampleRequest m tc w) = False"
  "req_language exampleRequest \<noteq> Some (js ''ja'')"
  by (simp_all add: truthy_def lastMessageIsUser_def exampleRequest_def languageIsJa_def
      chatFirstRequest_def optimizedFirstRequest_def optimizedFinalRequest_def js_def)

lemma japanese_request:
  "lastMessageIsUser (req_messages japaneseRequest)"
  "req_language japaneseRequest = Some (js ''ja'')"
  "declares_weatherTool (chatFirstRequest env japaneseRequest) = True"
  by (simp_all add: lastMessageIsUser_def japaneseRequest_def chatFirstRequest_def js_def)

lemma example_projections:
  "call_id (toolCallFor i c) = js i"
  "function_arguments (toolCallFor i c) = argumentsFor (js c)"
  "req_messages exampleRequest
     = [\<lparr>role = js ''user'', content = js ''Tokyo and London weather''\<rparr>]"
  by (simp_all add: toolCallFor_def exampleRequest_def)

lemma example_preconditions:
  "truthy (OPENAI_API_KEY (exampleProviders calls final))"
  "openai (exampleProviders calls final)
     (chatFirstRequest (exampleProviders calls final) exampleRequest)
     = CompletionOk \<lparr>message_content = None, tool_calls = Some calls\<rparr>"
  "openai (exampleProviders calls final) (optimizedFirstRequest exampleRequest)
     = CompletionOk \<lparr>message_content = None, tool_calls = Some calls\<rparr>"
  "truthy (OPENAI_API_KEY (londonUnavailable (exampleProviders calls final)))"
  "openai (londonUnavailable (exampleProviders calls final))
     (chatFirstRequest (londonUnavailable (exampleProviders calls final)) japaneseRequest)
     = CompletionOk \<lparr>message_content = None, tool_calls = Some calls\<rparr>"
  by (simp_all add: example_fields unavailable_fields example_request japanese_request)

text \<open>The completion requests of the examples, written out.\<close>

lemma example_requests:
  "chatFirstRequest (exampleProviders calls final) exampleRequest
     = \<lparr>request_messages =
          [SystemMessage (DatedAssistantPreamble False (js ''2025-06-01'') 2025),
           HistoryMessage \<lparr>role = js ''user'', content = js ''Tokyo and London weather''\<rparr>],
        declares_weatherTool = True\<rparr>"
  "optimizedFirstRequest exampleRequest
     = \<lparr>request_messages =
          [SystemMessage (AssistantPreamble False),
           HistoryMessage \<lparr>role = js ''user'', content = js ''Tokyo and London weather''\<rparr>],
        declares_weatherTool = True\<rparr>"
  "optimizedFinalRequest (exampleProviders calls final) exampleRequest m
       (toolCallFor ''call_1'' ''Tokyo'') (observationFor ''Tokyo'' ''Japan'')
     = \<lparr>request_messages =
          [SystemMessage (FormattingPreamble False),
           HistoryMessage \<lparr>role = js ''user'', content = js ''Tokyo and London weather''\<rparr>,
           AssistantToolCalls m,
           ToolResultMessage (js ''call_1'')
             ([123, 34] @ js ''city'' @ [34, 58, 34] @ js ''Tokyo'' @ [34, 125])],
        declares_weatherTool = False\<rparr>"
proof -
  have year: "getFullYear (fixedZone 0) noon_2025_06_01 = 2025"
    by (simp add: getFullYear_def LocalTime_def fixedZone_def YearFromTime_def example_days
        civil_dates)
  show "chatFirstRequest (exampleProviders calls final) exampleRequest
     = \<lparr>request_messages =
          [SystemMessage (DatedAssistantPreamble False (js ''2025-06-01'') 2025),
           HistoryMessage \<lparr>role = js ''user'', content = js ''Tokyo and London weather''\<rparr>],
        declares_weatherTool = True\<rparr>"
    by (simp add: chatFirstRequest_def example_fields example_request(3) example_projections
        example_dates(1) year)
  show "optimizedFirstRequest exampleRequest
     = \<lparr>request_messages =
          [SystemMessage (AssistantPreamble False),
           HistoryMessage \<lparr>role = js ''user'', content = js ''Tokyo and London weather''\<rparr>],
        declares_weatherTool = True\<rparr>"
    by (simp add: optimizedFirstRequest_def example_request(3) example_projections)
  show "optimizedFinalRequest (exampleProviders calls final) exampleRequest m
       (toolCallFor ''call_1'' ''Tokyo'') (observationFor ''Tokyo'' ''Japan'')
     = \<lparr>request_messages =
          [SystemMessage (FormattingPreamble False),
           HistoryMessage \<lparr>role = js ''user'', content = js ''Tokyo and London weather''\<rparr>,
           AssistantToolCalls m,
           ToolResultMessage (js ''call_1'')
             ([123, 34] @ js ''city'' @ [34, 58, 34] @ js ''Tokyo'' @ [34, 125])],
        declares_weatherTool = False\<rparr>"
    by (simp add: optimizedFinalRequest_def example_request(3) example_projections
        example_fields observationFor_def)
qed

lemma twoCities_succeed:
  "list_all2 (\<lambda>toolCall ob.
       case JSON_parse (exampleProviders calls final) (function_arguments toolCall) of
         None \<Rightarrow> False
       | Some args \<Rightarrow> snd (executeWeatherTool (exampleProviders calls final) args) = Inr ob)
     twoCities [observationFor ''Tokyo'' ''Japan'', observationFor ''London'' ''UK'']"
  by (simp add: twoCities_def example_fields example_projections example_arguments
      example_lookups)

theorem C1_witness:
  "snd (executeWeatherTool (exampleProviders oneUnknownCity formatted) (locationOnly ''Tokyo''))
     = Inr (observationFor ''Tokyo'' ''Japan'')
   \<and> snd (executeWeatherTool (exampleProviders oneUnknownCity formatted)
           (locationOnly ''Atlantis''))
     = Inl (CouldNotFindCoordinates (js ''Atlantis''))
   \<and> POST_chat (exampleProviders oneUnknownCity formatted) exampleRequest
     = ([CompletionRequested
           \<lparr>request_messages =
              [SystemMessage (DatedAssistantPreamble False (js ''2025-06-01'') 2025),
               HistoryMessage \<lparr>role = js ''user'', content = js ''Tokyo and London weather''\<rparr>],
            declares_weatherTool = True\<rparr>,
         ToolExecuted (locationOnly ''Tokyo'')
           [WeatherRequestSent (ForecastCurrent 35.6762 139.6503)],
         ToolExecuted (locationOnly ''Atlantis'') [GeocodingRequest (js ''Atlantis'')]],
        \<lparr>status = 200,
         body = \<lparr>response = Some
                   (js ''Sorry, I couldn'' @ [39]
                    @ js ''t get weather information. Please try different city names.''),
                 weatherData = None, toolsUsed = None, multiCity = None,
                 toolUsed = None, error = Some ErrorTrue\<rparr>\<rparr>)
   \<and> snd (executeWeatherTool (londonUnavailable (exampleProviders twoCities formatted))
           (locationOnly ''Tokyo''))
     = Inr (observationFor ''Tokyo'' ''Japan'')
   \<and> snd (executeWeatherTool (londonUnavailable (exampleProviders twoCities formatted))
           (locationOnly ''London''))
     = Inl (WeatherApiError 503)
   \<and> req_language japaneseRequest = Some (js ''ja'')
   \<and> snd (POST_chat (londonUnavailable (exampleProviders twoCities formatted)) japaneseRequest)
     = \<lparr>status = 200,
        body = \<lparr>response = Some
                  [0x7533, 0x3057, 0x8A33, 0x3054, 0x3056, 0x3044, 0x307E, 0x305B,
                   0x3093, 0x304C, 0x3001, 0x5929, 0x6C17, 0x60C5, 0x5831, 0x3092,
                   0x53D6, 0x5F97, 0x3067, 0x304D, 0x307E, 0x305B, 0x3093, 0x3067,
                   0x3057, 0x305F, 0x3002, 0x5225, 0x306E, 0x90FD, 0x5E02, 0x540D,
                   0x3092, 0x304A, 0x8A66, 0x3057, 0x304F, 0x3060, 0x3055, 0x3044,
                   0x3002],
                weatherData = None, toolsUsed = None, multiCity = None,
                toolUsed = None, error = Some ErrorTrue\<rparr>\<rparr>
   \<and> executedLookups
         (fst (POST_chat (londonUnavailable (exampleProviders twoCities formatted))
                 japaneseRequest))
     = [locationOnly ''Tokyo'', locationOnly ''London'']"
proof -
  let ?env = "exampleProviders oneUnknownCity formatted"
  let ?down = "londonUnavailable (exampleProviders twoCities formatted)"
  have unknown: "\<exists>toolCall\<in>set oneUnknownCity.
      case JSON_parse ?env (function_arguments toolCall) of
        None \<Rightarrow> True
      | Some args \<Rightarrow> isl (snd (executeWeatherTool ?env args))"
    by (simp add: oneUnknownCity_def example_fields example_projections example_arguments
        example_lookups)
  have down: "\<exists>toolCall\<in>set twoCities.
      case JSON_parse ?down (function_arguments toolCall) of
        None \<Rightarrow> True
      | Some args \<Rightarrow> isl (snd (executeWeatherTool ?down args))"
    by (simp add: twoCities_def example_fields unavailable_fields example_projections
        example_arguments example_lookups)
  have calls: "tool_calls \<lparr>message_content = None, tool_calls = Some oneUnknownCity\<rparr>
      = Some oneUnknownCity" "oneUnknownCity \<noteq> []"
    "tool_calls \<lparr>message_content = None, tool_calls = Some twoCities\<rparr> = Some twoCities"
    "twoCities \<noteq> []"
    by (simp_all add: oneUnknownCity_def twoCities_def)
  have english: "POST_chat ?env exampleRequest
     = ([CompletionRequested (chatFirstRequest ?env exampleRequest),
         ToolExecuted (locationOnly ''Tokyo'')
           [WeatherRequestSent (ForecastCurrent 35.6762 139.6503)],
         ToolExecuted (locationOnly ''Atlantis'') [GeocodingRequest (js ''Atlantis'')]],
        \<lparr>status = 200,
         body = \<lparr>response = Some
                   (js ''Sorry, I couldn'' @ [39]
                    @ js ''t get weather information. Please try different city names.''),
                 weatherData = None, toolsUsed = None, multiCity = None,
                 toolUsed = None, error = Some ErrorTrue\<rparr>\<rparr>)"
    using C1_any_failed_lookup_fails_the_turn
      [OF example_preconditions(1) example_request(2) example_preconditions(2)
          calls(1,2) unknown]
    by (simp add: example_request(7)) (simp add: oneUnknownCity_def example_runs)
  have started: "List.map_filter (\<lambda>toolCall. JSON_parse ?down (function_arguments toolCall))
      twoCities = [locationOnly ''Tokyo'', locationOnly ''London'']"
    by (simp add: twoCities_def map_filter_simps example_fields unavailable_fields
        example_projections example_arguments)
  note down_turn = C1_any_failed_lookup_fails_the_turn
      [OF example_preconditions(4) japanese_request(1) example_preconditions(5)
          calls(3,4) down]
  have japanese: "snd (POST_chat ?down japaneseRequest)
     = \<lparr>status = 200,
        body = \<lparr>response = Some
                  [0x7533, 0x3057, 0x8A33, 0x3054, 0x3056, 0x3044, 0x307E, 0x305B,
                   0x3093, 0x304C, 0x3001, 0x5929, 0x6C17, 0x60C5, 0x5831, 0x3092,
                   0x53D6, 0x5F97, 0x3067, 0x304D, 0x307E, 0x305B, 0x3093, 0x3067,
                   0x3057, 0x305F, 0x3002, 0x5225, 0x306E, 0x90FD, 0x5E02, 0x540D,
                   0x3092, 0x304A, 0x8A66, 0x3057, 0x304F, 0x3060, 0x3055, 0x3044,
                   0x3002],
                weatherData = None, toolsUsed = None, multiCity = None,
                toolUsed = None, error = Some ErrorTrue\<rparr>\<rparr>"
    using conjunct1 [OF down_turn] by (simp add: japanese_request(2))
  have lookups: "executedLookups (fst (POST_chat ?down japaneseRequest))
     = [locationOnly ''Tokyo'', locationOnly ''London'']"
    using conjunct2 [OF down_turn] started by simp
  show ?thesis
    using english japanese lookups
    by (simp add: example_lookups japanese_request(2) example_requests(1))
qed

theorem C7_witness:
  "JSON_parse (exampleProviders twoCities formatted)
       (function_arguments (toolCallFor ''call_1'' ''Tokyo'')) = Some (locationOnly ''Tokyo'')
   \<and> snd (executeWeatherTool (exampleProviders twoCities formatted) (locationOnly ''Tokyo''))
     = Inr (observationFor ''Tokyo'' ''Japan'')
   \<and> JSON_parse (exampleProviders twoCities formatted)
       (function_arguments (toolCallFor ''call_2'' ''London'')) = Some (locationOnly ''London'')
   \<and> snd (executeWeatherTool (exampleProviders twoCities formatted) (locationOnly ''London''))
     = Inr (observationFor ''London'' ''UK'')
   \<and> POST_chat (exampleProviders twoCities formatted) exampleRequest
     = ([CompletionRequested
           \<lparr>request_messages =
              [SystemMessage (DatedAssistantPreamble False (js ''2025-06-01'') 2025),
               HistoryMessage \<lparr>role = js ''user'', content = js ''Tokyo and London weather''\<rparr>],
            declares_weatherTool = True\<rparr>,
         ToolExecuted (locationOnly ''Tokyo'')
           [WeatherRequestSent (ForecastCurrent 35.6762 139.6503)],
         ToolExecuted (locationOnly ''London'')
           [WeatherRequestSent (ForecastCurrent 51.5074 (- 0.1278))],
         CompletionRequested
           \<lparr>request_messages =
              [SystemMessage (ComparisonFormattingPreamble False),
               HistoryMessage \<lparr>role = js ''user'', content = js ''Tokyo and London weather''\<rparr>,
               AssistantToolCalls \<lparr>message_content = None, tool_calls = Some twoCities\<rparr>,
               ToolResultMessage (js ''call_1'')
                 ([123, 34] @ js ''city'' @ [34, 58, 34] @ js ''Tokyo'' @ [34, 125]),
               ToolResultMessage (js ''call_2'')
                 ([123, 34] @ js ''city'' @ [34, 58, 34] @ js ''London'' @ [34, 125])],
            declares_weatherTool = False\<rparr>],
        \<lparr>status = 200,
         body = \<lparr>response = Some (js ''Tokyo and London are both mild.''),
                 weatherData = Some (Array [observationFor ''Tokyo'' ''Japan'',
                                            observationFor ''London'' ''UK'']),
                 toolsUsed = Some 2, multiCity = Some True,
                 toolUsed = None, error = None\<rparr>\<rparr>)"
proof -
  let ?env = "exampleProviders twoCities formatted"
  let ?message = "\<lparr>message_content = None, tool_calls = Some twoCities\<rparr>"
  let ?obs = "[observationFor ''Tokyo'' ''Japan'', observationFor ''London'' ''UK'']"
  let ?final = "\<lparr>request_messages =
                   SystemMessage (ComparisonFormattingPreamble
                                    (req_language exampleRequest = Some (js ''ja'')))
                   # map HistoryMessage (req_messages exampleRequest)
                   @ [AssistantToolCalls ?message]
                   @ map2 (\<lambda>toolCall ob. ToolResultMessage (call_id toolCall)
                             (JSON_stringify ?env ob)) twoCities ?obs,
                 declares_weatherTool = False\<rparr>"
  have calls: "tool_calls ?message = Some twoCities" "twoCities \<noteq> []"
    by (simp_all add: twoCities_def)
  have second: "openai ?env ?final
      = CompletionOk \<lparr>message_content = Some (js ''Tokyo and London are both mild.''),
                       tool_calls = None\<rparr>"
    by (simp add: example_fields formatted_def)
  have facts: "JSON_parse ?env (function_arguments (toolCallFor ''call_1'' ''Tokyo''))
        = Some (locationOnly ''Tokyo'')"
    "JSON_parse ?env (function_arguments (toolCallFor ''call_2'' ''London''))
        = Some (locationOnly ''London'')"
    by (simp_all add: example_fields example_projections example_arguments)
  from C7_all_lookups_succeed
    [OF example_preconditions(1) example_request(2) example_preconditions(2) calls
        twoCities_succeed refl second]
  have "POST_chat ?env exampleRequest
     = ([CompletionRequested (chatFirstRequest ?env exampleRequest),
         ToolExecuted (locationOnly ''Tokyo'')
           [WeatherRequestSent (ForecastCurrent 35.6762 139.6503)],
         ToolExecuted (locationOnly ''London'')
           [WeatherRequestSent (ForecastCurrent 51.5074 (- 0.1278))],
         CompletionRequested
           \<lparr>request_messages =
              [SystemMessage (ComparisonFormattingPreamble False),
               HistoryMessage \<lparr>role = js ''user'', content = js ''Tokyo and London weather''\<rparr>,
               AssistantToolCalls ?message,
               ToolResultMessage (js ''call_1'')
                 ([123, 34] @ js ''city'' @ [34, 58, 34] @ js ''Tokyo'' @ [34, 125]),
               ToolResultMessage (js ''call_2'')
                 ([123, 34] @ js ''city'' @ [34, 58, 34] @ js ''London'' @ [34, 125])],
            declares_weatherTool = False\<rparr>],
        \<lparr>status = 200,
         body = \<lparr>response = Some (js ''Tokyo and London are both mild.''),
                 weatherData = Some (Array ?obs),
                 toolsUsed = Some 2, multiCity = Some True,
                 toolUsed = None, error = None\<rparr>\<rparr>)"
    by (simp add: example_request example_projections example_fields)
       (simp add: twoCities_def example_runs example_projections observationFor_def)
  then show ?thesis
    using facts by (simp add: example_lookups example_requests(1))
qed

text \<open>
  The claim as it is written fails where the second completion fails: both lookups
  have succeeded, and the response carries \<open>error: true\<close> and no \<open>toolsUsed\<close>,
  \<open>multiCity\<close> or observations.
\<close>

theorem C7_counterexample:
  "openai (exampleProviders twoCities (CompletionStatus 500))
       (chatFirstRequest (exampleProviders twoCities (CompletionStatus 500)) exampleRequest)
     = CompletionOk \<lparr>message_content = None, tool_calls = Some twoCities\<rparr>
   \<and> JSON_parse (exampleProviders twoCities (CompletionStatus 500))
       (function_arguments (toolCallFor ''call_1'' ''Tokyo'')) = Some (locationOnly ''Tokyo'')
   \<and> snd (executeWeatherTool (exampleProviders twoCities (CompletionStatus 500))
           (locationOnly ''Tokyo''))
     = Inr (observationFor ''Tokyo'' ''Japan'')
   \<and> JSON_parse (exampleProviders twoCities (CompletionStatus 500))
       (function_arguments (toolCallFor ''call_2'' ''London'')) = Some (locationOnly ''London'')
   \<and> snd (executeWeatherTool (exampleProviders twoCities (CompletionStatus 500))
           (locationOnly ''London''))
     = Inr (observationFor ''London'' ''UK'')
   \<and> snd (POST_chat (exampleProviders twoCities (CompletionStatus 500)) exampleRequest)
     = \<lparr>status = 200,
        body = \<lparr>response = Some
                  (js ''Sorry, I couldn'' @ [39]
                   @ js ''t get weather information. Please try different city names.''),
                weatherData = None, toolsUsed = None, multiCity = None,
                toolUsed = None, error = Some ErrorTrue\<rparr>\<rparr>"
proof -
  let ?env = "exampleProviders twoCities (CompletionStatus 500)"
  let ?message = "\<lparr>message_content = None, tool_calls = Some twoCities\<rparr>"
  have calls: "tool_calls ?message = Some twoCities" "twoCities \<noteq> []"
    by (simp_all add: twoCities_def)
  have facts: "JSON_parse ?env (function_arguments (toolCallFor ''call_1'' ''Tokyo''))
        = Some (locationOnly ''Tokyo'')"
    "JSON_parse ?env (function_arguments (toolCallFor ''call_2'' ''London''))
        = Some (locationOnly ''London'')"
    by (simp_all add: example_fields example_projections example_arguments)
  from POST_chat_after_join(1)
    [OF example_preconditions(1) example_request(2) example_preconditions(2) calls
        twoCities_succeed refl]
  have "snd (POST_chat ?env exampleRequest)
     = \<lparr>status = 200,
        body = \<lparr>response = Some
                  (js ''Sorry, I couldn'' @ [39]
                   @ js ''t get weather information. Please try different city names.''),
                weatherData = None, toolsUsed = None, multiCity = None,
                toolUsed = None, error = Some ErrorTrue\<rparr>\<rparr>"
    by (simp add: example_fields example_request toolErrorResponse_def emptyBody_def
        weatherErrorMessage_def)
  then show ?thesis
    using facts by (simp add: example_lookups example_preconditions)
qed

theorem C8_witness:
  "executedLookups (fst (POST_chat_optimized (exampleProviders twoCities formatted)
      exampleRequest)) = [locationOnly ''Tokyo'']
   \<and> fst (POST_chat_optimized (exampleProviders twoCities formatted) exampleRequest)
     = [CompletionRequested
          \<lparr>request_messages =
             [SystemMessage (AssistantPreamble False),
              HistoryMessage \<lparr>role = js ''user'', content = js ''Tokyo and London weather''\<rparr>],
           declares_weatherTool = True\<rparr>,
        ToolExecuted (locationOnly ''Tokyo'')
          [WeatherRequestSent (ForecastCurrent 35.6762 139.6503)],
        CompletionRequested
          \<lparr>request_messages =
             [SystemMessage (FormattingPreamble False),
              HistoryMessage \<lparr>role = js ''user'', content = js ''Tokyo and London weather''\<rparr>,
              AssistantToolCalls \<lparr>message_content = None, tool_calls = Some twoCities\<rparr>,
              ToolResultMessage (js ''call_1'')
                ([123, 34] @ js ''city'' @ [34, 58, 34] @ js ''Tokyo'' @ [34, 125])],
           declares_weatherTool = False\<rparr>]
   \<and> snd (POST_chat_optimized (exampleProviders twoCities formatted) exampleRequest)
     = \<lparr>status = 200,
        body = \<lparr>response = Some (js ''Tokyo and London are both mild.''),
                weatherData = Some (Single (observationFor ''Tokyo'' ''Japan'')),
                toolsUsed = None, multiCity = None,
                toolUsed = Some True, error = None\<rparr>\<rparr>
   \<and> POST_chat_optimized (exampleProviders [unparsableCall] formatted) exampleRequest
     = ([CompletionRequested (optimizedFirstRequest exampleRequest)],
        \<lparr>status = 500,
         body = \<lparr>response = Some (js ''Sorry, an error occurred. Please try again.''),
                 weatherData = None, toolsUsed = None, multiCity = None,
                 toolUsed = None, error = Some ErrorTrue\<rparr>\<rparr>)
   \<and> executedLookups (fst (POST_chat_optimized (exampleProviders [stringCall] formatted)
        exampleRequest)) = [JString (js ''Tokyo'')]
   \<and> executedLookups (fst (POST_chat_optimized (exampleProviders [nullCall] formatted)
        exampleRequest)) = [JNull]"
proof -
  let ?env = "exampleProviders twoCities formatted"
  let ?message = "\<lparr>message_content = None, tool_calls = Some twoCities\<rparr>"
  let ?bad = "exampleProviders [unparsableCall] formatted"
  have calls: "tool_calls ?message
      = Some (toolCallFor ''call_1'' ''Tokyo'' # [toolCallFor ''call_2'' ''London''])"
    by (simp add: twoCities_def)
  have one: "tool_calls \<lparr>message_content = None, tool_calls = Some [c]\<rparr> = Some (c # [])"
    for c :: ToolCall
    by simp
  have final: "openai ?env (optimizedFinalRequest ?env exampleRequest ?message
        (toolCallFor ''call_1'' ''Tokyo'') (observationFor ''Tokyo'' ''Japan''))
      = CompletionOk \<lparr>message_content = Some (js ''Tokyo and London are both mild.''),
                       tool_calls = None\<rparr>"
    by (simp add: example_fields example_request formatted_def)
  have parses: "JSON_parse ?bad (function_arguments unparsableCall) = None"
    "JSON_parse (exampleProviders [stringCall] formatted) (function_arguments stringCall)
       = Some (JString (js ''Tokyo''))"
    "JSON_parse (exampleProviders [nullCall] formatted) (function_arguments nullCall)
       = Some JNull"
    by (simp_all add: example_fields example_arguments)
  have first: "executedLookups (fst (POST_chat_optimized ?env exampleRequest))
        = [locationOnly ''Tokyo'']
      \<and> fst (POST_chat_optimized ?env exampleRequest)
        = [CompletionRequested (optimizedFirstRequest exampleRequest),
           ToolExecuted (locationOnly ''Tokyo'')
             [WeatherRequestSent (ForecastCurrent 35.6762 139.6503)],
           CompletionRequested
             (optimizedFinalRequest ?env exampleRequest ?message
                (toolCallFor ''call_1'' ''Tokyo'') (observationFor ''Tokyo'' ''Japan''))]
      \<and> snd (POST_chat_optimized ?env exampleRequest)
        = \<lparr>status = 200,
           body = \<lparr>response = Some (js ''Tokyo and London are both mild.''),
                   weatherData = Some (Single (observationFor ''Tokyo'' ''Japan'')),
                   toolsUsed = None, multiCity = None,
                   toolUsed = Some True, error = None\<rparr>\<rparr>"
    using C8_only_the_first_tool_call
      [where env = ?env and req = exampleRequest and message = ?message
         and toolCall = "toolCallFor ''call_1'' ''Tokyo''"
         and others = "[toolCallFor ''call_2'' ''London'']"
         and toolArgs = "locationOnly ''Tokyo''"
         and sent = "[WeatherRequestSent (ForecastCurrent 35.6762 139.6503)]"
         and weatherResult = "observationFor ''Tokyo'' ''Japan''"
         and finalMessage = "\<lparr>message_content = Some (js ''Tokyo and London are both mild.''),
                              tool_calls = None\<rparr>",
       OF example_preconditions(1) example_preconditions(3) calls]
      final
    by (simp add: example_fields example_projections example_arguments example_lookups)
  have unparsable: "POST_chat_optimized ?bad exampleRequest
     = ([CompletionRequested (optimizedFirstRequest exampleRequest)],
        \<lparr>status = 500,
         body = \<lparr>response = Some (js ''Sorry, an error occurred. Please try again.''),
                 weatherData = None, toolsUsed = None, multiCity = None,
                 toolUsed = None, error = Some ErrorTrue\<rparr>\<rparr>)"
    using C8_only_the_first_tool_call
      [where env = ?bad and req = exampleRequest
         and message = "\<lparr>message_content = None, tool_calls = Some [unparsableCall]\<rparr>"
         and toolCall = unparsableCall and others = "[]",
       OF example_preconditions(1) example_preconditions(3) one]
      parses(1)
    by (simp add: example_request(7))
  have string: "executedLookups
        (fst (POST_chat_optimized (exampleProviders [stringCall] formatted) exampleRequest))
      = [JString (js ''Tokyo'')]"
    using C8_only_the_first_tool_call
      [where env = "exampleProviders [stringCall] formatted" and req = exampleRequest
         and message = "\<lparr>message_content = None, tool_calls = Some [stringCall]\<rparr>"
         and toolCall = stringCall and others = "[]"
         and toolArgs = "JString (js ''Tokyo'')",
       OF example_preconditions(1) example_preconditions(3) one]
      parses(2)
    by simp
  have null: "executedLookups
        (fst (POST_chat_optimized (exampleProviders [nullCall] formatted) exampleRequest))
      = [JNull]"
    using C8_only_the_first_tool_call
      [where env = "exampleProviders [nullCall] formatted" and req = exampleRequest
         and message = "\<lparr>message_content = None, tool_calls = Some [nullCall]\<rparr>"
         and toolCall = nullCall and others = "[]" and toolArgs = JNull,
       OF example_preconditions(1) example_preconditions(3) one]
      parses(3)
    by simp
  show ?thesis
    using first unparsable string null by (simp add: example_requests)
qed

text \<open>
  Arguments that are valid JSON but no object: the lookup is called and throws before
  it sends a request. For the string \<open>"Tokyo"\<close> the message names the location
  \<open>undefined\<close>; for \<open>null\<close> the inner \<open>catch\<close> throws in its turn and the outer one answers.
\<close>

lemma optimized_arguments_without_location:
  "POST_chat_optimized (exampleProviders [stringCall] formatted) exampleRequest
     = ([CompletionRequested (optimizedFirstRequest exampleRequest),
         ToolExecuted (JString (js ''Tokyo'')) []],
        \<lparr>status = 200,
         body = \<lparr>response = Some
                   (js ''Sorry, I couldn'' @ [39]
                    @ js ''t get weather information for undefined. ''
                    @ js ''Please try a different city name.''),
                 weatherData = None, toolsUsed = None, multiCity = None,
                 toolUsed = None, error = Some ErrorTrue\<rparr>\<rparr>)"
  "POST_chat_optimized (exampleProviders [nullCall] formatted) exampleRequest
     = ([CompletionRequested (optimizedFirstRequest exampleRequest), ToolExecuted JNull []],
        \<lparr>status = 500,
         body = \<lparr>response = Some (js ''Sorry, an error occurred. Please try again.''),
                 weatherData = None, toolsUsed = None, multiCity = None,
                 toolUsed = None, error = Some ErrorTrue\<rparr>\<rparr>)"
proof -
  have one: "tool_calls \<lparr>message_content = None, tool_calls = Some [c]\<rparr> = Some (c # [])"
    for c :: ToolCall
    by simp
  have parses:
    "JSON_parse (exampleProviders [stringCall] formatted) (function_arguments stringCall)
       = Some (JString (js ''Tokyo''))"
    "JSON_parse (exampleProviders [nullCall] formatted) (function_arguments nullCall)
       = Some JNull"
    by (simp_all add: example_fields example_arguments)
  have caught:
    "toolErrorResponseFor env False (JString (js ''Tokyo''))
       = \<lparr>status = 200,
          body = \<lparr>response = Some
                    (js ''Sorry, I couldn'' @ [39]
                     @ js ''t get weather information for undefined. ''
                     @ js ''Please try a different city name.''),
                  weatherData = None, toolsUsed = None, multiCity = None,
                  toolUsed = None, error = Some ErrorTrue\<rparr>\<rparr>"
    "toolErrorResponseFor env False JNull
       = \<lparr>status = 500,
          body = \<lparr>response = Some (js ''Sorry, an error occurred. Please try again.''),
                  weatherData = None, toolsUsed = None, multiCity = None,
                  toolUsed = None, error = Some ErrorTrue\<rparr>\<rparr>" for env
    by (simp_all add: toolErrorResponseFor_def readProperty_def templateString_def
        toolErrorResponse_def fallbackResponse_def fallbackMessage_def emptyBody_def
        weatherErrorMessageFor_def js_def)
  show "POST_chat_optimized (exampleProviders [stringCall] formatted) exampleRequest
     = ([CompletionRequested (optimizedFirstRequest exampleRequest),
         ToolExecuted (JString (js ''Tokyo'')) []],
        \<lparr>status = 200,
         body = \<lparr>response = Some
                   (js ''Sorry, I couldn'' @ [39]
                    @ js ''t get weather information for undefined. ''
                    @ js ''Please try a different city name.''),
                 weatherData = None, toolsUsed = None, multiCity = None,
                 toolUsed = None, error = Some ErrorTrue\<rparr>\<rparr>)"
    using optimized_failed_lookup
      [OF example_preconditions(1) example_preconditions(3) one parses(1) example_lookups(7)]
    by (simp add: caught example_request)
  show "POST_chat_optimized (exampleProviders [nullCall] formatted) exampleRequest
     = ([CompletionRequested (optimizedFirstRequest exampleRequest), ToolExecuted JNull []],
        \<lparr>status = 500,
         body = \<lparr>response = Some (js ''Sorry, an error occurred. Please try again.''),
                 weatherData = None, toolsUsed = None, multiCity = None,
                 toolUsed = None, error = Some ErrorTrue\<rparr>\<rparr>)"
    using optimized_failed_lookup
      [OF example_preconditions(1) example_preconditions(3) one parses(2) example_lookups(6)]
    by (simp add: caught example_request)
qed

text \<open>
  The claim as it is written fails where the arguments of the first tool call are not
  valid JSON: the completion carries a tool call, and the handler executes no lookup.
\<close>

theorem C8_counterexample:
  "openai (exampleProviders [unparsableCall] formatted) (optimizedFirstRequest exampleRequest)
     = CompletionOk \<lparr>message_content = None, tool_calls = Some [unparsableCall]\<rparr>
   \<and> executedLookups (fst (POST_chat_optimized (exampleProviders [unparsableCall] formatted)
        exampleRequest)) = []
   \<and> snd (POST_chat_optimized (exampleProviders [unparsableCall] formatted) exampleRequest)
     = \<lparr>status = 500,
        body = \<lparr>response = Some (js ''Sorry, an error occurred. Please try again.''),
                weatherData = None, toolsUsed = None, multiCity = None,
                toolUsed = None, error = Some ErrorTrue\<rparr>\<rparr>"
proof -
  let ?bad = "exampleProviders [unparsableCall] formatted"
  have bad: "tool_calls \<lparr>message_content = None, tool_calls = Some [unparsableCall]\<rparr>
      = Some (unparsableCall # [])"
    by simp
  have unparsable: "JSON_parse ?bad (function_arguments unparsableCall) = None"
    by (simp add: example_fields example_arguments)
  from optimized_unparsable_arguments
      [OF example_preconditions(1) example_preconditions(3) bad unparsable]
  show ?thesis
    by (simp add: example_preconditions example_request fallbackResponse_def
        fallbackMessage_def emptyBody_def)
qed

end
